theory Spec2Isabelle
  imports Main "HOL-Library.Word"
begin

unbundle bit_operations_syntax

section \<open>Machine types\<close>

type_synonym u8 = "8 word"
type_synonym u16 = "16 word"

section \<open>AVDTP signaling: constants\<close>

text \<open>
  The return value of every AVDTP parsing function is a one byte error code, zero for
  success. The numeric values of the named codes are in avdt_api.h, which is not among
  the sources; the parsers only ever compare a code with zero, so the codes are an
  enumeration here and \<open>AVDT_SUCCESS\<close> stands for the byte 0.
\<close>

datatype avdt_err =
    AVDT_SUCCESS
  | AVDT_ERR_BAD_STATE
  | AVDT_ERR_PAYLOAD
  | AVDT_ERR_CATEGORY
  | AVDT_ERR_MEDIA_TRANS
  | AVDT_ERR_LENGTH
  | AVDT_ERR_RECOV_FMT
  | AVDT_ERR_RECOV_TYPE
  | AVDT_ERR_CP_FMT
  | AVDT_ERR_ROHC_FMT
  | AVDT_ERR_MUX_FMT
  | AVDT_ERR_SERVICE
  | AVDT_ERR_SEID
  | AVDT_ERR_INVALID_CAP
  | AVDT_ERR_NSC

text \<open>
  Modelled from the spec: the macros \<open>AVDT_SEID_MIN\<close> and \<open>AVDT_SEID_MAX\<close> of
  avdt_api.h are missing from the sources; the spec gives the range of a SEID as 1..62.
\<close>

definition AVDT_SEID_MIN :: u8 where
  "AVDT_SEID_MIN = 1"

definition AVDT_SEID_MAX :: u8 where
  "AVDT_SEID_MAX = 62"

section \<open>AVDTP signaling: the discover response parser\<close>

text \<open>One entry of the caller's \<open>p_sep_info\<close> array (\<open>tAVDT_SEP_INFO\<close>).\<close>

record tAVDT_SEP_INFO =
  seid :: u8
  in_use :: u8
  media_type :: u8
  tsep :: u8

text \<open>
  The macro \<open>AVDT_MSG_PRS_DISC\<close> (avdt_int.h, not among the sources) reads the two
  bytes of one entry and advances \<open>p\<close> by two. It is a parameter \<open>D\<close> of the parser:
  a function from the two bytes to the entry.

  The pointer \<open>p\<close> and the count \<open>len\<close> are one list, the \<open>len\<close> bytes at \<open>p\<close>.
  A read past the end of that list is \<open>None\<close>.

  \<open>prs_disc_loop D n p\<close> is the for loop of \<open>avdt_msg_prs_discover_rsp\<close> with \<open>n\<close>
  iterations left: it gives the error code and the entries written, in order.
\<close>

fun prs_disc_loop ::
  "(u8 \<Rightarrow> u8 \<Rightarrow> tAVDT_SEP_INFO) \<Rightarrow> nat \<Rightarrow> u8 list \<Rightarrow> (avdt_err \<times> tAVDT_SEP_INFO list) option"
where
  "prs_disc_loop D 0 p = Some (AVDT_SUCCESS, [])"
| "prs_disc_loop D (Suc n) (b0 # b1 # p) =
     (let e = D b0 b1 in
      if seid e < AVDT_SEID_MIN \<or> seid e > AVDT_SEID_MAX then Some (AVDT_ERR_SEID, [e])
      else (case prs_disc_loop D n p of
              None \<Rightarrow> None
            | Some (err, es) \<Rightarrow> Some (err, e # es)))"
| "prs_disc_loop D (Suc n) p = None"

text \<open>
  \<open>avdt_msg_prs_discover_rsp D num_seps p\<close>: \<open>num_seps\<close> is the field
  \<open>p_msg->discover_rsp.num_seps\<close> on entry (the capacity of the caller's array). The
  result is the error code, the field on return and the entries written.
\<close>

definition avdt_msg_prs_discover_rsp ::
  "(u8 \<Rightarrow> u8 \<Rightarrow> tAVDT_SEP_INFO) \<Rightarrow> u8 \<Rightarrow> u8 list
     \<Rightarrow> (avdt_err \<times> u8 \<times> tAVDT_SEP_INFO list) option"
where
  "avdt_msg_prs_discover_rsp D num_seps p =
     (let len = length p;
          num_seps' = (if unat num_seps > len div 2 then of_nat (len div 2) else num_seps)
      in case prs_disc_loop D (unat num_seps') p of
           None \<Rightarrow> None
         | Some (err, es) \<Rightarrow> Some (err, num_seps', es))"

text \<open>The entries of a response body, two bytes each (a trailing odd byte is no entry).\<close>

fun disc_entries :: "(u8 \<Rightarrow> u8 \<Rightarrow> tAVDT_SEP_INFO) \<Rightarrow> u8 list \<Rightarrow> tAVDT_SEP_INFO list" where
  "disc_entries D (b0 # b1 # p) = D b0 b1 # disc_entries D p"
| "disc_entries D p = []"

definition seid_valid :: "tAVDT_SEP_INFO \<Rightarrow> bool" where
  "seid_valid e = (AVDT_SEID_MIN \<le> seid e \<and> seid e \<le> AVDT_SEID_MAX)"

text \<open>The decoding of a discover response entry used in the examples: SEID in the top six bits.\<close>

definition example_prs_disc :: "u8 \<Rightarrow> u8 \<Rightarrow> tAVDT_SEP_INFO" where
  "example_prs_disc b0 b1 =
     \<lparr>seid = drop_bit 2 b0, in_use = drop_bit 1 b0 AND 1,
      media_type = drop_bit 4 b1, tsep = drop_bit 3 b1 AND 1\<rparr>"

section \<open>AVCTP: sending a message\<close>

text \<open>
  The buffer header \<open>BT_HDR\<close> with the bytes that follow it in memory (\<open>data\<close> is the
  memory at \<open>(uint8_t*)(p_buf + 1)\<close>).
\<close>

record BT_HDR =
  event :: u16
  len :: u16
  offset :: u16
  layer_specific :: u16
  data :: "u8 list"

text \<open>
  The result codes of the AVCTP interface (avct_api.h, not among the sources) are only
  ever assigned and compared for equality: they are an enumeration.
\<close>

datatype avct_result =
    AVCT_SUCCESS
  | AVCT_NO_RESOURCES
  | AVCT_BAD_HANDLE
  | AVCT_PID_IN_USE
  | AVCT_NOT_OPEN

datatype avct_lcb_evt = AVCT_LCB_UL_BIND_EVT | AVCT_LCB_UL_UNBIND_EVT | AVCT_LCB_UL_MSG_EVT

text \<open>
  A connection control block: the link and browse control blocks it points to (\<open>None\<close>
  is the null pointer, a control block is named by its index) and its \<open>allocated\<close> byte.
\<close>

record tAVCT_CCB =
  p_lcb :: "nat option"
  p_bcb :: "nat option"
  allocated :: u8

text \<open>The message \<open>tAVCT_UL_MSG\<close> handed to a state machine; \<open>p_ccb\<close> is the handle.\<close>

record tAVCT_UL_MSG =
  p_buf :: BT_HDR
  p_ccb :: u8
  label :: u8
  cr :: u8

text \<open>The calls \<open>AVCT_MsgReq\<close> makes to the outside, in order.\<close>

datatype avct_call =
    Osi_free BT_HDR
  | Avct_lcb_event "nat option" avct_lcb_evt tAVCT_UL_MSG
  | Avct_bcb_event "nat option" avct_lcb_evt tAVCT_UL_MSG

text \<open>
  What \<open>AVCT_MsgReq\<close> takes from files that are not among the sources: the constants
  \<open>AVCT_DATA_BROWSE\<close> and \<open>AVCT_ALOC_BCB\<close>, and \<open>avct_bcb_by_lcb\<close>. The table
  \<open>cbs\<close> is \<open>avct_ccb_by_idx\<close>: the control block of a handle, \<open>None\<close> when the
  handle maps to no connection.
\<close>

record avct_defs =
  AVCT_DATA_BROWSE :: u16
  AVCT_ALOC_BCB :: u8
  avct_bcb_by_lcb :: "nat option \<Rightarrow> nat option"

definition AVCT_MsgReq ::
  "avct_defs \<Rightarrow> (u8 \<Rightarrow> tAVCT_CCB option) \<Rightarrow> u8 \<Rightarrow> u8 \<Rightarrow> u8 \<Rightarrow> BT_HDR option
     \<Rightarrow> avct_result \<times> (u8 \<Rightarrow> tAVCT_CCB option) \<times> avct_call list"
where
  "AVCT_MsgReq K cbs handle lbl c_r p_msg_opt =
     (case p_msg_opt of
        None \<Rightarrow> (AVCT_NO_RESOURCES, cbs, [])
      | Some p_msg \<Rightarrow>
          (case cbs handle of
             None \<Rightarrow> (AVCT_BAD_HANDLE, cbs, [Osi_free p_msg])
           | Some ccb \<Rightarrow>
               if p_lcb ccb = None then (AVCT_NOT_OPEN, cbs, [Osi_free p_msg])
               else
                 let ul_msg = \<lparr>p_buf = p_msg, p_ccb = handle, label = lbl, cr = c_r\<rparr> in
                 if layer_specific p_msg = AVCT_DATA_BROWSE K then
                   if p_bcb ccb = None \<and> allocated ccb AND AVCT_ALOC_BCB K = 0
                   then (AVCT_BAD_HANDLE, cbs, [Osi_free p_msg])
                   else
                     let bcb = avct_bcb_by_lcb K (p_lcb ccb) in
                     (AVCT_SUCCESS, cbs(handle \<mapsto> ccb\<lparr>p_bcb := bcb\<rparr>),
                      [Avct_bcb_event bcb AVCT_LCB_UL_MSG_EVT ul_msg])
                 else
                   (AVCT_SUCCESS, cbs, [Avct_lcb_event (p_lcb ccb) AVCT_LCB_UL_MSG_EVT ul_msg])))"

text \<open>A call that hands the buffer \<open>m\<close> to the link or the browse state machine.\<close>

fun forwards :: "BT_HDR \<Rightarrow> avct_call \<Rightarrow> bool" where
  "forwards m (Osi_free b) = False"
| "forwards m (Avct_lcb_event l e u) = (e = AVCT_LCB_UL_MSG_EVT \<and> p_buf u = m)"
| "forwards m (Avct_bcb_event b e u) = (e = AVCT_LCB_UL_MSG_EVT \<and> p_buf u = m)"

text \<open>Constants and control blocks used in the examples.\<close>

definition example_avct_defs :: avct_defs where
  "example_avct_defs =
     \<lparr>AVCT_DATA_BROWSE = 1, AVCT_ALOC_BCB = 2, avct_bcb_by_lcb = (\<lambda>l. l)\<rparr>"

definition example_msg :: BT_HDR where
  "example_msg = \<lparr>event = 0, len = 2, offset = 0, layer_specific = 1, data = [1, 2]\<rparr>"

definition example_ccbs :: "u8 \<Rightarrow> tAVCT_CCB option" where
  "example_ccbs = [0 \<mapsto> \<lparr>p_lcb = Some 0, p_bcb = None, allocated = 1\<rparr>,
                   1 \<mapsto> \<lparr>p_lcb = None, p_bcb = None, allocated = 1\<rparr>,
                   2 \<mapsto> \<lparr>p_lcb = Some 1, p_bcb = None, allocated = 3\<rparr>]"

section \<open>AVDTP signaling: packets, fragmentation and reassembly\<close>

text \<open>
  Modelled from the spec: the macros of the signaling header (avdt_int.h, avdt_defs.h)
  are missing from the sources. The spec gives the first byte as the transaction label
  (the high 4 bits), the packet type (2 bits) and the message type (the low 2 bits:
  command 0, general reject 1, response accept 2, response reject 3); a START packet
  adds one byte, the number of signal packets; SINGLE and START packets add one byte
  with the signal id in its low 6 bits. Hence the header lengths 2, 3, 1 and 1. The
  packet types are numbered by the order of the table \<open>avdt_msg_pkt_type_len\<close>, which
  the packet type indexes, and the signals by the order of the dispatch tables, which
  the signal id minus one indexes.
\<close>

definition AVDT_PKT_TYPE_SINGLE :: u8 where
  "AVDT_PKT_TYPE_SINGLE = 0"

definition AVDT_PKT_TYPE_START :: u8 where
  "AVDT_PKT_TYPE_START = 1"

definition AVDT_PKT_TYPE_CONT :: u8 where
  "AVDT_PKT_TYPE_CONT = 2"

definition AVDT_PKT_TYPE_END :: u8 where
  "AVDT_PKT_TYPE_END = 3"

definition AVDT_LEN_TYPE_SINGLE :: u16 where
  "AVDT_LEN_TYPE_SINGLE = 2"

definition AVDT_LEN_TYPE_START :: u16 where
  "AVDT_LEN_TYPE_START = 3"

definition AVDT_LEN_TYPE_CONT :: u16 where
  "AVDT_LEN_TYPE_CONT = 1"

definition AVDT_LEN_TYPE_END :: u16 where
  "AVDT_LEN_TYPE_END = 1"

definition AVDT_MSG_TYPE_CMD :: u8 where
  "AVDT_MSG_TYPE_CMD = 0"

definition AVDT_MSG_TYPE_GRJ :: u8 where
  "AVDT_MSG_TYPE_GRJ = 1"

definition AVDT_MSG_TYPE_RSP :: u8 where
  "AVDT_MSG_TYPE_RSP = 2"

definition AVDT_MSG_TYPE_REJ :: u8 where
  "AVDT_MSG_TYPE_REJ = 3"

definition AVDT_SIG_DISCOVER :: u8 where
  "AVDT_SIG_DISCOVER = 1"

definition AVDT_SIG_GETCAP :: u8 where
  "AVDT_SIG_GETCAP = 2"

definition AVDT_SIG_SETCONFIG :: u8 where
  "AVDT_SIG_SETCONFIG = 3"

definition AVDT_SIG_GETCONFIG :: u8 where
  "AVDT_SIG_GETCONFIG = 4"

definition AVDT_SIG_RECONFIG :: u8 where
  "AVDT_SIG_RECONFIG = 5"

definition AVDT_SIG_OPEN :: u8 where
  "AVDT_SIG_OPEN = 6"

definition AVDT_SIG_START :: u8 where
  "AVDT_SIG_START = 7"

definition AVDT_SIG_CLOSE :: u8 where
  "AVDT_SIG_CLOSE = 8"

definition AVDT_SIG_SUSPEND :: u8 where
  "AVDT_SIG_SUSPEND = 9"

definition AVDT_SIG_ABORT :: u8 where
  "AVDT_SIG_ABORT = 10"

definition AVDT_SIG_SECURITY :: u8 where
  "AVDT_SIG_SECURITY = 11"

definition AVDT_SIG_GET_ALLCAP :: u8 where
  "AVDT_SIG_GET_ALLCAP = 12"

definition AVDT_SIG_DELAY_RPT :: u8 where
  "AVDT_SIG_DELAY_RPT = 13"

text \<open>The table \<open>avdt_msg_pkt_type_len\<close>; a packet type has two bits.\<close>

definition avdt_msg_pkt_type_len :: "u8 \<Rightarrow> u16" where
  "avdt_msg_pkt_type_len pkt_type =
     (if pkt_type = AVDT_PKT_TYPE_SINGLE then AVDT_LEN_TYPE_SINGLE
      else if pkt_type = AVDT_PKT_TYPE_START then AVDT_LEN_TYPE_START
      else if pkt_type = AVDT_PKT_TYPE_CONT then AVDT_LEN_TYPE_CONT
      else AVDT_LEN_TYPE_END)"

text \<open>\<open>AVDT_MSG_PRS_PKT_TYPE\<close>, \<open>AVDT_MSG_PRS_HDR\<close> and \<open>AVDT_MSG_PRS_SIG\<close> on a byte.\<close>

definition prs_pkt_type :: "u8 \<Rightarrow> u8" where
  "prs_pkt_type b = drop_bit 2 b AND 3"

definition prs_label :: "u8 \<Rightarrow> u8" where
  "prs_label b = drop_bit 4 b"

definition prs_msg_type :: "u8 \<Rightarrow> u8" where
  "prs_msg_type b = b AND 3"

definition prs_sig :: "u8 \<Rightarrow> u8" where
  "prs_sig b = b AND 63"

text \<open>\<open>AVDT_MSG_BLD_HDR\<close>: the first byte of a packet.\<close>

definition bld_hdr :: "u8 \<Rightarrow> u8 \<Rightarrow> u8 \<Rightarrow> u8" where
  "bld_hdr lbl pkt_type msg = push_bit 4 lbl OR push_bit 2 pkt_type OR msg"

text \<open>
  What fragmentation and reassembly take from files that are not among the sources:
  the offsets and sizes of buffers (\<open>sizeof_BT_HDR\<close> is \<open>sizeof(BT_HDR)\<close>), the macros
  that read the label and the message type stored in \<open>layer_specific\<close>, and the
  configured retransmission timeout \<open>avdtp_cb.rcb.ret_tout\<close>.
\<close>

record avdt_buf_defs =
  AVDT_MSG_OFFSET :: u16
  L2CAP_MIN_OFFSET :: u16
  BT_DEFAULT_BUFFER_SIZE :: nat
  sizeof_BT_HDR :: nat
  AVDT_LAYERSPEC_LABEL :: "u16 \<Rightarrow> u8"
  AVDT_LAYERSPEC_MSG :: "u16 \<Rightarrow> u8"
  ret_tout :: nat

text \<open>
  Division of C on \<open>int\<close>: it truncates towards zero, and division by zero is
  undefined (\<open>None\<close>).
\<close>

definition c_div :: "int \<Rightarrow> int \<Rightarrow> int option" where
  "c_div a b = (if b = 0 then None else Some (sgn a * sgn b * (\<bar>a\<bar> div \<bar>b\<bar>)))"

text \<open>
  A packet handed to \<open>avdt_ad_write_req\<close>: its packet type, the number of signal
  packets when it is a START packet, and its bytes, header first.
\<close>

record avdt_pkt =
  pkt_type_of :: u8
  nosp_of :: "u8 option"
  bytes_of :: "u8 list"

datatype avdt_timer = No_timer | Rsp_ccb_timer | Ret_ccb_timer

text \<open>
  The first iteration of the while loop of \<open>avdt_msg_send\<close>, for a channel that is
  not congested and has the current message \<open>cur\<close> (\<open>p_ccb->p_curr_msg\<close>): the local
  \<open>curr_msg_len\<close> is the length of \<open>cur\<close>, as the statement before the loop sets it
  (and as it is at the start of every later iteration, where the loop has reduced both
  by the same amount). \<open>nosp\<close> is the local variable on entry. The result is the packet
  written, \<open>nosp\<close> and the current message after the iteration, and the timer started.
  Comparisons and arithmetic on the 16 bit lengths are those of C on \<open>int\<close>; the
  length of the new buffer is stored in 16 bits. The iteration is \<open>None\<close> when it
  divides by zero. \<open>avdt_msg_send_select\<close> is the choice of the packet type, with
  \<open>nosp\<close> and the length of the buffer to send.
\<close>

definition avdt_msg_send_select :: "avdt_buf_defs \<Rightarrow> u16 \<Rightarrow> u8 \<Rightarrow> BT_HDR \<Rightarrow> (u8 \<times> u8 \<times> u16) option" where
  "avdt_msg_send_select K peer_mtu nosp cur =
     (if offset cur = AVDT_MSG_OFFSET K \<and>
         uint (len cur) \<le> uint peer_mtu - uint AVDT_LEN_TYPE_SINGLE
      then Some (AVDT_PKT_TYPE_SINGLE, nosp, len cur)
      else if offset cur = AVDT_MSG_OFFSET K \<and>
              uint (len cur) > uint peer_mtu - uint AVDT_LEN_TYPE_SINGLE
      then (case c_div (uint (len cur) + uint AVDT_LEN_TYPE_START - uint peer_mtu)
                       (uint peer_mtu - 1) of
              None \<Rightarrow> None
            | Some q \<Rightarrow>
                Some (AVDT_PKT_TYPE_START, of_int (q + 2), peer_mtu - AVDT_LEN_TYPE_START))
      else if offset cur > AVDT_MSG_OFFSET K \<and>
              uint (len cur) > uint peer_mtu - uint AVDT_LEN_TYPE_CONT
      then Some (AVDT_PKT_TYPE_CONT, nosp, peer_mtu - AVDT_LEN_TYPE_CONT)
      else Some (AVDT_PKT_TYPE_END, nosp, len cur))"

definition avdt_msg_send_iter ::
  "avdt_buf_defs \<Rightarrow> u16 \<Rightarrow> u8 \<Rightarrow> BT_HDR
     \<Rightarrow> (avdt_pkt \<times> u8 \<times> BT_HDR option \<times> avdt_timer) option"
where
  "avdt_msg_send_iter K peer_mtu nosp cur =
     (case avdt_msg_send_select K peer_mtu nosp cur of
        None \<Rightarrow> None
      | Some (pkt_type, nosp', buf_len) \<Rightarrow>
          let lbl = AVDT_LAYERSPEC_LABEL K (layer_specific cur);
              msg = AVDT_LAYERSPEC_MSG K (layer_specific cur);
              sig = (ucast (event cur) :: u8);
              curr_msg_len = len cur - buf_len;
              timer =
                (if curr_msg_len = 0 \<and> msg = AVDT_MSG_TYPE_CMD then
                   if sig = AVDT_SIG_DISCOVER \<or> sig = AVDT_SIG_GETCAP \<or>
                      sig = AVDT_SIG_SECURITY \<or> ret_tout K = 0
                   then Rsp_ccb_timer
                   else if sig \<noteq> AVDT_SIG_DELAY_RPT then Ret_ccb_timer
                   else No_timer
                 else No_timer);
              cur' =
                (if curr_msg_len = 0 then None
                 else Some (cur\<lparr>len := len cur - buf_len, offset := offset cur + buf_len\<rparr>));
              payload = take (unat buf_len) (drop (unat (offset cur)) (data cur));
              hdr = [bld_hdr lbl pkt_type msg] @
                    (if pkt_type = AVDT_PKT_TYPE_START then [nosp'] else []) @
                    (if pkt_type = AVDT_PKT_TYPE_START \<or> pkt_type = AVDT_PKT_TYPE_SINGLE
                     then [sig] else [])
          in
          Some (\<lparr>pkt_type_of = pkt_type,
                 nosp_of = (if pkt_type = AVDT_PKT_TYPE_START then Some nosp' else None),
                 bytes_of = hdr @ payload\<rparr>,
                nosp', cur', timer))"

text \<open>
  The formula of the spec for the number of signal packets of a START packet,
  \<open>ceil((len + 1) / (peer_mtu - 1)) + 1\<close>, in the spec's words.
\<close>

definition spec_nosp :: "nat \<Rightarrow> nat \<Rightarrow> nat" where
  "spec_nosp l mtu = (l + 1 + (mtu - 1) - 1) div (mtu - 1) + 1"

text \<open>
  \<open>avdt_msg_asmbl\<close>: \<open>rx\<close> is \<open>p_ccb->p_rx_msg\<close> and \<open>b\<close> is \<open>p_buf\<close>; the result
  is the message returned and \<open>p_ccb->p_rx_msg\<close> on return. The \<open>data\<close> of the
  reassembly buffer is the part of its memory that has been written. The result is
  \<open>None\<close> when the function would read outside the memory of \<open>p_buf\<close>. The release
  of buffers is not recorded. \<open>BT_DEFAULT_BUFFER_SIZE\<close> is at least
  \<open>sizeof(BT_HDR)\<close>.
\<close>

definition avdt_msg_asmbl ::
  "avdt_buf_defs \<Rightarrow> BT_HDR option \<Rightarrow> BT_HDR \<Rightarrow> (BT_HDR option \<times> BT_HDR option) option"
where
  "avdt_msg_asmbl K rx b =
     (if len b < 1 then Some (None, rx)
      else if length (data b) \<le> unat (offset b) then None
      else
        let pkt_type = prs_pkt_type (data b ! unat (offset b)) in
        if len b < avdt_msg_pkt_type_len pkt_type then Some (None, rx)
        else if pkt_type = AVDT_PKT_TYPE_SINGLE then Some (Some b, None)
        else if pkt_type = AVDT_PKT_TYPE_START then
          if sizeof_BT_HDR K + unat (offset b) + unat (len b) > BT_DEFAULT_BUFFER_SIZE K
          then Some (None, None)
          else if length (data b) < unat (offset b) + unat (len b) then None
          else
            let d = take (unat (offset b) + unat (len b)) (data b);
                d = d[unat (offset b) + 1 := d ! unat (offset b)]
            in Some (None, Some (b\<lparr>data := d, offset := offset b + len b, len := len b - 1\<rparr>))
        else
          case rx of
            None \<Rightarrow> Some (None, None)
          | Some r \<Rightarrow>
              let b = b\<lparr>offset := offset b + AVDT_LEN_TYPE_CONT,
                         len := len b - AVDT_LEN_TYPE_CONT\<rparr>
              in
              if unat (offset r) + unat (len b) > BT_DEFAULT_BUFFER_SIZE K - sizeof_BT_HDR K
              then Some (None, None)
              else if length (data b) < unat (offset b) + unat (len b) then None
              else
                let d = take (unat (offset r)) (data r) @
                        take (unat (len b)) (drop (unat (offset b)) (data b))
                in
                if pkt_type = AVDT_PKT_TYPE_END
                then Some (Some (r\<lparr>data := d, offset := offset r - len r,
                                     len := len r + len b\<rparr>), None)
                else Some (None, Some (r\<lparr>data := d, offset := offset r + len b,
                                           len := len r + len b\<rparr>)))"

text \<open>
  A buffer as the lower layer hands it over: the \<open>len\<close> bytes at \<open>offset\<close> lie in
  its memory, which a 16 bit offset can address.
\<close>

definition wf_buf :: "BT_HDR \<Rightarrow> bool" where
  "wf_buf b = (unat (offset b) + unat (len b) \<le> length (data b) \<and> length (data b) < 65536)"

text \<open>
  The packet type of a fragment; whether the fragment is shorter than the minimum of its
  packet type; whether a START fragment fits the reassembly buffer; and whether a CONT or
  END fragment fits behind what the reassembly buffer \<open>rx\<close> holds.
\<close>

definition frag_type :: "BT_HDR \<Rightarrow> u8" where
  "frag_type b = prs_pkt_type (data b ! unat (offset b))"

definition frag_short :: "BT_HDR \<Rightarrow> bool" where
  "frag_short b = (len b < avdt_msg_pkt_type_len (frag_type b))"

definition frag_fits :: "avdt_buf_defs \<Rightarrow> BT_HDR option \<Rightarrow> BT_HDR \<Rightarrow> bool" where
  "frag_fits K rx b =
     (case rx of
        None \<Rightarrow> False
      | Some r \<Rightarrow>
          unat (offset r) + (unat (len b) - 1) \<le> BT_DEFAULT_BUFFER_SIZE K - sizeof_BT_HDR K)"

definition start_fits :: "avdt_buf_defs \<Rightarrow> BT_HDR \<Rightarrow> bool" where
  "start_fits K b =
     (sizeof_BT_HDR K + unat (offset b) + unat (len b) \<le> BT_DEFAULT_BUFFER_SIZE K)"

text \<open>
  The buffers that the branches of \<open>avdt_msg_asmbl\<close> build: the reassembly buffer
  after the START fragment \<open>b\<close> (the fragment is copied, the signal byte overwrites the
  byte of the number of packets, and \<open>offset\<close> points behind the data); the reassembly
  buffer \<open>r\<close> after the data of the CONT fragment \<open>b\<close> is appended; and the message
  returned when the data of the END fragment \<open>b\<close> is appended to \<open>r\<close>, its \<open>offset\<close>
  set back to the start of the message.
\<close>

definition start_buf :: "BT_HDR \<Rightarrow> BT_HDR" where
  "start_buf b =
     b\<lparr>data := (take (unat (offset b) + unat (len b)) (data b))
                 [unat (offset b) + 1 :=
                    take (unat (offset b) + unat (len b)) (data b) ! unat (offset b)],
       offset := offset b + len b, len := len b - 1\<rparr>"

definition cont_buf :: "BT_HDR \<Rightarrow> BT_HDR \<Rightarrow> BT_HDR" where
  "cont_buf r b =
     r\<lparr>data := take (unat (offset r)) (data r) @
                take (unat (len b) - 1) (drop (unat (offset b + 1)) (data b)),
       offset := offset r + (len b - 1), len := len r + (len b - 1)\<rparr>"

definition end_msg :: "BT_HDR \<Rightarrow> BT_HDR \<Rightarrow> BT_HDR" where
  "end_msg r b =
     r\<lparr>data := take (unat (offset r)) (data r) @
                take (unat (len b) - 1) (drop (unat (offset b + 1)) (data b)),
       offset := offset r - len r, len := len r + (len b - 1)\<rparr>"

definition example_rx :: BT_HDR where
  "example_rx = \<lparr>event = 0, len = 2, offset = 3, layer_specific = 0, data = [0x14, 0x14, 0x03]\<rparr>"

definition example_short_single :: BT_HDR where
  "example_short_single = \<lparr>event = 0, len = 1, offset = 0, layer_specific = 0, data = [0x10]\<rparr>"

text \<open>Buffer constants and a message used in the examples.\<close>

definition example_buf_defs :: avdt_buf_defs where
  "example_buf_defs =
     \<lparr>AVDT_MSG_OFFSET = 16, L2CAP_MIN_OFFSET = 13, BT_DEFAULT_BUFFER_SIZE = 4104,
      sizeof_BT_HDR = 8, AVDT_LAYERSPEC_LABEL = (\<lambda>x. ucast (drop_bit 4 x)),
      AVDT_LAYERSPEC_MSG = (\<lambda>x. ucast (x AND 3)), ret_tout = 4\<rparr>"

definition example_cur :: BT_HDR where
  "example_cur =
     \<lparr>event = 3, len = 100, offset = 16, layer_specific = 16, data = replicate 116 5\<rparr>"

section \<open>AVDTP signaling: the configuration parser\<close>

text \<open>
  Modelled from the spec: the macros \<open>AVDT_CAT_*\<close> and \<open>AVDT_LEN_CFG_MIN\<close> of
  avdt_defs.h and avdt_int.h are missing from the sources. The spec gives a
  configuration element as a category id byte, a length byte and the payload, with the
  recognized category ids 1..8; the categories are numbered by the order of the tables
  \<open>avdt_msg_ie_len_min\<close>, \<open>avdt_msg_ie_len_max\<close> and \<open>avdt_msg_ie_err\<close>, which
  the category id indexes.
\<close>

definition AVDT_CAT_TRANS :: u8 where
  "AVDT_CAT_TRANS = 1"

definition AVDT_CAT_REPORT :: u8 where
  "AVDT_CAT_REPORT = 2"

definition AVDT_CAT_RECOV :: u8 where
  "AVDT_CAT_RECOV = 3"

definition AVDT_CAT_PROTECT :: u8 where
  "AVDT_CAT_PROTECT = 4"

definition AVDT_CAT_HDRCMP :: u8 where
  "AVDT_CAT_HDRCMP = 5"

definition AVDT_CAT_MUX :: u8 where
  "AVDT_CAT_MUX = 6"

definition AVDT_CAT_CODEC :: u8 where
  "AVDT_CAT_CODEC = 7"

definition AVDT_CAT_DELAY_RPT :: u8 where
  "AVDT_CAT_DELAY_RPT = 8"

definition AVDT_CAT_MAX_CUR :: u8 where
  "AVDT_CAT_MAX_CUR = 8"

definition AVDT_LEN_CFG_MIN :: nat where
  "AVDT_LEN_CFG_MIN = 2"

text \<open>The two masks that avdt_msg.cc defines itself.\<close>

definition AVDT_PSC_PROTECT :: u16 where
  "AVDT_PSC_PROTECT = push_bit 4 1"

definition AVDT_PSC_CODEC :: u16 where
  "AVDT_PSC_CODEC = push_bit 7 1"

text \<open>
  What the parser takes from files that are not among the sources: the minimum and
  maximum length of each information element, the constants of the recovery element,
  and the sizes of the arrays \<open>protect_info\<close> and \<open>codec_info\<close> (both positive).
\<close>

record avdt_cfg_defs =
  AVDT_LEN_TRANS_MIN :: u8
  AVDT_LEN_REPORT_MIN :: u8
  AVDT_LEN_RECOV_MIN :: u8
  AVDT_LEN_PROTECT_MIN :: u8
  AVDT_LEN_HDRCMP_MIN :: u8
  AVDT_LEN_MUX_MIN :: u8
  AVDT_LEN_CODEC_MIN :: u8
  AVDT_LEN_DELAY_RPT_MIN :: u8
  AVDT_LEN_TRANS_MAX :: u8
  AVDT_LEN_REPORT_MAX :: u8
  AVDT_LEN_RECOV_MAX :: u8
  AVDT_LEN_PROTECT_MAX :: u8
  AVDT_LEN_HDRCMP_MAX :: u8
  AVDT_LEN_MUX_MAX :: u8
  AVDT_LEN_CODEC_MAX :: u8
  AVDT_LEN_DELAY_RPT_MAX :: u8
  AVDT_RECOV_RFC2733 :: u8
  AVDT_RECOV_MRWS_MIN :: u8
  AVDT_RECOV_MRWS_MAX :: u8
  AVDT_RECOV_MNMP_MIN :: u8
  AVDT_RECOV_MNMP_MAX :: u8
  AVDT_PROTECT_SIZE :: nat
  AVDT_CODEC_SIZE :: nat

text \<open>The three tables, for an index from 1 to 8 (index 0 is unused).\<close>

definition avdt_msg_ie_len_min :: "avdt_cfg_defs \<Rightarrow> u8 \<Rightarrow> u8" where
  "avdt_msg_ie_len_min K i =
     (if i = 1 then AVDT_LEN_TRANS_MIN K else if i = 2 then AVDT_LEN_REPORT_MIN K
      else if i = 3 then AVDT_LEN_RECOV_MIN K else if i = 4 then AVDT_LEN_PROTECT_MIN K
      else if i = 5 then AVDT_LEN_HDRCMP_MIN K else if i = 6 then AVDT_LEN_MUX_MIN K
      else if i = 7 then AVDT_LEN_CODEC_MIN K else if i = 8 then AVDT_LEN_DELAY_RPT_MIN K
      else 0)"

definition avdt_msg_ie_len_max :: "avdt_cfg_defs \<Rightarrow> u8 \<Rightarrow> u8" where
  "avdt_msg_ie_len_max K i =
     (if i = 1 then AVDT_LEN_TRANS_MAX K else if i = 2 then AVDT_LEN_REPORT_MAX K
      else if i = 3 then AVDT_LEN_RECOV_MAX K else if i = 4 then AVDT_LEN_PROTECT_MAX K
      else if i = 5 then AVDT_LEN_HDRCMP_MAX K else if i = 6 then AVDT_LEN_MUX_MAX K
      else if i = 7 then AVDT_LEN_CODEC_MAX K else if i = 8 then AVDT_LEN_DELAY_RPT_MAX K
      else 0)"

definition avdt_msg_ie_err :: "u8 \<Rightarrow> avdt_err" where
  "avdt_msg_ie_err i =
     (if i = 1 then AVDT_ERR_MEDIA_TRANS else if i = 2 then AVDT_ERR_LENGTH
      else if i = 3 then AVDT_ERR_RECOV_FMT else if i = 4 then AVDT_ERR_CP_FMT
      else if i = 5 then AVDT_ERR_ROHC_FMT else if i = 6 then AVDT_ERR_MUX_FMT
      else if i = 7 then AVDT_ERR_SERVICE else if i = 8 then AVDT_ERR_SERVICE
      else AVDT_SUCCESS)"

text \<open>The fields of \<open>AvdtpSepConfig\<close> that the parser writes.\<close>

record AvdtpSepConfig =
  psc_mask :: u16
  num_codec :: u8
  num_protect :: u8
  recov_type :: u8
  recov_mrws :: u8
  recov_mnmp :: u8
  hdrcmp_mask :: u8
  codec_info :: "u8 list"
  protect_info :: "u8 list"

text \<open>\<open>memcpy(&dst[i], src, n)\<close> on an array.\<close>

definition memcpy_at :: "u8 list \<Rightarrow> nat \<Rightarrow> u8 list \<Rightarrow> u8 list" where
  "memcpy_at dst i src = take i dst @ src @ drop (i + length src) dst"

text \<open>The two tests on the category id and the signal in the loop.\<close>

definition unknown_category :: "u8 \<Rightarrow> bool" where
  "unknown_category elem = (elem = 0 \<or> elem > AVDT_CAT_MAX_CUR)"

definition is_config_sig :: "u8 \<Rightarrow> bool" where
  "is_config_sig sig_id = (sig_id = AVDT_SIG_SETCONFIG \<or> sig_id = AVDT_SIG_RECONFIG)"

text \<open>
  One iteration of the while loop of \<open>avdt_msg_prs_cfg\<close> for an element of a recognized
  category, after the two header bytes are read: the check of the length against the
  tables, the mask, and the switch. The list is the bytes from \<open>p\<close> to \<open>p_end\<close>.
  The result is \<open>err\<close>, the configuration, \<open>protect_offset\<close> and the bytes from
  \<open>p\<close> on after the iteration (none when \<open>p\<close> is moved past \<open>p_end\<close>).
\<close>

definition prs_cfg_elem ::
  "avdt_cfg_defs \<Rightarrow> AvdtpSepConfig \<Rightarrow> u8 \<Rightarrow> u8 \<Rightarrow> u8 \<Rightarrow> u8 list
     \<Rightarrow> avdt_err \<times> AvdtpSepConfig \<times> u8 \<times> u8 list"
where
  "prs_cfg_elem K cfg elem elem_len protect_offset p =
     (if elem_len > avdt_msg_ie_len_max K elem \<or> elem_len < avdt_msg_ie_len_min K elem
      then (avdt_msg_ie_err elem, cfg, protect_offset, p)
      else
        let cfg = cfg\<lparr>psc_mask := psc_mask cfg OR push_bit (unat elem) 1\<rparr> in
        if elem = AVDT_CAT_RECOV then
          if length p < 3 then (AVDT_ERR_PAYLOAD, cfg, protect_offset, p)
          else
            let cfg = cfg\<lparr>recov_type := p ! 0, recov_mrws := p ! 1, recov_mnmp := p ! 2\<rparr> in
            (if recov_type cfg \<noteq> AVDT_RECOV_RFC2733 K then AVDT_ERR_RECOV_TYPE
             else if recov_mrws cfg < AVDT_RECOV_MRWS_MIN K \<or>
                     recov_mrws cfg > AVDT_RECOV_MRWS_MAX K \<or>
                     recov_mnmp cfg < AVDT_RECOV_MNMP_MIN K \<or>
                     recov_mnmp cfg > AVDT_RECOV_MNMP_MAX K
             then AVDT_ERR_RECOV_FMT
             else AVDT_SUCCESS,
             cfg, protect_offset, drop 3 p)
        else if elem = AVDT_CAT_PROTECT then
          let cfg = cfg\<lparr>psc_mask := psc_mask cfg AND NOT AVDT_PSC_PROTECT\<rparr> in
          if unat elem_len > length p then (AVDT_ERR_LENGTH, cfg, protect_offset, p)
          else if unat elem_len + unat protect_offset < AVDT_PROTECT_SIZE K then
            (AVDT_SUCCESS,
             cfg\<lparr>num_protect := num_protect cfg + 1,
                  protect_info :=
                    memcpy_at ((protect_info cfg)[unat protect_offset := elem_len])
                      (unat (protect_offset + 1)) (take (unat elem_len) p)\<rparr>,
             protect_offset + 1 + elem_len, drop (unat elem_len) p)
          else (AVDT_SUCCESS, cfg, protect_offset, drop (unat elem_len) p)
        else if elem = AVDT_CAT_HDRCMP then
          if length p < 1 then (AVDT_ERR_PAYLOAD, cfg, protect_offset, p)
          else (AVDT_SUCCESS, cfg\<lparr>hdrcmp_mask := p ! 0\<rparr>, protect_offset, drop 1 p)
        else if elem = AVDT_CAT_CODEC then
          let cfg = cfg\<lparr>psc_mask := psc_mask cfg AND NOT AVDT_PSC_CODEC\<rparr>;
              tmp = (if unat elem_len \<ge> AVDT_CODEC_SIZE K then AVDT_CODEC_SIZE K - 1
                     else unat elem_len)
          in
          if tmp > length p then (AVDT_ERR_LENGTH, cfg, protect_offset, p)
          else
            (AVDT_SUCCESS,
             cfg\<lparr>num_codec := num_codec cfg + 1,
                  codec_info := memcpy_at ((codec_info cfg)[0 := elem_len]) 1 (take tmp p)\<rparr>,
             protect_offset, drop (unat elem_len) p)
        else if elem = AVDT_CAT_DELAY_RPT then (AVDT_SUCCESS, cfg, protect_offset, p)
        else (AVDT_SUCCESS, cfg, protect_offset, drop (unat elem_len) p))"

text \<open>
  The while loop of \<open>avdt_msg_prs_cfg\<close>, on the bytes from \<open>p\<close> to \<open>p_end\<close>;
  \<open>cfg\<close>, \<open>elem\<close> and \<open>protect_offset\<close> are the configuration and the local
  variables at the start of an iteration. The result is the error code, the
  configuration and \<open>elem\<close> when the loop ends: at the end of the data, or with the
  first error (every error code is nonzero).
\<close>

function prs_cfg_loop ::
  "avdt_cfg_defs \<Rightarrow> u8 \<Rightarrow> AvdtpSepConfig \<Rightarrow> u8 \<Rightarrow> u8 \<Rightarrow> u8 list
     \<Rightarrow> avdt_err \<times> AvdtpSepConfig \<times> u8"
where
  "prs_cfg_loop K sig_id cfg elem0 protect_offset [] = (AVDT_SUCCESS, cfg, elem0)"
| "prs_cfg_loop K sig_id cfg elem0 protect_offset [x] = (AVDT_ERR_PAYLOAD, cfg, elem0)"
| "prs_cfg_loop K sig_id cfg elem0 protect_offset (elem # elem_len # p) =
     (if unknown_category elem then
        if is_config_sig sig_id then (AVDT_ERR_CATEGORY, cfg, elem)
        else prs_cfg_loop K sig_id cfg elem protect_offset (drop (unat elem_len) p)
      else
        case prs_cfg_elem K cfg elem elem_len protect_offset p of
          (err, cfg', protect_offset', p') \<Rightarrow>
            if err \<noteq> AVDT_SUCCESS then (err, cfg', elem)
            else prs_cfg_loop K sig_id cfg' elem protect_offset' p')"
  by pat_completeness auto

termination
proof (relation "measure (\<lambda>(K, sig_id, cfg, elem0, protect_offset, p). length p)")
  show "wf (measure (\<lambda>(K :: avdt_cfg_defs, sig_id :: u8, cfg :: AvdtpSepConfig,
                        elem0 :: u8, protect_offset :: u8, p :: u8 list). length p))"
    by simp
next
  fix K :: avdt_cfg_defs and sig_id :: u8 and cfg :: AvdtpSepConfig
    and elem0 protect_offset elem elem_len :: u8 and p :: "u8 list"
  show "((K, sig_id, cfg, elem, protect_offset, drop (unat elem_len) p),
         (K, sig_id, cfg, elem0, protect_offset, elem # elem_len # p))
        \<in> measure (\<lambda>(K, sig_id, cfg, elem0, protect_offset, p). length p)"
    by simp
next
  fix K :: avdt_cfg_defs and sig_id :: u8 and cfg cfg' :: AvdtpSepConfig
    and elem0 protect_offset elem elem_len protect_offset' :: u8 and p p' :: "u8 list"
    and err :: avdt_err and y :: "AvdtpSepConfig \<times> u8 \<times> u8 list"
    and z :: "u8 \<times> u8 list"
  assume "(err, y) = prs_cfg_elem K cfg elem elem_len protect_offset p"
    and "(cfg', z) = y" and "(protect_offset', p') = z"
  then have "prs_cfg_elem K cfg elem elem_len protect_offset p
               = (err, cfg', protect_offset', p')"
    by simp
  then have "length p' \<le> length p"
    unfolding prs_cfg_elem_def Let_def
    by (auto split: if_splits)
  then show "((K, sig_id, cfg', elem, protect_offset', p'),
         (K, sig_id, cfg, elem0, protect_offset, elem # elem_len # p))
        \<in> measure (\<lambda>(K, sig_id, cfg, elem0, protect_offset, p). length p)"
    by simp
qed

text \<open>
  The variables of the loop after \<open>n\<close> iterations that neither end the loop nor set an
  error: the configuration, \<open>elem\<close>, \<open>protect_offset\<close> and the bytes from \<open>p\<close> to
  \<open>p_end\<close>. The result is \<open>None\<close> when the loop ends before.
\<close>

fun prs_cfg_steps ::
  "nat \<Rightarrow> avdt_cfg_defs \<Rightarrow> u8 \<Rightarrow> AvdtpSepConfig \<Rightarrow> u8 \<Rightarrow> u8 \<Rightarrow> u8 list
     \<Rightarrow> (AvdtpSepConfig \<times> u8 \<times> u8 \<times> u8 list) option"
where
  "prs_cfg_steps 0 K sig_id cfg elem0 protect_offset p = Some (cfg, elem0, protect_offset, p)"
| "prs_cfg_steps (Suc n) K sig_id cfg elem0 protect_offset [] = None"
| "prs_cfg_steps (Suc n) K sig_id cfg elem0 protect_offset [x] = None"
| "prs_cfg_steps (Suc n) K sig_id cfg elem0 protect_offset (elem # elem_len # p) =
     (if unknown_category elem then
        if is_config_sig sig_id then None
        else prs_cfg_steps n K sig_id cfg elem protect_offset (drop (unat elem_len) p)
      else
        case prs_cfg_elem K cfg elem elem_len protect_offset p of
          (err, cfg', protect_offset', p') \<Rightarrow>
            if err \<noteq> AVDT_SUCCESS then None
            else prs_cfg_steps n K sig_id cfg' elem protect_offset' p')"

text \<open>
  \<open>avdt_msg_prs_cfg\<close>: \<open>p_cfg\<close> is \<open>None\<close> for the null pointer. The result is the
  error code, the configuration, and the byte written to \<open>*p_elem\<close>, if one is.
\<close>

definition avdt_msg_prs_cfg ::
  "avdt_cfg_defs \<Rightarrow> AvdtpSepConfig option \<Rightarrow> u8 list \<Rightarrow> u8
     \<Rightarrow> avdt_err \<times> AvdtpSepConfig option \<times> u8 option"
where
  "avdt_msg_prs_cfg K p_cfg p sig_id =
     (case p_cfg of
        None \<Rightarrow> (AVDT_ERR_BAD_STATE, None, None)
      | Some cfg \<Rightarrow>
          (case prs_cfg_loop K sig_id (cfg\<lparr>psc_mask := 0, num_codec := 0, num_protect := 0\<rparr>)
                  0 0 p of
             (err, cfg', elem) \<Rightarrow> (err, Some cfg', Some elem)))"

text \<open>Example values of the constants and a configuration, for the examples below.\<close>

definition example_cfg_defs :: avdt_cfg_defs where
  "example_cfg_defs =
     \<lparr>AVDT_LEN_TRANS_MIN = 0, AVDT_LEN_REPORT_MIN = 0, AVDT_LEN_RECOV_MIN = 3,
      AVDT_LEN_PROTECT_MIN = 2, AVDT_LEN_HDRCMP_MIN = 1, AVDT_LEN_MUX_MIN = 3,
      AVDT_LEN_CODEC_MIN = 2, AVDT_LEN_DELAY_RPT_MIN = 0,
      AVDT_LEN_TRANS_MAX = 0, AVDT_LEN_REPORT_MAX = 0, AVDT_LEN_RECOV_MAX = 3,
      AVDT_LEN_PROTECT_MAX = 255, AVDT_LEN_HDRCMP_MAX = 1, AVDT_LEN_MUX_MAX = 7,
      AVDT_LEN_CODEC_MAX = 255, AVDT_LEN_DELAY_RPT_MAX = 0,
      AVDT_RECOV_RFC2733 = 1, AVDT_RECOV_MRWS_MIN = 1, AVDT_RECOV_MRWS_MAX = 24,
      AVDT_RECOV_MNMP_MIN = 1, AVDT_RECOV_MNMP_MAX = 24,
      AVDT_PROTECT_SIZE = 90, AVDT_CODEC_SIZE = 20\<rparr>"

definition example_sep_cfg :: AvdtpSepConfig where
  "example_sep_cfg =
     \<lparr>psc_mask = 0, num_codec = 0, num_protect = 0, recov_type = 0, recov_mrws = 0,
      recov_mnmp = 0, hdrcmp_mask = 0, codec_info = replicate 20 0,
      protect_info = replicate 90 0\<rparr>"

section \<open>AVDTP signaling: dispatch of a received message\<close>

text \<open>
  Modelled from the spec: the event constants \<open>AVDT_CCB_*_EVT\<close> and
  \<open>AVDT_SCB_*_EVT\<close> and the marker \<open>AVDT_CCB_MKR\<close> of avdt_int.h are missing from
  the sources. The spec gives the events as CCB events or SCB events, distinguished by a
  high bit in the event id. So an entry of the event tables is a CCB event (the marker is
  set, and the event is passed on with the marker removed), an SCB event (not zero, the
  marker is clear), or zero.
\<close>

datatype avdt_ccb_evt =
    AVDT_CCB_MSG_DISCOVER_CMD_EVT
  | AVDT_CCB_MSG_GETCAP_CMD_EVT
  | AVDT_CCB_MSG_START_CMD_EVT
  | AVDT_CCB_MSG_SUSPEND_CMD_EVT
  | AVDT_CCB_MSG_DISCOVER_RSP_EVT
  | AVDT_CCB_MSG_GETCAP_RSP_EVT
  | AVDT_CCB_MSG_START_RSP_EVT
  | AVDT_CCB_MSG_SUSPEND_RSP_EVT
  | AVDT_CCB_SENDMSG_EVT
  | AVDT_CCB_RCVRSP_EVT

datatype avdt_scb_evt =
    AVDT_SCB_MSG_SETCONFIG_CMD_EVT
  | AVDT_SCB_MSG_GETCONFIG_CMD_EVT
  | AVDT_SCB_MSG_RECONFIG_CMD_EVT
  | AVDT_SCB_MSG_OPEN_CMD_EVT
  | AVDT_SCB_MSG_CLOSE_CMD_EVT
  | AVDT_SCB_MSG_ABORT_CMD_EVT
  | AVDT_SCB_MSG_SECURITY_CMD_EVT
  | AVDT_SCB_MSG_DELAY_RPT_CMD_EVT
  | AVDT_SCB_MSG_SETCONFIG_RSP_EVT
  | AVDT_SCB_MSG_GETCONFIG_RSP_EVT
  | AVDT_SCB_MSG_RECONFIG_RSP_EVT
  | AVDT_SCB_MSG_OPEN_RSP_EVT
  | AVDT_SCB_MSG_CLOSE_RSP_EVT
  | AVDT_SCB_MSG_ABORT_RSP_EVT
  | AVDT_SCB_MSG_SECURITY_RSP_EVT
  | AVDT_SCB_MSG_DELAY_RPT_RSP_EVT
  | AVDT_SCB_MSG_SETCONFIG_REJ_EVT
  | AVDT_SCB_MSG_OPEN_REJ_EVT

datatype avdt_evt = No_evt | Ccb_evt avdt_ccb_evt | Scb_evt avdt_scb_evt

text \<open>
  The three event tables, read at index \<open>sig - 1\<close>: the result is \<open>None\<close> where the
  index is outside of the table.
\<close>

definition avdt_msg_cmd_2_evt :: "u8 \<Rightarrow> avdt_evt option" where
  "avdt_msg_cmd_2_evt s =
     (if s = AVDT_SIG_DISCOVER then Some (Ccb_evt AVDT_CCB_MSG_DISCOVER_CMD_EVT)
      else if s = AVDT_SIG_GETCAP then Some (Ccb_evt AVDT_CCB_MSG_GETCAP_CMD_EVT)
      else if s = AVDT_SIG_SETCONFIG then Some (Scb_evt AVDT_SCB_MSG_SETCONFIG_CMD_EVT)
      else if s = AVDT_SIG_GETCONFIG then Some (Scb_evt AVDT_SCB_MSG_GETCONFIG_CMD_EVT)
      else if s = AVDT_SIG_RECONFIG then Some (Scb_evt AVDT_SCB_MSG_RECONFIG_CMD_EVT)
      else if s = AVDT_SIG_OPEN then Some (Scb_evt AVDT_SCB_MSG_OPEN_CMD_EVT)
      else if s = AVDT_SIG_START then Some (Ccb_evt AVDT_CCB_MSG_START_CMD_EVT)
      else if s = AVDT_SIG_CLOSE then Some (Scb_evt AVDT_SCB_MSG_CLOSE_CMD_EVT)
      else if s = AVDT_SIG_SUSPEND then Some (Ccb_evt AVDT_CCB_MSG_SUSPEND_CMD_EVT)
      else if s = AVDT_SIG_ABORT then Some (Scb_evt AVDT_SCB_MSG_ABORT_CMD_EVT)
      else if s = AVDT_SIG_SECURITY then Some (Scb_evt AVDT_SCB_MSG_SECURITY_CMD_EVT)
      else if s = AVDT_SIG_GET_ALLCAP then Some (Ccb_evt AVDT_CCB_MSG_GETCAP_CMD_EVT)
      else if s = AVDT_SIG_DELAY_RPT then Some (Scb_evt AVDT_SCB_MSG_DELAY_RPT_CMD_EVT)
      else None)"

definition avdt_msg_rsp_2_evt :: "u8 \<Rightarrow> avdt_evt option" where
  "avdt_msg_rsp_2_evt s =
     (if s = AVDT_SIG_DISCOVER then Some (Ccb_evt AVDT_CCB_MSG_DISCOVER_RSP_EVT)
      else if s = AVDT_SIG_GETCAP then Some (Ccb_evt AVDT_CCB_MSG_GETCAP_RSP_EVT)
      else if s = AVDT_SIG_SETCONFIG then Some (Scb_evt AVDT_SCB_MSG_SETCONFIG_RSP_EVT)
      else if s = AVDT_SIG_GETCONFIG then Some (Scb_evt AVDT_SCB_MSG_GETCONFIG_RSP_EVT)
      else if s = AVDT_SIG_RECONFIG then Some (Scb_evt AVDT_SCB_MSG_RECONFIG_RSP_EVT)
      else if s = AVDT_SIG_OPEN then Some (Scb_evt AVDT_SCB_MSG_OPEN_RSP_EVT)
      else if s = AVDT_SIG_START then Some (Ccb_evt AVDT_CCB_MSG_START_RSP_EVT)
      else if s = AVDT_SIG_CLOSE then Some (Scb_evt AVDT_SCB_MSG_CLOSE_RSP_EVT)
      else if s = AVDT_SIG_SUSPEND then Some (Ccb_evt AVDT_CCB_MSG_SUSPEND_RSP_EVT)
      else if s = AVDT_SIG_ABORT then Some (Scb_evt AVDT_SCB_MSG_ABORT_RSP_EVT)
      else if s = AVDT_SIG_SECURITY then Some (Scb_evt AVDT_SCB_MSG_SECURITY_RSP_EVT)
      else if s = AVDT_SIG_GET_ALLCAP then Some (Ccb_evt AVDT_CCB_MSG_GETCAP_RSP_EVT)
      else if s = AVDT_SIG_DELAY_RPT then Some (Scb_evt AVDT_SCB_MSG_DELAY_RPT_RSP_EVT)
      else None)"

definition avdt_msg_rej_2_evt :: "u8 \<Rightarrow> avdt_evt option" where
  "avdt_msg_rej_2_evt s =
     (if s = AVDT_SIG_DISCOVER then Some (Ccb_evt AVDT_CCB_MSG_DISCOVER_RSP_EVT)
      else if s = AVDT_SIG_GETCAP then Some (Ccb_evt AVDT_CCB_MSG_GETCAP_RSP_EVT)
      else if s = AVDT_SIG_SETCONFIG then Some (Scb_evt AVDT_SCB_MSG_SETCONFIG_REJ_EVT)
      else if s = AVDT_SIG_GETCONFIG then Some (Scb_evt AVDT_SCB_MSG_GETCONFIG_RSP_EVT)
      else if s = AVDT_SIG_RECONFIG then Some (Scb_evt AVDT_SCB_MSG_RECONFIG_RSP_EVT)
      else if s = AVDT_SIG_OPEN then Some (Scb_evt AVDT_SCB_MSG_OPEN_REJ_EVT)
      else if s = AVDT_SIG_START then Some (Ccb_evt AVDT_CCB_MSG_START_RSP_EVT)
      else if s = AVDT_SIG_CLOSE then Some (Scb_evt AVDT_SCB_MSG_CLOSE_RSP_EVT)
      else if s = AVDT_SIG_SUSPEND then Some (Ccb_evt AVDT_CCB_MSG_SUSPEND_RSP_EVT)
      else if s = AVDT_SIG_ABORT then Some (Scb_evt AVDT_SCB_MSG_ABORT_RSP_EVT)
      else if s = AVDT_SIG_SECURITY then Some (Scb_evt AVDT_SCB_MSG_SECURITY_RSP_EVT)
      else if s = AVDT_SIG_GET_ALLCAP then Some (Ccb_evt AVDT_CCB_MSG_GETCAP_RSP_EVT)
      else if s = AVDT_SIG_DELAY_RPT then Some No_evt
      else None)"

text \<open>
  The fields of \<open>tAVDT_MSG\<close> that the dispatch reads or writes: the header
  (\<open>msg.hdr\<close>, without the index of the CCB) and \<open>msg.single.seid\<close>.
\<close>

record tAVDT_MSG =
  hdr_label :: u8
  hdr_sig_id :: u8
  hdr_err_code :: avdt_err
  hdr_err_param :: u8
  single_seid :: u8

text \<open>The fields of the channel control block \<open>AvdtpCcb\<close> that the dispatch uses.\<close>

record AvdtpCcb =
  p_rx_msg :: "BT_HDR option"
  p_curr_cmd :: "BT_HDR option"
  ret_count :: u8
  rsp_q :: "BT_HDR list"

text \<open>
  The calls to functions outside of the file, in order, with the stream control block
  as \<open>avdt_scb_by_hdl\<close> gives it. \<open>avdt_msg_send_rej\<close>, which answers a command
  that does not parse, is recorded with its arguments and not unfolded. The release of
  buffers is not recorded.
\<close>

datatype avdt_call =
    Avdt_ccb_event avdt_ccb_evt "tAVDT_MSG option"
  | Avdt_scb_event nat avdt_scb_evt tAVDT_MSG
  | Avdt_msg_send_rej u8 tAVDT_MSG
  | Alarm_cancel_idle_ccb_timer
  | Alarm_cancel_ret_ccb_timer
  | Alarm_cancel_rsp_ccb_timer

text \<open>
  What the dispatch takes from files that are not among the sources: the largest signal
  id, the length of a General Reject, the macro that stores message type and label in
  \<open>layer_specific\<close>, and the lookup of a stream control block by its handle.
\<close>

record avdt_ind_defs =
  AVDT_SIG_MAX :: u8
  AVDT_LEN_GEN_REJ :: u16
  AVDT_BLD_LAYERSPEC :: "u8 \<Rightarrow> u8 \<Rightarrow> u16"
  avdt_scb_by_hdl :: "u8 \<Rightarrow> nat option"

text \<open>
  \<open>avdt_msg_send_grej\<close>: the new buffer is empty; it is queued in the response queue
  and the CCB is triggered to send it.
\<close>

definition avdt_msg_send_grej ::
  "avdt_buf_defs \<Rightarrow> avdt_ind_defs \<Rightarrow> AvdtpCcb \<Rightarrow> u8 \<Rightarrow> tAVDT_MSG
     \<Rightarrow> AvdtpCcb \<times> avdt_call list"
where
  "avdt_msg_send_grej K D ccb sig_id p_params =
     (ccb\<lparr>rsp_q := rsp_q ccb @
              [\<lparr>event = ucast sig_id, len = 0, offset = AVDT_MSG_OFFSET K,
                layer_specific = AVDT_BLD_LAYERSPEC D AVDT_MSG_TYPE_GRJ (hdr_label p_params),
                data = []\<rparr>]\<rparr>,
      [Avdt_ccb_event AVDT_CCB_SENDMSG_EVT None])"

text \<open>
  The local variables of \<open>avdt_msg_ind\<close>, with the control block and the calls made
  so far.
\<close>

record ind_vars =
  v_ok :: bool
  v_gen_rej :: bool
  v_handle_rsp :: bool
  v_sig :: u8
  v_evt :: avdt_evt
  v_msg :: tAVDT_MSG
  v_ccb :: AvdtpCcb
  v_calls :: "avdt_call list"

text \<open>
  \<open>avdt_msg_ind\<close> after the reassembly, first part: the header of the message \<open>m\<close>
  is parsed, and message type and signal are verified. The result is \<open>None\<close> when a
  byte is read outside of the memory of \<open>m\<close> or an event table is read outside of its
  bounds.
\<close>

definition ind_verify ::
  "avdt_buf_defs \<Rightarrow> avdt_ind_defs \<Rightarrow> AvdtpCcb \<Rightarrow> BT_HDR \<Rightarrow> ind_vars option"
where
  "ind_verify K D ccb m =
     (if length (data m) \<le> unat (offset m) then None
      else
        let b0 = data m ! unat (offset m);
            msg_type = prs_msg_type b0;
            msg = \<lparr>hdr_label = prs_label b0, hdr_sig_id = 0, hdr_err_code = AVDT_SUCCESS,
                   hdr_err_param = 0, single_seid = 0\<rparr>;
            v = \<lparr>v_ok = True, v_gen_rej = False, v_handle_rsp = False, v_sig = 0,
                 v_evt = No_evt, v_msg = msg, v_ccb = ccb, v_calls = []\<rparr>
        in
        if msg_type = AVDT_MSG_TYPE_GRJ then Some (v\<lparr>v_ok := False\<rparr>)
        else if msg_type = AVDT_MSG_TYPE_REJ \<and> len m = AVDT_LEN_GEN_REJ D then
          (case p_curr_cmd ccb of
             None \<Rightarrow> Some (v\<lparr>v_gen_rej := True\<rparr>)
           | Some cmd \<Rightarrow>
               let sig = (ucast (event cmd) :: u8) in
               (case avdt_msg_rej_2_evt sig of
                  None \<Rightarrow> None
                | Some evt \<Rightarrow>
                    Some (v\<lparr>v_gen_rej := True, v_sig := sig, v_evt := evt,
                            v_msg := msg\<lparr>hdr_sig_id := sig, hdr_err_code := AVDT_ERR_NSC,
                                         hdr_err_param := 0\<rparr>\<rparr>)))
        else if length (data m) \<le> unat (offset m) + 1 then None
        else
          let sig = prs_sig (data m ! (unat (offset m) + 1));
              msg = msg\<lparr>hdr_sig_id := sig\<rparr>;
              bad = (sig = 0 \<or> sig > AVDT_SIG_MAX D);
              (ccb', calls) =
                (if bad \<and> msg_type = AVDT_MSG_TYPE_CMD
                 then avdt_msg_send_grej K D ccb sig msg else (ccb, []));
              mismatch =
                ((msg_type = AVDT_MSG_TYPE_RSP \<or> msg_type = AVDT_MSG_TYPE_REJ) \<and>
                 (case p_curr_cmd ccb of
                    None \<Rightarrow> True
                  | Some cmd \<Rightarrow> event cmd \<noteq> ucast sig))
          in
          Some (v\<lparr>v_ok := \<not> bad \<and> \<not> mismatch, v_sig := sig, v_msg := msg,
                  v_ccb := ccb', v_calls := calls\<rparr>))"

text \<open>
  Second part: the message is parsed and the signal is mapped to an event. \<open>parse\<close>
  stands for the parser that the tables \<open>avdt_msg_prs_cmd\<close> and \<open>avdt_msg_prs_rsp\<close>
  select for the signal, or for \<open>avdt_msg_prs_rej\<close>: from the message type, the signal,
  the message so far and the bytes after the header it gives the error code and the
  message. The parsers are not unfolded here.
\<close>

definition ind_parse ::
  "(u8 \<Rightarrow> u8 \<Rightarrow> tAVDT_MSG \<Rightarrow> u8 list \<Rightarrow> avdt_err \<times> tAVDT_MSG) \<Rightarrow> BT_HDR \<Rightarrow> ind_vars
     \<Rightarrow> ind_vars option"
where
  "ind_parse parse m v =
     (if v_ok v \<and> \<not> v_gen_rej v then
        let msg_type = prs_msg_type (data m ! unat (offset m));
            sig = v_sig v;
            bytes = take (unat (len m - AVDT_LEN_TYPE_SINGLE))
                      (drop (unat (offset m) + 2) (data m));
            (err, msg) = parse msg_type sig (v_msg v) bytes;
            msg = (if msg_type = AVDT_MSG_TYPE_CMD \<or> msg_type = AVDT_MSG_TYPE_RSP
                   then msg\<lparr>hdr_err_code := err\<rparr> else msg)
        in
        case (if msg_type = AVDT_MSG_TYPE_CMD then avdt_msg_cmd_2_evt sig
              else if msg_type = AVDT_MSG_TYPE_RSP then avdt_msg_rsp_2_evt sig
              else avdt_msg_rej_2_evt sig) of
          None \<Rightarrow> None
        | Some evt \<Rightarrow>
            if err \<noteq> AVDT_SUCCESS then
              Some (v\<lparr>v_ok := False, v_evt := evt, v_msg := msg,
                      v_calls := v_calls v @
                        (if msg_type = AVDT_MSG_TYPE_CMD \<and> sig \<noteq> AVDT_SIG_ABORT
                         then [Avdt_msg_send_rej sig msg] else [])\<rparr>)
            else Some (v\<lparr>v_evt := evt, v_msg := msg\<rparr>)
      else Some v)"

text \<open>
  Third part: a response or reject is matched against the command that was sent; if it
  matches, the timers are stopped.
\<close>

definition ind_match :: "avdt_buf_defs \<Rightarrow> BT_HDR \<Rightarrow> ind_vars \<Rightarrow> ind_vars" where
  "ind_match K m v =
     (let b0 = data m ! unat (offset m); msg_type = prs_msg_type b0 in
      if v_ok v \<and> (msg_type = AVDT_MSG_TYPE_RSP \<or> msg_type = AVDT_MSG_TYPE_REJ) then
        if (case p_curr_cmd (v_ccb v) of
              None \<Rightarrow> False
            | Some cmd \<Rightarrow>
                event cmd = ucast (v_sig v) \<and>
                AVDT_LAYERSPEC_LABEL K (layer_specific cmd) = prs_label b0)
        then v\<lparr>v_handle_rsp := True, v_ccb := (v_ccb v)\<lparr>ret_count := 0\<rparr>,
               v_calls := v_calls v @
                 [Alarm_cancel_idle_ccb_timer, Alarm_cancel_ret_ccb_timer,
                  Alarm_cancel_rsp_ccb_timer]\<rparr>
        else v\<lparr>v_ok := False\<rparr>
      else v)"

text \<open>
  Last part: the event is sent to the CCB or to the SCB, and a matched response or reject
  is reported to the CCB. The handle of the SCB of a response or reject is the first byte
  of the command that was sent (\<open>None\<close> when the command has no byte).
\<close>

definition ind_dispatch ::
  "avdt_ind_defs \<Rightarrow> BT_HDR \<Rightarrow> ind_vars \<Rightarrow> (AvdtpCcb \<times> avdt_call list) option"
where
  "ind_dispatch D m v =
     (let msg_type = prs_msg_type (data m ! unat (offset m));
          rcvrsp = (if v_handle_rsp v then [Avdt_ccb_event AVDT_CCB_RCVRSP_EVT None] else [])
      in
      if v_ok v then
        case v_evt v of
          Ccb_evt e \<Rightarrow>
            Some (v_ccb v, v_calls v @ [Avdt_ccb_event e (Some (v_msg v))] @ rcvrsp)
        | No_evt \<Rightarrow> Some (v_ccb v, v_calls v @ rcvrsp)
        | Scb_evt e \<Rightarrow>
            (case (if msg_type = AVDT_MSG_TYPE_CMD then Some (single_seid (v_msg v))
                   else (case p_curr_cmd (v_ccb v) of
                           None \<Rightarrow> None
                         | Some cmd \<Rightarrow> (case data cmd of [] \<Rightarrow> None | x # xs \<Rightarrow> Some x))) of
               None \<Rightarrow> None
             | Some scb_hdl \<Rightarrow>
                 (case avdt_scb_by_hdl D scb_hdl of
                    None \<Rightarrow> Some (v_ccb v, v_calls v @ rcvrsp)
                  | Some p_scb \<Rightarrow>
                      Some (v_ccb v,
                            v_calls v @ [Avdt_scb_event p_scb e (v_msg v)] @ rcvrsp)))
      else Some (v_ccb v, v_calls v @ rcvrsp))"

text \<open>
  \<open>avdt_msg_ind\<close>: the fragment \<open>b\<close> is passed to the reassembly, and a complete
  message is verified, parsed and dispatched. The result is the control block as the
  function leaves it and the calls made; what the called functions do to the control
  block is not part of it.
\<close>

definition avdt_msg_ind ::
  "avdt_buf_defs \<Rightarrow> avdt_ind_defs \<Rightarrow> (u8 \<Rightarrow> u8 \<Rightarrow> tAVDT_MSG \<Rightarrow> u8 list \<Rightarrow> avdt_err \<times> tAVDT_MSG)
     \<Rightarrow> AvdtpCcb \<Rightarrow> BT_HDR \<Rightarrow> (AvdtpCcb \<times> avdt_call list) option"
where
  "avdt_msg_ind K D parse ccb b =
     (case avdt_msg_asmbl K (p_rx_msg ccb) b of
        None \<Rightarrow> None
      | Some (None, rx) \<Rightarrow> Some (ccb\<lparr>p_rx_msg := rx\<rparr>, [])
      | Some (Some m, rx) \<Rightarrow>
          (case ind_verify K D (ccb\<lparr>p_rx_msg := rx\<rparr>) m of
             None \<Rightarrow> None
           | Some v \<Rightarrow>
               (case ind_parse parse m v of
                  None \<Rightarrow> None
                | Some v \<Rightarrow> ind_dispatch D m (ind_match K m v))))"

text \<open>
  The message type, the label and the signal id field of a message, the test of the
  signal id, and the buffer that \<open>avdt_msg_send_grej\<close> queues in answer to the
  message \<open>m\<close>.
\<close>

definition msg_type_of :: "BT_HDR \<Rightarrow> u8" where
  "msg_type_of m = prs_msg_type (data m ! unat (offset m))"

definition label_of :: "BT_HDR \<Rightarrow> u8" where
  "label_of m = prs_label (data m ! unat (offset m))"

definition sig_of :: "BT_HDR \<Rightarrow> u8" where
  "sig_of m = prs_sig (data m ! (unat (offset m) + 1))"

definition invalid_sig :: "avdt_ind_defs \<Rightarrow> u8 \<Rightarrow> bool" where
  "invalid_sig D s = (s = 0 \<or> s > AVDT_SIG_MAX D)"

definition grej_buf :: "avdt_buf_defs \<Rightarrow> avdt_ind_defs \<Rightarrow> BT_HDR \<Rightarrow> BT_HDR" where
  "grej_buf K D m =
     \<lparr>event = ucast (sig_of m), len = 0, offset = AVDT_MSG_OFFSET K,
      layer_specific =
        AVDT_BLD_LAYERSPEC D AVDT_MSG_TYPE_GRJ (prs_label (data m ! unat (offset m))),
      data = []\<rparr>"

text \<open>
  Example values: the constants, a parser that accepts every message, a command that was
  sent (Set Configuration, label 1, stream handle 5) and waits for its response, and a
  message of two bytes in a single packet.
\<close>

definition example_ind_defs :: avdt_ind_defs where
  "example_ind_defs =
     \<lparr>AVDT_SIG_MAX = 13, AVDT_LEN_GEN_REJ = 2,
      AVDT_BLD_LAYERSPEC = (\<lambda>msg lbl. push_bit 4 (ucast lbl) OR ucast msg),
      avdt_scb_by_hdl = (\<lambda>h. if h = 5 then Some 0 else None)\<rparr>"

definition example_parse :: "u8 \<Rightarrow> u8 \<Rightarrow> tAVDT_MSG \<Rightarrow> u8 list \<Rightarrow> avdt_err \<times> tAVDT_MSG" where
  "example_parse msg_type s msg bytes = (AVDT_SUCCESS, msg)"

definition example_sent_cmd :: BT_HDR where
  "example_sent_cmd =
     \<lparr>event = 3, len = 2, offset = 1, layer_specific = 16, data = [5, 4, 0]\<rparr>"

definition example_ccb :: AvdtpCcb where
  "example_ccb =
     \<lparr>p_rx_msg = None, p_curr_cmd = Some example_sent_cmd, ret_count = 2, rsp_q = []\<rparr>"

definition example_pdu :: "u8 \<Rightarrow> u8 \<Rightarrow> BT_HDR" where
  "example_pdu b0 b1 = \<lparr>event = 0, len = 2, offset = 0, layer_specific = 0, data = [b0, b1]\<rparr>"

section \<open>SMP: control block, constants and calls\<close>

text \<open>
  The association models (\<open>tSMP_ASSO_MODEL\<close>), the internal events of the state machine
  (\<open>tSMP_EVENT\<close>), the events for the application callback (\<open>tSMP_EVT\<close>, with
  \<open>SMP_NO_EVT\<close> for the value 0 of \<open>cb_evt\<close>), the states that the modelled actions
  set, and the opcodes they send. smp_api.h and smp_int.h, which number them, are not
  among the sources; the actions only assign and compare them.
\<close>

datatype tSMP_ASSO_MODEL =
    SMP_MODEL_ENCRYPTION_ONLY
  | SMP_MODEL_PASSKEY
  | SMP_MODEL_OOB
  | SMP_MODEL_KEY_NOTIF
  | SMP_MODEL_SEC_CONN_JUSTWORKS
  | SMP_MODEL_SEC_CONN_NUM_COMP
  | SMP_MODEL_SEC_CONN_PASSKEY_ENT
  | SMP_MODEL_SEC_CONN_PASSKEY_DISP
  | SMP_MODEL_SEC_CONN_OOB
  | SMP_MODEL_OUT_OF_RANGE

datatype tSMP_EVENT =
    SMP_AUTH_CMPL_EVT
  | SMP_KEY_READY_EVT
  | SMP_TK_REQ_EVT
  | SMP_PUBL_KEY_EXCH_REQ_EVT
  | SMP_SC_DSPL_NC_EVT
  | SMP_BOND_REQ_EVT
  | SMP_BOTH_PUBL_KEYS_RCVD_EVT

datatype tSMP_EVT =
    SMP_NO_EVT
  | SMP_IO_CAP_REQ_EVT
  | SMP_SEC_REQUEST_EVT
  | SMP_PASSKEY_REQ_EVT
  | SMP_OOB_REQ_EVT
  | SMP_CONSENT_REQ_EVT
  | SMP_OTHER_EVT u8

datatype tSMP_STATE =
    SMP_STATE_SEC_REQ_PENDING
  | SMP_STATE_WAIT_NONCE
  | SMP_STATE_PUBLIC_KEY_EXCH

datatype smp_opcode =
    SMP_OPCODE_PAIRING_REQ
  | SMP_OPCODE_PAIRING_RSP
  | SMP_OPCODE_PAIRING_FAILED
  | SMP_OPCODE_SEC_REQ

text \<open>
  The fields of the pairing control block \<open>tSMP_CB\<close> that the modelled actions read or
  write. \<open>flags\<close> is a 16 bit word and the key masks are bytes; a public key coordinate
  is its 32 bytes.
\<close>

record tSMP_CB =
  role :: u8
  flags :: u16
  local_i_key :: u8
  local_r_key :: u8
  peer_i_key :: u8
  peer_r_key :: u8
  peer_io_caps :: u8
  peer_oob_flag :: u8
  peer_auth_req :: u8
  peer_enc_size :: u8
  loc_auth_req :: u8
  local_io_capability :: u8
  selected_association_model :: tSMP_ASSO_MODEL
  le_secure_connections_mode_is_used :: bool
  secure_connections_only_mode_required :: bool
  smp_over_br :: bool
  status :: u8
  failure :: u8
  cert_failure :: u8
  rcvd_cmd_len :: u8
  cb_evt :: tSMP_EVT
  sec_level :: u8
  req_oob_type :: u8
  wait_for_authorization_complete :: bool
  tk :: "u8 list"
  peer_publ_key_x :: "u8 list"
  peer_publ_key_y :: "u8 list"
  loc_publ_key_x :: "u8 list"

text \<open>
  The argument \<open>tSMP_INT_DATA\<close> of an event: a null pointer, a status, the key of a
  key-ready event (its type is \<open>SMP_KEY_TYPE_TK\<close> and it points to \<open>p_cb->tk\<close>), or
  the uninitialised local variable that \<open>smp_decide_association_model\<close> passes with
  the events that carry no data.
\<close>

datatype smp_int_data =
    Data_null
  | Data_status u8
  | Data_key_tk
  | Data_uninit

text \<open>
  The calls of the modelled actions to functions that are not in smp_act.cc, in order.
  Every action returns the control block as it is when the action hands over to the
  last of these calls or returns, and the calls. Trace and error logging are left out.
\<close>

datatype smp_call =
    Smp_sm_event tSMP_EVENT smp_int_data
  | Smp_send_cmd smp_opcode
  | Smp_set_state tSMP_STATE
  | Alarm_cancel_delayed_auth_timer
  | Btm_sec_clear_ble_keys
  | Smp_use_oob_private_key
  | Smp_generate_passkey
  | Smp_request_oob_data

text \<open>
  What the actions take from files that are not among the sources: the constants of
  smp_api.h, smp_int.h and hcidefs.h, and the functions of smp_utils.cc, smp_keys.cc,
  p_256_ecc_pp.cc and btm that return a result to the action. \<open>btm_find_dev\<close> says
  whether a device record exists for the pairing address.
\<close>

record smp_defs =
  HCI_ROLE_MASTER :: u8
  HCI_ROLE_SLAVE :: u8
  SMP_SUCCESS :: u8
  SMP_PASSKEY_ENTRY_FAIL :: u8
  SMP_PAIR_AUTH_FAIL :: u8
  SMP_PAIR_NOT_SUPPORT :: u8
  SMP_PAIR_FAIL_UNKNOWN :: u8
  SMP_REPEATED_ATTEMPTS :: u8
  SMP_INVALID_PARAMETERS :: u8
  SMP_MAX_FAIL_RSN_PER_SPEC :: u8
  SMP_ENC_FAIL :: u8
  SMP_UNKNOWN_IO_CAP :: u8
  SMP_PAIR_FLAGS_WE_STARTED_DD :: u16
  SMP_PAIR_FLAG_ENC_AFTER_PAIR :: u16
  SMP_PAIR_FLAG_HAVE_PEER_PUBL_KEY :: u16
  SMP_PAIR_FLAG_HAVE_LOCAL_PUBL_KEY :: u16
  SMP_AUTH_YN_BIT :: u8
  SMP_IO_CAP_IO :: u8
  SMP_IO_CAP_KBDISP :: u8
  SMP_SEC_UNAUTHENTICATE :: u8
  SMP_SEC_AUTHENTICATED :: u8
  SMP_OOB_LOCAL :: u8
  SMP_OOB_BOTH :: u8
  smp_command_has_invalid_length :: "tSMP_CB \<Rightarrow> bool"
  smp_command_has_invalid_parameters :: "tSMP_CB \<Rightarrow> bool"
  smp_select_association_model :: "tSMP_CB \<Rightarrow> tSMP_ASSO_MODEL \<times> tSMP_CB"
  smp_request_oob_data :: "tSMP_CB \<Rightarrow> bool \<times> tSMP_CB"
  smp_send_cmd :: "smp_opcode \<Rightarrow> tSMP_CB \<Rightarrow> bool"
  btm_find_dev :: "tSMP_CB \<Rightarrow> bool"
  is_atv_device :: bool
  ECC_ValidatePoint :: "u8 list \<Rightarrow> u8 list \<Rightarrow> bool"

text \<open>
  Modelled from the spec: the macros \<open>SMP_SEC_KEY_TYPE_*\<close> of smp_api.h are missing
  from the sources; the spec numbers the key-type bits ENC=1, ID=2, CSRK=4, LK=8, which
  is also the order of the table \<open>smp_distribute_act\<close> by bit index.
\<close>

definition SMP_SEC_KEY_TYPE_ENC :: u8 where
  "SMP_SEC_KEY_TYPE_ENC = 1"

definition SMP_SEC_KEY_TYPE_ID :: u8 where
  "SMP_SEC_KEY_TYPE_ID = 2"

definition SMP_SEC_KEY_TYPE_CSRK :: u8 where
  "SMP_SEC_KEY_TYPE_CSRK = 4"

definition SMP_SEC_KEY_TYPE_LK :: u8 where
  "SMP_SEC_KEY_TYPE_LK = 8"

section \<open>SMP: the actions\<close>

definition smp_update_key_mask :: "smp_defs \<Rightarrow> tSMP_CB \<Rightarrow> u8 \<Rightarrow> bool \<Rightarrow> tSMP_CB" where
  "smp_update_key_mask K p_cb key_type recv =
     (if (le_secure_connections_mode_is_used p_cb \<or> smp_over_br p_cb) \<and>
         (key_type = SMP_SEC_KEY_TYPE_ENC \<or> key_type = SMP_SEC_KEY_TYPE_LK)
      then p_cb\<lparr>local_i_key := local_i_key p_cb AND NOT key_type,
                local_r_key := local_r_key p_cb AND NOT key_type\<rparr>
      else if role p_cb = HCI_ROLE_SLAVE K then
        (if recv then p_cb\<lparr>local_i_key := local_i_key p_cb AND NOT key_type\<rparr>
         else p_cb\<lparr>local_r_key := local_r_key p_cb AND NOT key_type\<rparr>)
      else
        (if recv then p_cb\<lparr>local_r_key := local_r_key p_cb AND NOT key_type\<rparr>
         else p_cb\<lparr>local_i_key := local_i_key p_cb AND NOT key_type\<rparr>))"


text \<open>\<open>smp_send_pair_fail\<close>: \<open>st\<close> is \<open>p_data->status\<close>.\<close>

definition smp_send_pair_fail :: "smp_defs \<Rightarrow> tSMP_CB \<Rightarrow> u8 \<Rightarrow> tSMP_CB \<times> smp_call list" where
  "smp_send_pair_fail K p_cb st =
     (let p_cb = p_cb\<lparr>status := st, failure := st\<rparr> in
      if status p_cb \<le> SMP_MAX_FAIL_RSN_PER_SPEC K \<and> status p_cb \<noteq> SMP_SUCCESS K
      then (p_cb\<lparr>wait_for_authorization_complete := True\<rparr>,
            [Smp_send_cmd SMP_OPCODE_PAIRING_FAILED])
      else (p_cb, []))"

text \<open>\<open>smp_proc_pair_fail\<close>: \<open>st\<close> is \<open>p_data->status\<close>.\<close>

definition smp_proc_pair_fail :: "smp_defs \<Rightarrow> tSMP_CB \<Rightarrow> u8 \<Rightarrow> tSMP_CB \<times> smp_call list" where
  "smp_proc_pair_fail K p_cb st =
     ((if rcvd_cmd_len p_cb < 2 then p_cb\<lparr>status := SMP_INVALID_PARAMETERS K\<rparr>
       else p_cb\<lparr>status := st\<rparr>),
      [Alarm_cancel_delayed_auth_timer])"

text \<open>
  \<open>smp_decide_association_model\<close>. The switch has a default case for a value that is no
  association model; the enumeration has no such value. An event is nonzero, so the
  final test of \<open>int_evt\<close> is whether a case assigned one.
\<close>

definition smp_decide_association_model :: "smp_defs \<Rightarrow> tSMP_CB \<Rightarrow> tSMP_CB \<times> smp_call list" where
  "smp_decide_association_model K p_cb =
     (case selected_association_model p_cb of
        SMP_MODEL_ENCRYPTION_ONLY \<Rightarrow>
          if role p_cb = HCI_ROLE_MASTER K \<and>
             peer_auth_req p_cb AND SMP_AUTH_YN_BIT K \<noteq> 0 \<and>
             loc_auth_req p_cb AND SMP_AUTH_YN_BIT K = 0
          then (p_cb, [Smp_sm_event SMP_AUTH_CMPL_EVT (Data_status (SMP_PAIR_AUTH_FAIL K))])
          else if \<not> is_atv_device K \<and>
                  (local_io_capability p_cb = SMP_IO_CAP_IO K \<or>
                   local_io_capability p_cb = SMP_IO_CAP_KBDISP K)
          then (p_cb\<lparr>cb_evt := SMP_CONSENT_REQ_EVT\<rparr>,
                [Smp_set_state SMP_STATE_WAIT_NONCE, Smp_sm_event SMP_SC_DSPL_NC_EVT Data_null])
          else (p_cb\<lparr>sec_level := SMP_SEC_UNAUTHENTICATE K, tk := replicate 16 0\<rparr>,
                [Smp_sm_event SMP_KEY_READY_EVT Data_key_tk])
      | SMP_MODEL_PASSKEY \<Rightarrow>
          (p_cb\<lparr>sec_level := SMP_SEC_AUTHENTICATED K, cb_evt := SMP_PASSKEY_REQ_EVT\<rparr>,
           [Smp_sm_event SMP_TK_REQ_EVT Data_uninit])
      | SMP_MODEL_OOB \<Rightarrow>
          (p_cb\<lparr>sec_level := SMP_SEC_AUTHENTICATED K, cb_evt := SMP_OOB_REQ_EVT\<rparr>,
           [Smp_sm_event SMP_TK_REQ_EVT Data_uninit])
      | SMP_MODEL_KEY_NOTIF \<Rightarrow>
          (p_cb\<lparr>sec_level := SMP_SEC_AUTHENTICATED K\<rparr>, [Smp_generate_passkey])
      | SMP_MODEL_OUT_OF_RANGE \<Rightarrow>
          (p_cb, [Smp_sm_event SMP_AUTH_CMPL_EVT (Data_status (SMP_UNKNOWN_IO_CAP K))])
      | _ \<Rightarrow> (p_cb, [Smp_sm_event SMP_PUBL_KEY_EXCH_REQ_EVT Data_uninit]))"

definition smp_send_pair_rsp :: "smp_defs \<Rightarrow> tSMP_CB \<Rightarrow> tSMP_CB \<times> smp_call list" where
  "smp_send_pair_rsp K p_cb =
     (let p_cb = p_cb\<lparr>local_i_key := local_i_key p_cb AND peer_i_key p_cb,
                      local_r_key := local_r_key p_cb AND peer_r_key p_cb\<rparr> in
      if smp_send_cmd K SMP_OPCODE_PAIRING_RSP p_cb then
        if selected_association_model p_cb = SMP_MODEL_SEC_CONN_OOB
        then (p_cb, [Smp_send_cmd SMP_OPCODE_PAIRING_RSP, Smp_use_oob_private_key])
        else (case smp_decide_association_model K p_cb of
                (p_cb', calls) \<Rightarrow> (p_cb', Smp_send_cmd SMP_OPCODE_PAIRING_RSP # calls))
      else (p_cb, [Smp_send_cmd SMP_OPCODE_PAIRING_RSP]))"







definition smp_wait_for_both_public_keys :: "smp_defs \<Rightarrow> tSMP_CB \<Rightarrow> tSMP_CB \<times> smp_call list" where
  "smp_wait_for_both_public_keys K p_cb =
     (if flags p_cb AND SMP_PAIR_FLAG_HAVE_PEER_PUBL_KEY K \<noteq> 0 \<and>
         flags p_cb AND SMP_PAIR_FLAG_HAVE_LOCAL_PUBL_KEY K \<noteq> 0
      then
        (p_cb,
         (if role p_cb = HCI_ROLE_SLAVE K \<and>
             (req_oob_type p_cb = SMP_OOB_LOCAL K \<or> req_oob_type p_cb = SMP_OOB_BOTH K)
          then [Smp_set_state SMP_STATE_PUBLIC_KEY_EXCH] else []) @
         [Smp_sm_event SMP_BOTH_PUBL_KEYS_RCVD_EVT Data_null])
      else (p_cb, []))"

text \<open>
  \<open>smp_process_pairing_public_key\<close>: \<open>p\<close> is \<open>p_data->p_data\<close>, the two coordinates
  of the peer's key, 32 bytes each. The result is \<open>None\<close> when the action would read
  past the end of \<open>p\<close>.
\<close>

definition smp_process_pairing_public_key ::
  "smp_defs \<Rightarrow> tSMP_CB \<Rightarrow> u8 list \<Rightarrow> (tSMP_CB \<times> smp_call list) option"
where
  "smp_process_pairing_public_key K p_cb p =
     (if smp_command_has_invalid_parameters K p_cb then
        Some (p_cb, [Smp_sm_event SMP_AUTH_CMPL_EVT (Data_status (SMP_INVALID_PARAMETERS K))])
      else if length p < 64 then None
      else
        let p_cb = p_cb\<lparr>peer_publ_key_x := take 32 p,
                         peer_publ_key_y := take 32 (drop 32 p)\<rparr>
        in
        if peer_publ_key_x p_cb = loc_publ_key_x p_cb then
          Some (p_cb, [Smp_sm_event SMP_AUTH_CMPL_EVT (Data_status (SMP_PAIR_AUTH_FAIL K))])
        else if \<not> ECC_ValidatePoint K (peer_publ_key_x p_cb) (peer_publ_key_y p_cb) then
          Some (p_cb, [Smp_sm_event SMP_AUTH_CMPL_EVT (Data_status (SMP_PAIR_AUTH_FAIL K))])
        else
          Some (smp_wait_for_both_public_keys K
                  (p_cb\<lparr>flags := flags p_cb OR SMP_PAIR_FLAG_HAVE_PEER_PUBL_KEY K\<rparr>)))"

text \<open>\<open>smp_check_auth_req\<close>: \<open>enc_enable\<close> is \<open>p_data->status\<close>.\<close>

definition smp_check_auth_req :: "smp_defs \<Rightarrow> tSMP_CB \<Rightarrow> u8 \<Rightarrow> tSMP_CB \<times> smp_call list" where
  "smp_check_auth_req K p_cb enc_enable =
     (let st = Data_status (if enc_enable \<noteq> 0 then SMP_SUCCESS K else SMP_ENC_FAIL K) in
      if enc_enable = 1 then
        let p_cb =
          (if le_secure_connections_mode_is_used p_cb then
             let c = p_cb\<lparr>local_i_key := local_i_key p_cb OR SMP_SEC_KEY_TYPE_ENC,
                          local_r_key := local_r_key p_cb OR SMP_SEC_KEY_TYPE_ENC\<rparr>;
                 c = (if local_i_key c AND SMP_SEC_KEY_TYPE_LK = 0 \<or>
                         local_r_key c AND SMP_SEC_KEY_TYPE_LK = 0
                      then c\<lparr>local_i_key := local_i_key c AND NOT SMP_SEC_KEY_TYPE_LK,
                             local_r_key := local_r_key c AND NOT SMP_SEC_KEY_TYPE_LK\<rparr>
                      else c)
             in
             if role c = HCI_ROLE_MASTER K
             then c\<lparr>local_r_key := local_r_key c AND (SMP_SEC_KEY_TYPE_ID OR SMP_SEC_KEY_TYPE_CSRK)\<rparr>
             else c
           else p_cb\<lparr>local_i_key := local_i_key p_cb AND NOT SMP_SEC_KEY_TYPE_LK,
                      local_r_key := local_r_key p_cb AND NOT SMP_SEC_KEY_TYPE_LK\<rparr>)
        in
        if local_i_key p_cb \<noteq> 0 \<or> local_r_key p_cb \<noteq> 0
        then (p_cb, [Smp_sm_event SMP_BOND_REQ_EVT Data_null])
        else (p_cb, [Smp_sm_event SMP_AUTH_CMPL_EVT st])
      else if enc_enable = 0 then
        if flags p_cb AND SMP_PAIR_FLAG_ENC_AFTER_PAIR K \<noteq> 0
        then (p_cb, [Smp_sm_event SMP_AUTH_CMPL_EVT st])
        else if role p_cb = HCI_ROLE_MASTER K
        then (p_cb, [Smp_sm_event SMP_AUTH_CMPL_EVT st])
        else (p_cb, [])
      else (p_cb, []))"

text \<open>
  Constants, outside functions and a control block used in the examples. The example
  selection of the association model looks at the Secure Connections bit (8) of both
  authentication requirements only.
\<close>

definition example_select :: "tSMP_CB \<Rightarrow> tSMP_ASSO_MODEL \<times> tSMP_CB" where
  "example_select p_cb =
     (if peer_auth_req p_cb AND 8 \<noteq> 0 \<and> loc_auth_req p_cb AND 8 \<noteq> 0
      then (SMP_MODEL_SEC_CONN_JUSTWORKS, p_cb\<lparr>le_secure_connections_mode_is_used := True\<rparr>)
      else (SMP_MODEL_ENCRYPTION_ONLY, p_cb\<lparr>le_secure_connections_mode_is_used := False\<rparr>))"

definition example_smp_defs :: smp_defs where
  "example_smp_defs =
     \<lparr>HCI_ROLE_MASTER = 0, HCI_ROLE_SLAVE = 1, SMP_SUCCESS = 0,
      SMP_PASSKEY_ENTRY_FAIL = 1, SMP_PAIR_AUTH_FAIL = 3, SMP_PAIR_NOT_SUPPORT = 5,
      SMP_PAIR_FAIL_UNKNOWN = 8, SMP_REPEATED_ATTEMPTS = 9, SMP_INVALID_PARAMETERS = 10,
      SMP_MAX_FAIL_RSN_PER_SPEC = 14, SMP_ENC_FAIL = 97, SMP_UNKNOWN_IO_CAP = 98,
      SMP_PAIR_FLAGS_WE_STARTED_DD = 1, SMP_PAIR_FLAG_ENC_AFTER_PAIR = 2,
      SMP_PAIR_FLAG_HAVE_PEER_PUBL_KEY = 32, SMP_PAIR_FLAG_HAVE_LOCAL_PUBL_KEY = 64,
      SMP_AUTH_YN_BIT = 4, SMP_IO_CAP_IO = 1, SMP_IO_CAP_KBDISP = 4,
      SMP_SEC_UNAUTHENTICATE = 1, SMP_SEC_AUTHENTICATED = 2,
      SMP_OOB_LOCAL = 1, SMP_OOB_BOTH = 3,
      smp_command_has_invalid_length = (\<lambda>c. rcvd_cmd_len c \<noteq> 7),
      smp_command_has_invalid_parameters = (\<lambda>c. False),
      smp_select_association_model = example_select,
      smp_request_oob_data = (\<lambda>c. (True, c)),
      smp_send_cmd = (\<lambda>opc c. True),
      btm_find_dev = (\<lambda>c. False),
      is_atv_device = False,
      ECC_ValidatePoint = (\<lambda>x y. y \<noteq> replicate 32 0)\<rparr>"

definition example_smp_cb :: tSMP_CB where
  "example_smp_cb =
     \<lparr>role = 0, flags = 0, local_i_key = 15, local_r_key = 15, peer_i_key = 0,
      peer_r_key = 0, peer_io_caps = 0, peer_oob_flag = 0, peer_auth_req = 0,
      peer_enc_size = 0, loc_auth_req = 9, local_io_capability = 3,
      selected_association_model = SMP_MODEL_ENCRYPTION_ONLY,
      le_secure_connections_mode_is_used = True,
      secure_connections_only_mode_required = True, smp_over_br = False,
      status = 0, failure = 0, cert_failure = 0, rcvd_cmd_len = 7, cb_evt = SMP_NO_EVT,
      sec_level = 0, req_oob_type = 0, wait_for_authorization_complete = False,
      tk = replicate 16 0, peer_publ_key_x = replicate 32 0,
      peer_publ_key_y = replicate 32 0, loc_publ_key_x = replicate 32 7\<rparr>"



section \<open>Theorems\<close>

subsection \<open>The discover response parser\<close>

lemma length_disc_entries: "length (disc_entries D p) = length p div 2"
  by (induction D p rule: disc_entries.induct) simp_all

lemma prs_disc_loop_total:
  "n \<le> length p div 2 \<Longrightarrow> \<exists>err es. prs_disc_loop D n p = Some (err, es)"
proof (induction D n p rule: prs_disc_loop.induct)
  case (1 D p)
  then show ?case by simp
next
  case (2 D n b0 b1 p)
  then show ?case by (auto simp: Let_def)
qed simp_all

lemma prs_disc_loop_spec:
  "prs_disc_loop D n p = Some (err, es) \<Longrightarrow>
     length es \<le> n \<and> take (length es) (disc_entries D p) = es \<and>
     (\<forall>e \<in> set (butlast es). seid_valid e) \<and>
     (err = AVDT_SUCCESS \<or> err = AVDT_ERR_SEID) \<and>
     (err = AVDT_ERR_SEID \<longleftrightarrow> (\<exists>e \<in> set es. \<not> seid_valid e)) \<and>
     (err = AVDT_SUCCESS \<longrightarrow> length es = n)"
proof (induction D n p arbitrary: err es rule: prs_disc_loop.induct)
  case (1 D p)
  then show ?case by simp
next
  case (2 D n b0 b1 p)
  show ?case
  proof (cases "seid (D b0 b1) < AVDT_SEID_MIN \<or> seid (D b0 b1) > AVDT_SEID_MAX")
    case True
    with "2.prems" have "err = AVDT_ERR_SEID" "es = [D b0 b1]"
      by (auto simp: Let_def)
    with True show ?thesis
      by (auto simp: seid_valid_def not_le)
  next
    case False
    with "2.prems" obtain es' where
      rec: "prs_disc_loop D n p = Some (err, es')" and es: "es = D b0 b1 # es'"
      by (auto simp: Let_def split: option.splits)
    from False have ok: "seid_valid (D b0 b1)"
      by (auto simp: seid_valid_def not_less)
    note IH = "2.IH" [OF refl False rec]
    from IH have i1: "length es' \<le> n" by blast
    from IH have i2: "take (length es') (disc_entries D p) = es'" by blast
    from IH have i3: "\<forall>e \<in> set (butlast es'). seid_valid e" by blast
    from IH have 4: "err = AVDT_SUCCESS \<or> err = AVDT_ERR_SEID" by blast
    from IH have i5: "err = AVDT_ERR_SEID \<longleftrightarrow> (\<exists>e \<in> set es'. \<not> seid_valid e)" by blast
    from IH have i6: "err = AVDT_SUCCESS \<longrightarrow> length es' = n" by blast
    have 1: "length es \<le> Suc n" using i1 by (simp add: es)
    have 2: "take (length es) (disc_entries D (b0 # b1 # p)) = es" using i2 by (simp add: es)
    have 3: "\<forall>e \<in> set (butlast es). seid_valid e"
      using i3 ok by (auto simp: es dest: in_set_butlastD split: if_splits)
    have 5: "err = AVDT_ERR_SEID \<longleftrightarrow> (\<exists>e \<in> set es. \<not> seid_valid e)"
      using i5 ok by (simp add: es)
    have 6: "err = AVDT_SUCCESS \<longrightarrow> length es = Suc n" using i6 by (simp add: es)
    from 1 2 3 4 5 6 show ?thesis by blast
  qed
qed simp_all

text \<open>
  C9. For every discover response body \<open>p\<close> and every capacity \<open>num_seps\<close>, the parser
  returns (it never reads past the body); the entries it writes are the first entries of
  the body, at most the minimum of the capacity and half the body length; it returns
  either success or the SEID error code, the SEID error code exactly when one of the
  entries written has a SEID outside 1..62; and every entry before the last written one
  has a valid SEID, so the parser stopped at the first invalid one.
\<close>

theorem discover_rsp_entries_and_seid_error:
  "\<exists>err n es.
     avdt_msg_prs_discover_rsp D num_seps p = Some (err, n, es) \<and>
     unat n = min (unat num_seps) (length p div 2) \<and>
     length es \<le> min (unat num_seps) (length p div 2) \<and>
     take (length es) (disc_entries D p) = es \<and>
     (err = AVDT_SUCCESS \<or> err = AVDT_ERR_SEID) \<and>
     (err = AVDT_ERR_SEID \<longleftrightarrow> (\<exists>e \<in> set es. \<not> seid_valid e)) \<and>
     (\<forall>e \<in> set (butlast es). seid_valid e) \<and>
     (err = AVDT_SUCCESS \<longrightarrow> length es = min (unat num_seps) (length p div 2))"
proof -
  define n where "n = (if unat num_seps > length p div 2 then of_nat (length p div 2) else num_seps)"
  have n_val: "unat n = min (unat num_seps) (length p div 2)"
  proof (cases "unat num_seps > length p div 2")
    case True
    have "unat num_seps < 256" using unsigned_less [of num_seps] by simp
    with True have "length p div 2 < 2 ^ LENGTH(8)" by simp
    then have "unat (of_nat (length p div 2) :: u8) = length p div 2"
      by (simp add: unat_of_nat)
    with True show ?thesis by (simp add: n_def min_def)
  next
    case False
    then show ?thesis by (simp add: n_def min_def)
  qed
  then have "unat n \<le> length p div 2" by simp
  from prs_disc_loop_total [OF this] obtain err es where
    loop: "prs_disc_loop D (unat n) p = Some (err, es)" by blast
  have res: "avdt_msg_prs_discover_rsp D num_seps p = Some (err, n, es)"
    using loop by (simp add: avdt_msg_prs_discover_rsp_def n_def Let_def)
  from prs_disc_loop_spec [OF loop] n_val res show ?thesis
    by auto
qed

theorem discover_rsp_entries_and_seid_error_witness:
  "avdt_msg_prs_discover_rsp example_prs_disc 5 [0x04, 0x08, 0x00, 0x00, 0x08, 0x08, 0x0C] =
     Some (AVDT_ERR_SEID, 3,
       [\<lparr>seid = 1, in_use = 0, media_type = 0, tsep = 1\<rparr>,
        \<lparr>seid = 0, in_use = 0, media_type = 0, tsep = 0\<rparr>])"
proof -
  have loop: "prs_disc_loop example_prs_disc 3 [0x04, 0x08, 0x00, 0x00, 0x08, 0x08, 0x0C] =
      Some (AVDT_ERR_SEID,
       [\<lparr>seid = 1, in_use = 0, media_type = 0, tsep = 1\<rparr>,
        \<lparr>seid = 0, in_use = 0, media_type = 0, tsep = 0\<rparr>])"
    by (simp add: numeral_3_eq_3 example_prs_disc_def Let_def AVDT_SEID_MIN_def AVDT_SEID_MAX_def)
  have r: "avdt_msg_prs_discover_rsp example_prs_disc 5 [0x04, 0x08, 0x00, 0x00, 0x08, 0x08, 0x0C] =
     Some (AVDT_ERR_SEID, 3,
       [\<lparr>seid = 1, in_use = 0, media_type = 0, tsep = 1\<rparr>,
        \<lparr>seid = 0, in_use = 0, media_type = 0, tsep = 0\<rparr>])"
    by (simp add: avdt_msg_prs_discover_rsp_def Let_def loop)
  from discover_rsp_entries_and_seid_error
    [of example_prs_disc 5 "[0x04, 0x08, 0x00, 0x00, 0x08, 0x08, 0x0C]"] r
  show ?thesis by simp
qed

subsection \<open>AVCTP: sending a message\<close>

text \<open>
  C10. \<open>AVCT_MsgReq\<close>: a null message returns \<open>AVCT_NO_RESOURCES\<close> and does nothing
  else; a handle that maps to no connection returns \<open>AVCT_BAD_HANDLE\<close> and frees the
  buffer; a connection not bound to a link returns \<open>AVCT_NOT_OPEN\<close> and frees the
  buffer; a browse message on a bound connection with neither an open nor an allocated
  browse channel returns \<open>AVCT_BAD_HANDLE\<close> and frees the buffer; and for every
  non-null message, a call forwards the buffer to the link or browse state machine
  exactly when the result is \<open>AVCT_SUCCESS\<close>, in which case the buffer is not freed.
\<close>

theorem AVCT_MsgReq_results:
  "AVCT_MsgReq K cbs h l c None = (AVCT_NO_RESOURCES, cbs, []) \<and>
   (cbs h = None \<longrightarrow>
      AVCT_MsgReq K cbs h l c (Some m) = (AVCT_BAD_HANDLE, cbs, [Osi_free m])) \<and>
   (\<forall>ccb. cbs h = Some ccb \<and> p_lcb ccb = None \<longrightarrow>
      AVCT_MsgReq K cbs h l c (Some m) = (AVCT_NOT_OPEN, cbs, [Osi_free m])) \<and>
   (\<forall>ccb. cbs h = Some ccb \<and> p_lcb ccb \<noteq> None \<and>
          layer_specific m = AVCT_DATA_BROWSE K \<and>
          p_bcb ccb = None \<and> allocated ccb AND AVCT_ALOC_BCB K = 0 \<longrightarrow>
      AVCT_MsgReq K cbs h l c (Some m) = (AVCT_BAD_HANDLE, cbs, [Osi_free m])) \<and>
   ((\<exists>x \<in> set (snd (snd (AVCT_MsgReq K cbs h l c (Some m)))). forwards m x) \<longleftrightarrow>
      fst (AVCT_MsgReq K cbs h l c (Some m)) = AVCT_SUCCESS) \<and>
   (fst (AVCT_MsgReq K cbs h l c (Some m)) = AVCT_SUCCESS \<longrightarrow>
      Osi_free m \<notin> set (snd (snd (AVCT_MsgReq K cbs h l c (Some m)))))"
  by (auto simp: AVCT_MsgReq_def Let_def split: option.splits)

theorem AVCT_MsgReq_results_witness:
  "AVCT_MsgReq example_avct_defs example_ccbs 7 0 0 (Some example_msg) =
     (AVCT_BAD_HANDLE, example_ccbs, [Osi_free example_msg]) \<and>
   AVCT_MsgReq example_avct_defs example_ccbs 1 0 0 (Some example_msg) =
     (AVCT_NOT_OPEN, example_ccbs, [Osi_free example_msg]) \<and>
   AVCT_MsgReq example_avct_defs example_ccbs 0 0 0 (Some example_msg) =
     (AVCT_BAD_HANDLE, example_ccbs, [Osi_free example_msg]) \<and>
   fst (AVCT_MsgReq example_avct_defs example_ccbs 2 0 0 (Some example_msg)) = AVCT_SUCCESS \<and>
   snd (snd (AVCT_MsgReq example_avct_defs example_ccbs 2 0 0 (Some example_msg))) =
     [Avct_bcb_event (Some 1) AVCT_LCB_UL_MSG_EVT
        \<lparr>p_buf = example_msg, p_ccb = 2, label = 0, cr = 0\<rparr>]"
proof -
  have a: "example_ccbs 7 = None"
    and b: "example_ccbs 1 = Some \<lparr>p_lcb = None, p_bcb = None, allocated = 1\<rparr>"
    and c: "example_ccbs 0 = Some \<lparr>p_lcb = Some 0, p_bcb = None, allocated = 1\<rparr>"
    and d: "example_ccbs 2 = Some \<lparr>p_lcb = Some 1, p_bcb = None, allocated = 3\<rparr>"
    by (simp_all add: example_ccbs_def)
  have e: "layer_specific example_msg = AVCT_DATA_BROWSE example_avct_defs"
    by (simp add: example_msg_def example_avct_defs_def)
  have f: "(1 :: u8) AND AVCT_ALOC_BCB example_avct_defs = 0"
    and g: "(3 :: u8) AND AVCT_ALOC_BCB example_avct_defs \<noteq> 0"
    by (simp_all add: example_avct_defs_def)
  have r: "AVCT_MsgReq example_avct_defs example_ccbs 2 0 0 (Some example_msg) =
     (AVCT_SUCCESS, example_ccbs(2 \<mapsto> \<lparr>p_lcb = Some 1, p_bcb = Some 1, allocated = 3\<rparr>),
      [Avct_bcb_event (Some 1) AVCT_LCB_UL_MSG_EVT
        \<lparr>p_buf = example_msg, p_ccb = 2, label = 0, cr = 0\<rparr>])"
    using d e g by (simp add: AVCT_MsgReq_def Let_def example_avct_defs_def)
  note t7 = AVCT_MsgReq_results [of example_avct_defs example_ccbs 7 0 0 example_msg]
  note t1 = AVCT_MsgReq_results [of example_avct_defs example_ccbs 1 0 0 example_msg]
  note t0 = AVCT_MsgReq_results [of example_avct_defs example_ccbs 0 0 0 example_msg]
  from t7 a have 1: "AVCT_MsgReq example_avct_defs example_ccbs 7 0 0 (Some example_msg) =
     (AVCT_BAD_HANDLE, example_ccbs, [Osi_free example_msg])" by blast
  from t1 b have 2: "AVCT_MsgReq example_avct_defs example_ccbs 1 0 0 (Some example_msg) =
     (AVCT_NOT_OPEN, example_ccbs, [Osi_free example_msg])" by simp
  from t0 c e f have 3: "AVCT_MsgReq example_avct_defs example_ccbs 0 0 0 (Some example_msg) =
     (AVCT_BAD_HANDLE, example_ccbs, [Osi_free example_msg])" by simp
  from 1 2 3 r show ?thesis by simp
qed

subsection \<open>SMP: a received Pairing Failed\<close>

text \<open>
  C8. Processing a received Pairing Failed command (\<open>smp_proc_pair_fail\<close>): when the
  received command is shorter than 2 bytes the status recorded is
  \<open>SMP_INVALID_PARAMETERS\<close> and not the reason of the peer, otherwise it is the reason
  of the peer; in both cases the only call is the cancellation of the delayed
  authentication timer, so no Pairing Failed command (no command at all) is sent.
\<close>

theorem smp_proc_pair_fail_no_reply:
  "(rcvd_cmd_len p_cb < 2 \<longrightarrow>
      status (fst (smp_proc_pair_fail K p_cb st)) = SMP_INVALID_PARAMETERS K) \<and>
   (\<not> rcvd_cmd_len p_cb < 2 \<longrightarrow> status (fst (smp_proc_pair_fail K p_cb st)) = st) \<and>
   snd (smp_proc_pair_fail K p_cb st) = [Alarm_cancel_delayed_auth_timer] \<and>
   Smp_send_cmd SMP_OPCODE_PAIRING_FAILED \<notin> set (snd (smp_proc_pair_fail K p_cb st))"
  by (simp add: smp_proc_pair_fail_def)

theorem smp_proc_pair_fail_no_reply_witness:
  "status (fst (smp_proc_pair_fail example_smp_defs (example_smp_cb\<lparr>rcvd_cmd_len := 1\<rparr>) 5)) = 10 \<and>
   snd (smp_proc_pair_fail example_smp_defs (example_smp_cb\<lparr>rcvd_cmd_len := 1\<rparr>) 5) =
     [Alarm_cancel_delayed_auth_timer]"
proof -
  have "rcvd_cmd_len (example_smp_cb\<lparr>rcvd_cmd_len := 1\<rparr>) < 2" by simp
  with smp_proc_pair_fail_no_reply
    [of "example_smp_cb\<lparr>rcvd_cmd_len := 1\<rparr>" example_smp_defs 5]
  show ?thesis by (simp add: example_smp_defs_def)
qed

subsection \<open>SMP: the peer's public key\<close>

text \<open>
  C6. \<open>smp_process_pairing_public_key\<close> on a command that
  \<open>smp_command_has_invalid_parameters\<close> accepts, with the 64 bytes of the key present:
  when the x coordinate received equals the local x coordinate, or \<open>ECC_ValidatePoint\<close>
  rejects the point, the only call is the authentication-complete event with reason
  \<open>SMP_PAIR_AUTH_FAIL\<close> and the flags are unchanged (the control block differs from the
  one on entry in the stored peer key only); otherwise the key is stored, the flag
  \<open>SMP_PAIR_FLAG_HAVE_PEER_PUBL_KEY\<close> is set and the action continues with
  \<open>smp_wait_for_both_public_keys\<close>, which leaves the control block as it is.
\<close>

theorem pairing_public_key_validation:
  assumes "\<not> smp_command_has_invalid_parameters K p_cb" and "64 \<le> length p"
  shows
    "(take 32 p = loc_publ_key_x p_cb \<or> \<not> ECC_ValidatePoint K (take 32 p) (take 32 (drop 32 p)) \<longrightarrow>
        smp_process_pairing_public_key K p_cb p =
          Some (p_cb\<lparr>peer_publ_key_x := take 32 p, peer_publ_key_y := take 32 (drop 32 p)\<rparr>,
                [Smp_sm_event SMP_AUTH_CMPL_EVT (Data_status (SMP_PAIR_AUTH_FAIL K))])) \<and>
     (take 32 p \<noteq> loc_publ_key_x p_cb \<and> ECC_ValidatePoint K (take 32 p) (take 32 (drop 32 p)) \<longrightarrow>
        smp_process_pairing_public_key K p_cb p =
          Some (smp_wait_for_both_public_keys K
            (p_cb\<lparr>peer_publ_key_x := take 32 p, peer_publ_key_y := take 32 (drop 32 p),
                  flags := flags p_cb OR SMP_PAIR_FLAG_HAVE_PEER_PUBL_KEY K\<rparr>)) \<and>
        fst (smp_wait_for_both_public_keys K
            (p_cb\<lparr>peer_publ_key_x := take 32 p, peer_publ_key_y := take 32 (drop 32 p),
                  flags := flags p_cb OR SMP_PAIR_FLAG_HAVE_PEER_PUBL_KEY K\<rparr>)) =
          p_cb\<lparr>peer_publ_key_x := take 32 p, peer_publ_key_y := take 32 (drop 32 p),
                  flags := flags p_cb OR SMP_PAIR_FLAG_HAVE_PEER_PUBL_KEY K\<rparr>)"
  using assms
  by (simp add: smp_process_pairing_public_key_def smp_wait_for_both_public_keys_def Let_def)

theorem pairing_public_key_validation_witness:
  "map_option snd (smp_process_pairing_public_key example_smp_defs example_smp_cb
      (replicate 32 7 @ replicate 32 2)) =
     Some [Smp_sm_event SMP_AUTH_CMPL_EVT (Data_status 3)] \<and>
   map_option (\<lambda>r. flags (fst r)) (smp_process_pairing_public_key example_smp_defs example_smp_cb
      (replicate 32 7 @ replicate 32 2)) = Some 0 \<and>
   map_option (\<lambda>r. flags (fst r)) (smp_process_pairing_public_key example_smp_defs example_smp_cb
      (replicate 32 1 @ replicate 32 2)) = Some 32"
proof -
  have h1: "\<not> smp_command_has_invalid_parameters example_smp_defs example_smp_cb"
    by (simp add: example_smp_defs_def)
  have h2: "64 \<le> length (replicate 32 (7 :: u8) @ replicate 32 2)"
    and h3: "64 \<le> length (replicate 32 (1 :: u8) @ replicate 32 2)" by simp_all
  have x7: "take 32 (replicate 32 (7 :: u8) @ replicate 32 2) = loc_publ_key_x example_smp_cb"
    by (simp add: example_smp_cb_def)
  have x1: "take 32 (replicate 32 (1 :: u8) @ replicate 32 2) \<noteq> loc_publ_key_x example_smp_cb"
    by (simp add: example_smp_cb_def replicate_eq_replicate)
  have y: "ECC_ValidatePoint example_smp_defs (take 32 (replicate 32 (1 :: u8) @ replicate 32 2))
             (take 32 (drop 32 (replicate 32 (1 :: u8) @ replicate 32 2)))"
    by (simp add: example_smp_defs_def replicate_eq_replicate)
  have f: "flags example_smp_cb = 0"
    and g: "SMP_PAIR_FLAG_HAVE_PEER_PUBL_KEY example_smp_defs = 32"
    and k: "SMP_PAIR_AUTH_FAIL example_smp_defs = 3"
    by (simp_all add: example_smp_cb_def example_smp_defs_def)
  from pairing_public_key_validation [OF h1 h2] x7
  have a: "smp_process_pairing_public_key example_smp_defs example_smp_cb
      (replicate 32 7 @ replicate 32 2) =
        Some (example_smp_cb\<lparr>peer_publ_key_x := take 32 (replicate 32 7 @ replicate 32 2),
                peer_publ_key_y := take 32 (drop 32 (replicate 32 7 @ replicate 32 2))\<rparr>,
              [Smp_sm_event SMP_AUTH_CMPL_EVT (Data_status (SMP_PAIR_AUTH_FAIL example_smp_defs))])"
    by blast
  from pairing_public_key_validation [OF h1 h3] x1 y
  have b: "map_option (\<lambda>r. flags (fst r)) (smp_process_pairing_public_key example_smp_defs
      example_smp_cb (replicate 32 1 @ replicate 32 2)) =
        Some (flags example_smp_cb OR SMP_PAIR_FLAG_HAVE_PEER_PUBL_KEY example_smp_defs)"
    by simp
  show ?thesis
    by (simp add: a b f g k)
qed

subsection \<open>SMP: the key distribution masks\<close>

lemma and_not_subset: "(x AND NOT k) AND x = x AND NOT (k :: u8)"
  by (auto simp add: bit_eq_iff bit_simps)

lemma and_not_or: "(x AND NOT k) OR k = x OR (k :: u8)"
  by (auto simp add: bit_eq_iff bit_simps)

lemma lk_after_or_enc:
  "(x OR SMP_SEC_KEY_TYPE_ENC) AND SMP_SEC_KEY_TYPE_LK = x AND SMP_SEC_KEY_TYPE_LK"
  by (simp add: SMP_SEC_KEY_TYPE_ENC_def SMP_SEC_KEY_TYPE_LK_def bit.conj_disj_distrib2)

lemma lk_after_clear: "(x AND NOT SMP_SEC_KEY_TYPE_LK) AND SMP_SEC_KEY_TYPE_LK = 0"
  by (simp add: and.assoc)

lemma lk_after_id_csrk:
  "(x AND (SMP_SEC_KEY_TYPE_ID OR SMP_SEC_KEY_TYPE_CSRK)) AND SMP_SEC_KEY_TYPE_LK = 0"
  by (simp add: and.assoc SMP_SEC_KEY_TYPE_ID_def SMP_SEC_KEY_TYPE_CSRK_def SMP_SEC_KEY_TYPE_LK_def)

lemma update_key_mask_cases:
  "local_i_key (smp_update_key_mask K p_cb kt recv) AND local_i_key p_cb =
     local_i_key (smp_update_key_mask K p_cb kt recv) \<and>
   local_r_key (smp_update_key_mask K p_cb kt recv) AND local_r_key p_cb =
     local_r_key (smp_update_key_mask K p_cb kt recv) \<and>
   local_i_key (smp_update_key_mask K p_cb kt recv) OR kt = local_i_key p_cb OR kt \<and>
   local_r_key (smp_update_key_mask K p_cb kt recv) OR kt = local_r_key p_cb OR kt \<and>
   ((le_secure_connections_mode_is_used p_cb \<or> smp_over_br p_cb) \<and>
    (kt = SMP_SEC_KEY_TYPE_ENC \<or> kt = SMP_SEC_KEY_TYPE_LK) \<longrightarrow>
      local_i_key (smp_update_key_mask K p_cb kt recv) = local_i_key p_cb AND NOT kt \<and>
      local_r_key (smp_update_key_mask K p_cb kt recv) = local_r_key p_cb AND NOT kt)"
  by (simp add: smp_update_key_mask_def and_not_subset and_not_or)

lemma check_auth_req_lk:
  assumes "local_i_key (fst (smp_check_auth_req K p_cb 1)) AND SMP_SEC_KEY_TYPE_LK \<noteq> 0 \<or>
           local_r_key (fst (smp_check_auth_req K p_cb 1)) AND SMP_SEC_KEY_TYPE_LK \<noteq> 0"
  shows "le_secure_connections_mode_is_used p_cb \<and>
         local_i_key p_cb AND SMP_SEC_KEY_TYPE_LK \<noteq> 0 \<and>
         local_r_key p_cb AND SMP_SEC_KEY_TYPE_LK \<noteq> 0"
  using assms
  by (auto simp: smp_check_auth_req_def Let_def lk_after_or_enc lk_after_clear lk_after_id_csrk
      split: if_splits)

lemma decide_keeps_masks:
  "local_i_key (fst (smp_decide_association_model K c)) = local_i_key c \<and>
   local_r_key (fst (smp_decide_association_model K c)) = local_r_key c"
  by (simp add: smp_decide_association_model_def split: tSMP_ASSO_MODEL.splits)

lemma send_pair_rsp_masks:
  "local_i_key (fst (smp_send_pair_rsp K p_cb)) = local_i_key p_cb AND peer_i_key p_cb \<and>
   local_r_key (fst (smp_send_pair_rsp K p_cb)) = local_r_key p_cb AND peer_r_key p_cb"
  using decide_keeps_masks [of K "p_cb\<lparr>local_i_key := local_i_key p_cb AND peer_i_key p_cb,
                      local_r_key := local_r_key p_cb AND peer_r_key p_cb\<rparr>"]
  by (auto simp: smp_send_pair_rsp_def Let_def split: prod.splits)

lemma or_and_same: "(x OR k) AND k = (k :: u8)"
  by (auto simp add: bit_eq_iff bit_simps)

lemma enc_not_lk: "SMP_SEC_KEY_TYPE_ENC AND NOT SMP_SEC_KEY_TYPE_LK = SMP_SEC_KEY_TYPE_ENC"
  by (simp add: SMP_SEC_KEY_TYPE_ENC_def SMP_SEC_KEY_TYPE_LK_def)

lemma enc_after_clear_lk:
  "((x OR SMP_SEC_KEY_TYPE_ENC) AND NOT SMP_SEC_KEY_TYPE_LK) AND SMP_SEC_KEY_TYPE_ENC =
     SMP_SEC_KEY_TYPE_ENC"
proof -
  have "((x OR SMP_SEC_KEY_TYPE_ENC) AND NOT SMP_SEC_KEY_TYPE_LK) AND SMP_SEC_KEY_TYPE_ENC =
        (x OR SMP_SEC_KEY_TYPE_ENC) AND (SMP_SEC_KEY_TYPE_ENC AND NOT SMP_SEC_KEY_TYPE_LK)"
    by (simp add: ac_simps)
  then show ?thesis
    by (simp only: enc_not_lk or_and_same)
qed

lemma id_csrk_of_or_enc:
  "(x OR SMP_SEC_KEY_TYPE_ENC) AND (SMP_SEC_KEY_TYPE_ID OR SMP_SEC_KEY_TYPE_CSRK) =
     x AND (SMP_SEC_KEY_TYPE_ID OR SMP_SEC_KEY_TYPE_CSRK)"
  by (simp add: bit.conj_disj_distrib2 SMP_SEC_KEY_TYPE_ENC_def SMP_SEC_KEY_TYPE_ID_def
      SMP_SEC_KEY_TYPE_CSRK_def)

lemma id_csrk_not_lk:
  "NOT SMP_SEC_KEY_TYPE_LK AND (SMP_SEC_KEY_TYPE_ID OR SMP_SEC_KEY_TYPE_CSRK) =
     SMP_SEC_KEY_TYPE_ID OR SMP_SEC_KEY_TYPE_CSRK"
  by (simp add: SMP_SEC_KEY_TYPE_LK_def SMP_SEC_KEY_TYPE_ID_def SMP_SEC_KEY_TYPE_CSRK_def)

lemma id_csrk_after_clear_lk:
  "((x OR SMP_SEC_KEY_TYPE_ENC) AND NOT SMP_SEC_KEY_TYPE_LK) AND
     (SMP_SEC_KEY_TYPE_ID OR SMP_SEC_KEY_TYPE_CSRK) =
   x AND (SMP_SEC_KEY_TYPE_ID OR SMP_SEC_KEY_TYPE_CSRK)"
proof -
  have "((x OR SMP_SEC_KEY_TYPE_ENC) AND NOT SMP_SEC_KEY_TYPE_LK) AND
          (SMP_SEC_KEY_TYPE_ID OR SMP_SEC_KEY_TYPE_CSRK) =
        (x OR SMP_SEC_KEY_TYPE_ENC) AND
          (NOT SMP_SEC_KEY_TYPE_LK AND (SMP_SEC_KEY_TYPE_ID OR SMP_SEC_KEY_TYPE_CSRK))"
    by (simp only: and.assoc)
  then show ?thesis
    by (simp only: id_csrk_not_lk id_csrk_of_or_enc)
qed

lemma fst_if_same: "fst (if c then (a, x) else (a, y)) = a"
  by simp

lemma check_auth_req_enc:
  assumes "le_secure_connections_mode_is_used p_cb"
  shows "local_i_key (fst (smp_check_auth_req K p_cb 1)) AND SMP_SEC_KEY_TYPE_ENC =
           SMP_SEC_KEY_TYPE_ENC"
    and "role p_cb \<noteq> HCI_ROLE_MASTER K \<Longrightarrow>
         local_r_key (fst (smp_check_auth_req K p_cb 1)) AND SMP_SEC_KEY_TYPE_ENC =
           SMP_SEC_KEY_TYPE_ENC"
    and "role p_cb = HCI_ROLE_MASTER K \<Longrightarrow>
         local_r_key (fst (smp_check_auth_req K p_cb 1)) =
           local_r_key p_cb AND (SMP_SEC_KEY_TYPE_ID OR SMP_SEC_KEY_TYPE_CSRK)"
  using assms
  by (simp_all add: smp_check_auth_req_def Let_def fst_if_same or_and_same enc_after_clear_lk
      id_csrk_of_or_enc id_csrk_after_clear_lk)

text \<open>
  C7, as stated, fails. In Secure Connections mode an update of the masks for the key
  type ID leaves the ENC and LK bits of both masks set, and \<open>smp_check_auth_req\<close> adds
  the ENC bit to a mask \<open>local_i_key\<close> that the exchange of the pairing request and
  response left empty (on the master, as here, \<open>local_r_key\<close> stays empty).
\<close>

theorem key_mask_claim_counterexample:
  "le_secure_connections_mode_is_used example_smp_cb \<and>
   local_i_key (smp_update_key_mask example_smp_defs example_smp_cb SMP_SEC_KEY_TYPE_ID False)
     AND (SMP_SEC_KEY_TYPE_ENC OR SMP_SEC_KEY_TYPE_LK) = 9 \<and>
   local_r_key (smp_update_key_mask example_smp_defs example_smp_cb SMP_SEC_KEY_TYPE_ID False)
     AND (SMP_SEC_KEY_TYPE_ENC OR SMP_SEC_KEY_TYPE_LK) = 9 \<and>
   local_i_key (fst (smp_check_auth_req example_smp_defs
        (example_smp_cb\<lparr>local_i_key := 0, local_r_key := 0\<rparr>) 1)) = SMP_SEC_KEY_TYPE_ENC \<and>
   local_r_key (fst (smp_check_auth_req example_smp_defs
        (example_smp_cb\<lparr>local_i_key := 0, local_r_key := 0\<rparr>) 1)) = 0"
  by (simp add: smp_update_key_mask_def smp_check_auth_req_def example_smp_cb_def
      example_smp_defs_def Let_def SMP_SEC_KEY_TYPE_ID_def SMP_SEC_KEY_TYPE_ENC_def
      SMP_SEC_KEY_TYPE_LK_def SMP_SEC_KEY_TYPE_CSRK_def)

text \<open>
  C7, amended. \<open>smp_update_key_mask\<close> only removes bits: each mask after the update is
  a subset of the mask before, and only the bits of the key type of the update change.
  When LE Secure Connections mode or SMP over BR is in use and the key type is ENC or LK,
  the bit of that key type is cleared from both masks. \<open>smp_send_pair_rsp\<close> leaves in
  each local mask the bits that the peer's mask has too. After \<open>smp_check_auth_req\<close> with
  encryption enabled the LK bit is set in a mask only if Secure Connections mode is in
  use and the LK bit was set in both masks before; and in Secure Connections mode the
  ENC bit is then set in \<open>local_i_key\<close>, and in \<open>local_r_key\<close> too unless the local
  side is the master, where \<open>local_r_key\<close> keeps only the ID and CSRK bits it had.
\<close>

theorem key_mask_updates:
  "local_i_key (smp_update_key_mask K p_cb kt recv) AND local_i_key p_cb =
     local_i_key (smp_update_key_mask K p_cb kt recv) \<and>
   local_r_key (smp_update_key_mask K p_cb kt recv) AND local_r_key p_cb =
     local_r_key (smp_update_key_mask K p_cb kt recv) \<and>
   local_i_key (smp_update_key_mask K p_cb kt recv) OR kt = local_i_key p_cb OR kt \<and>
   local_r_key (smp_update_key_mask K p_cb kt recv) OR kt = local_r_key p_cb OR kt \<and>
   ((le_secure_connections_mode_is_used p_cb \<or> smp_over_br p_cb) \<and>
    (kt = SMP_SEC_KEY_TYPE_ENC \<or> kt = SMP_SEC_KEY_TYPE_LK) \<longrightarrow>
      local_i_key (smp_update_key_mask K p_cb kt recv) = local_i_key p_cb AND NOT kt \<and>
      local_r_key (smp_update_key_mask K p_cb kt recv) = local_r_key p_cb AND NOT kt) \<and>
   local_i_key (fst (smp_send_pair_rsp K p_cb)) = local_i_key p_cb AND peer_i_key p_cb \<and>
   local_r_key (fst (smp_send_pair_rsp K p_cb)) = local_r_key p_cb AND peer_r_key p_cb \<and>
   (local_i_key (fst (smp_check_auth_req K p_cb 1)) AND SMP_SEC_KEY_TYPE_LK \<noteq> 0 \<or>
    local_r_key (fst (smp_check_auth_req K p_cb 1)) AND SMP_SEC_KEY_TYPE_LK \<noteq> 0 \<longrightarrow>
      le_secure_connections_mode_is_used p_cb \<and>
      local_i_key p_cb AND SMP_SEC_KEY_TYPE_LK \<noteq> 0 \<and>
      local_r_key p_cb AND SMP_SEC_KEY_TYPE_LK \<noteq> 0) \<and>
   (le_secure_connections_mode_is_used p_cb \<longrightarrow>
      local_i_key (fst (smp_check_auth_req K p_cb 1)) AND SMP_SEC_KEY_TYPE_ENC =
        SMP_SEC_KEY_TYPE_ENC \<and>
      (role p_cb \<noteq> HCI_ROLE_MASTER K \<longrightarrow>
         local_r_key (fst (smp_check_auth_req K p_cb 1)) AND SMP_SEC_KEY_TYPE_ENC =
           SMP_SEC_KEY_TYPE_ENC) \<and>
      (role p_cb = HCI_ROLE_MASTER K \<longrightarrow>
         local_r_key (fst (smp_check_auth_req K p_cb 1)) =
           local_r_key p_cb AND (SMP_SEC_KEY_TYPE_ID OR SMP_SEC_KEY_TYPE_CSRK)))"
proof -
  note a = update_key_mask_cases [of K p_cb kt recv]
  note e = check_auth_req_enc [of p_cb K]
  note b = send_pair_rsp_masks [of K p_cb]
  have c: "local_i_key (fst (smp_check_auth_req K p_cb 1)) AND SMP_SEC_KEY_TYPE_LK \<noteq> 0 \<or>
    local_r_key (fst (smp_check_auth_req K p_cb 1)) AND SMP_SEC_KEY_TYPE_LK \<noteq> 0 \<longrightarrow>
      le_secure_connections_mode_is_used p_cb \<and>
      local_i_key p_cb AND SMP_SEC_KEY_TYPE_LK \<noteq> 0 \<and>
      local_r_key p_cb AND SMP_SEC_KEY_TYPE_LK \<noteq> 0"
    using check_auth_req_lk [of K p_cb] by blast
  from a b c e show ?thesis by blast
qed

theorem key_mask_updates_witness:
  "local_i_key (smp_update_key_mask example_smp_defs example_smp_cb SMP_SEC_KEY_TYPE_LK True) = 7 \<and>
   local_r_key (smp_update_key_mask example_smp_defs example_smp_cb SMP_SEC_KEY_TYPE_LK True) = 7 \<and>
   local_i_key (fst (smp_check_auth_req example_smp_defs example_smp_cb 1)) = 15 \<and>
   local_r_key (fst (smp_check_auth_req example_smp_defs example_smp_cb 1)) = 6 \<and>
   role example_smp_cb = HCI_ROLE_MASTER example_smp_defs \<and>
   le_secure_connections_mode_is_used example_smp_cb"
proof -
  have sc: "le_secure_connections_mode_is_used example_smp_cb"
    and i: "local_i_key example_smp_cb = 15" and r: "local_r_key example_smp_cb = 15"
    by (simp_all add: example_smp_cb_def)
  have lk: "(15 :: u8) AND NOT SMP_SEC_KEY_TYPE_LK = 7"
    by (simp add: SMP_SEC_KEY_TYPE_LK_def)
  have chk: "local_i_key (fst (smp_check_auth_req example_smp_defs example_smp_cb 1)) = 15"
    by (simp add: smp_check_auth_req_def example_smp_cb_def example_smp_defs_def Let_def
        SMP_SEC_KEY_TYPE_ID_def SMP_SEC_KEY_TYPE_ENC_def SMP_SEC_KEY_TYPE_LK_def
        SMP_SEC_KEY_TYPE_CSRK_def)
  have ms: "role example_smp_cb = HCI_ROLE_MASTER example_smp_defs"
    by (simp add: example_smp_cb_def example_smp_defs_def)
  have m6: "(15 :: u8) AND (SMP_SEC_KEY_TYPE_ID OR SMP_SEC_KEY_TYPE_CSRK) = 6"
    by (simp add: SMP_SEC_KEY_TYPE_ID_def SMP_SEC_KEY_TYPE_CSRK_def)
  from key_mask_updates [of example_smp_defs example_smp_cb SMP_SEC_KEY_TYPE_LK True] sc ms
  have rk: "local_r_key (fst (smp_check_auth_req example_smp_defs example_smp_cb 1)) =
          local_r_key example_smp_cb AND (SMP_SEC_KEY_TYPE_ID OR SMP_SEC_KEY_TYPE_CSRK)"
    by blast
  from key_mask_updates [of example_smp_defs example_smp_cb SMP_SEC_KEY_TYPE_LK True] sc
  have "local_i_key (smp_update_key_mask example_smp_defs example_smp_cb SMP_SEC_KEY_TYPE_LK True) =
          local_i_key example_smp_cb AND NOT SMP_SEC_KEY_TYPE_LK \<and>
        local_r_key (smp_update_key_mask example_smp_defs example_smp_cb SMP_SEC_KEY_TYPE_LK True) =
          local_r_key example_smp_cb AND NOT SMP_SEC_KEY_TYPE_LK"
    by blast
  with sc chk rk ms show ?thesis by (simp add: i r lk m6)
qed

subsection \<open>SMP: Secure Connections Only mode\<close>








subsection \<open>AVDTP: the START packet of a fragmented message\<close>

lemma c_div_nonneg: "0 \<le> a \<Longrightarrow> 0 < b \<Longrightarrow> c_div a b = Some (a div b)"
  by (auto simp: c_div_def sgn_if)

lemma select_start:
  assumes unfrag: "offset cur = AVDT_MSG_OFFSET K"
    and big: "uint (len cur) > uint peer_mtu - 2"
    and mtu: "2 \<le> uint peer_mtu"
  shows "avdt_msg_send_select K peer_mtu nosp cur =
           Some (AVDT_PKT_TYPE_START,
                 of_int ((uint (len cur) + 3 - uint peer_mtu) div (uint peer_mtu - 1) + 2),
                 peer_mtu - AVDT_LEN_TYPE_START)"
proof -
  from big mtu have num: "0 \<le> uint (len cur) + 3 - uint peer_mtu"
    and den: "0 < uint peer_mtu - 1" by linarith+
  note q = c_div_nonneg [OF num den]
  have s2: "uint AVDT_LEN_TYPE_SINGLE = 2" and s3: "uint AVDT_LEN_TYPE_START = 3"
    by (simp_all add: AVDT_LEN_TYPE_SINGLE_def AVDT_LEN_TYPE_START_def)
  from big have notsingle: "\<not> uint (len cur) \<le> uint peer_mtu - 2" by linarith
  show ?thesis
    unfolding avdt_msg_send_select_def s2 s3
    using unfrag big notsingle by (simp only: q if_True if_False simp_thms option.case)
qed

text \<open>
  C2, as stated, fails. For a message of 100 bytes and a peer MTU of 48 the START packet
  carries the number 3 (the message goes out as a START packet with 45 bytes, a CONT
  packet with 47 and an END packet with 8), where the formula of the claim,
  \<open>ceil((len + 1) / (peer_mtu - 1)) + 1\<close>, gives 4.
\<close>

theorem nosp_claim_counterexample:
  "map_option (\<lambda>r. nosp_of (fst r)) (avdt_msg_send_iter example_buf_defs 48 0 example_cur) =
     Some (Some 3) \<and>
   spec_nosp (unat (len example_cur)) (unat (48 :: u16)) = 4"
proof -
  have sel: "avdt_msg_send_select example_buf_defs 48 0 example_cur =
      Some (AVDT_PKT_TYPE_START, 3, 45)"
    by (simp add: avdt_msg_send_select_def example_buf_defs_def example_cur_def c_div_def
        AVDT_LEN_TYPE_SINGLE_def AVDT_LEN_TYPE_START_def)
  have a: "map_option (\<lambda>r. nosp_of (fst r)) (avdt_msg_send_iter example_buf_defs 48 0 example_cur) =
     Some (Some 3)"
    unfolding avdt_msg_send_iter_def sel by (simp add: Let_def)
  have b: "spec_nosp (unat (len example_cur)) (unat (48 :: u16)) = 4"
    by (simp add: spec_nosp_def example_cur_def)
  from a b show ?thesis by simp
qed

text \<open>
  C2, amended. For every unfragmented message (its offset is \<open>AVDT_MSG_OFFSET\<close>) whose
  length exceeds the peer MTU minus 2, with a peer MTU of at least 2, the iteration
  writes a START packet whose number of signal packets, the second byte of the packet,
  is \<open>(len + 3 - peer_mtu) div (peer_mtu - 1) + 2\<close> kept in 8 bits, with the division
  rounding down.
\<close>

theorem start_packet_nosp:
  assumes unfrag: "offset cur = AVDT_MSG_OFFSET K"
    and big: "uint (len cur) > uint peer_mtu - 2"
    and mtu: "2 \<le> uint peer_mtu"
  shows "\<exists>pkt n cur' t.
           avdt_msg_send_iter K peer_mtu nosp cur = Some (pkt, n, cur', t) \<and>
           pkt_type_of pkt = AVDT_PKT_TYPE_START \<and>
           nosp_of pkt = Some n \<and>
           bytes_of pkt ! 1 = n \<and>
           uint n = ((uint (len cur) + 3 - uint peer_mtu) div (uint peer_mtu - 1) + 2) mod 256"
proof -
  define Q where "Q = (uint (len cur) + 3 - uint peer_mtu) div (uint peer_mtu - 1) + 2"
  have n: "uint (of_int Q :: u8) = Q mod 256"
    by (simp add: uint_word_of_int_eq take_bit_eq_mod)
  have sel: "avdt_msg_send_select K peer_mtu nosp cur =
           Some (AVDT_PKT_TYPE_START, of_int Q, peer_mtu - AVDT_LEN_TYPE_START)"
    unfolding Q_def by (rule select_start [OF assms])
  show ?thesis
    unfolding avdt_msg_send_iter_def sel Q_def [symmetric]
    by (simp add: Let_def n)
qed

theorem start_packet_nosp_witness:
  "\<exists>pkt n cur' t.
     avdt_msg_send_iter example_buf_defs 48 0 example_cur = Some (pkt, n, cur', t) \<and>
     pkt_type_of pkt = AVDT_PKT_TYPE_START \<and> nosp_of pkt = Some n \<and>
     bytes_of pkt ! 1 = n \<and> uint n = 3"
proof -
  have a: "offset example_cur = AVDT_MSG_OFFSET example_buf_defs"
    and b: "uint (len example_cur) > uint (48 :: u16) - 2"
    and c: "2 \<le> uint (48 :: u16)"
    by (simp_all add: example_cur_def example_buf_defs_def)
  have d: "((uint (len example_cur) + 3 - uint (48 :: u16)) div (uint (48 :: u16) - 1) + 2) mod 256 = 3"
    by (simp add: example_cur_def)
  from start_packet_nosp [OF a b c, of 0] show ?thesis
    unfolding d .
qed

subsection \<open>AVDTP: reassembly\<close>

lemma pkt_type_cases:
  "prs_pkt_type x = AVDT_PKT_TYPE_SINGLE \<or> prs_pkt_type x = AVDT_PKT_TYPE_START \<or>
   prs_pkt_type x = AVDT_PKT_TYPE_CONT \<or> prs_pkt_type x = AVDT_PKT_TYPE_END"
proof -
  have "unat (drop_bit 2 x AND 3) \<le> unat (3 :: u8)"
    by (rule word_and_le1 [THEN word_le_nat_alt [THEN iffD1]])
  then have "unat (prs_pkt_type x) \<le> 3" by (simp add: prs_pkt_type_def)
  then have "unat (prs_pkt_type x) = 0 \<or> unat (prs_pkt_type x) = 1 \<or>
             unat (prs_pkt_type x) = 2 \<or> unat (prs_pkt_type x) = 3" by arith
  then show ?thesis
    unfolding AVDT_PKT_TYPE_SINGLE_def AVDT_PKT_TYPE_START_def AVDT_PKT_TYPE_CONT_def
      AVDT_PKT_TYPE_END_def
    by (auto simp: word_unat_eq_iff)
qed

lemma len_ge_1: "\<not> (l :: u16) < 1 \<Longrightarrow> 1 \<le> unat l"
  by (simp add: word_less_nat_alt)


lemma asmbl_short:
  assumes "wf_buf b" and "len b < avdt_msg_pkt_type_len (prs_pkt_type (data b ! unat (offset b)))"
  shows "avdt_msg_asmbl K rx b = Some (None, rx)"
proof (cases "len b < 1")
  case True
  then show ?thesis by (simp add: avdt_msg_asmbl_def)
next
  case False
  with assms(1) have "unat (offset b) < length (data b)"
    using len_ge_1 [OF False] by (simp add: wf_buf_def)
  with False assms(2) show ?thesis by (simp add: avdt_msg_asmbl_def Let_def)
qed

lemma not_short_len:
  assumes "\<not> len b < avdt_msg_pkt_type_len t"
  shows "\<not> len b < 1"
proof -
  have "1 \<le> avdt_msg_pkt_type_len t"
    by (simp add: avdt_msg_pkt_type_len_def AVDT_LEN_TYPE_SINGLE_def AVDT_LEN_TYPE_START_def
        AVDT_LEN_TYPE_CONT_def AVDT_LEN_TYPE_END_def)
  with assms show ?thesis by (simp add: word_less_nat_alt word_le_nat_alt)
qed

lemma wf_first_byte:
  assumes "wf_buf b" and "\<not> len b < 1"
  shows "\<not> length (data b) \<le> unat (offset b)"
  using assms len_ge_1 [OF assms(2)] by (simp add: wf_buf_def)

lemma asmbl_single:
  assumes "wf_buf b"
    and "\<not> len b < avdt_msg_pkt_type_len (prs_pkt_type (data b ! unat (offset b)))"
    and "prs_pkt_type (data b ! unat (offset b)) = AVDT_PKT_TYPE_SINGLE"
  shows "avdt_msg_asmbl K rx b = Some (Some b, None)"
  using assms wf_first_byte [OF assms(1) not_short_len [OF assms(2)]] not_short_len [OF assms(2)]
  by (simp add: avdt_msg_asmbl_def Let_def)

lemma asmbl_start:
  assumes "wf_buf b"
    and "\<not> len b < avdt_msg_pkt_type_len (prs_pkt_type (data b ! unat (offset b)))"
    and "prs_pkt_type (data b ! unat (offset b)) = AVDT_PKT_TYPE_START"
  shows "avdt_msg_asmbl K rx b =
           (if sizeof_BT_HDR K + unat (offset b) + unat (len b) > BT_DEFAULT_BUFFER_SIZE K
            then Some (None, None)
            else Some (None, Some (b\<lparr>data := (take (unat (offset b) + unat (len b)) (data b))
                                       [unat (offset b) + 1 :=
                                          take (unat (offset b) + unat (len b)) (data b) ! unat (offset b)],
                                     offset := offset b + len b, len := len b - 1\<rparr>)))"
proof -
  have full: "\<not> length (data b) < unat (offset b) + unat (len b)"
    using assms(1) by (simp add: wf_buf_def)
  show ?thesis
    using assms wf_first_byte [OF assms(1) not_short_len [OF assms(2)]]
      not_short_len [OF assms(2)] full
    by (simp add: avdt_msg_asmbl_def Let_def AVDT_PKT_TYPE_START_def AVDT_PKT_TYPE_SINGLE_def)
qed

lemma cont_adjust:
  assumes "wf_buf b" and "\<not> len b < 1"
  shows "\<not> length (data b) < unat (offset b + AVDT_LEN_TYPE_CONT) + unat (len b - AVDT_LEN_TYPE_CONT)"
    and "unat (len b - AVDT_LEN_TYPE_CONT) = unat (len b) - 1"
proof -
  from len_ge_1 [OF assms(2)] have l1: "1 \<le> unat (len b)" .
  then have l: "unat (len b - 1) = unat (len b) - 1"
    by (simp add: unat_sub word_le_nat_alt)
  from assms(1) l1 have "unat (offset b) + 1 < 65536" by (simp add: wf_buf_def)
  then have o: "unat (offset b + 1) = unat (offset b) + 1"
    by (simp add: unat_word_ariths)
  show "unat (len b - AVDT_LEN_TYPE_CONT) = unat (len b) - 1"
    by (simp add: AVDT_LEN_TYPE_CONT_def l)
  show "\<not> length (data b) < unat (offset b + AVDT_LEN_TYPE_CONT) + unat (len b - AVDT_LEN_TYPE_CONT)"
    using assms(1) l1 by (simp add: AVDT_LEN_TYPE_CONT_def l o wf_buf_def)
qed

lemma asmbl_cont_end_idle:
  assumes "wf_buf b"
    and "\<not> len b < avdt_msg_pkt_type_len (prs_pkt_type (data b ! unat (offset b)))"
    and "prs_pkt_type (data b ! unat (offset b)) = AVDT_PKT_TYPE_CONT \<or>
         prs_pkt_type (data b ! unat (offset b)) = AVDT_PKT_TYPE_END"
  shows "avdt_msg_asmbl K None b = Some (None, None)"
  using assms wf_first_byte [OF assms(1) not_short_len [OF assms(2)]] not_short_len [OF assms(2)]
  by (auto simp: avdt_msg_asmbl_def Let_def AVDT_PKT_TYPE_START_def AVDT_PKT_TYPE_SINGLE_def
      AVDT_PKT_TYPE_CONT_def AVDT_PKT_TYPE_END_def)

lemma asmbl_cont:
  assumes "wf_buf b"
    and "\<not> len b < avdt_msg_pkt_type_len (prs_pkt_type (data b ! unat (offset b)))"
    and "prs_pkt_type (data b ! unat (offset b)) = AVDT_PKT_TYPE_CONT"
  shows "avdt_msg_asmbl K (Some r) b =
           (if unat (offset r) + (unat (len b) - 1) > BT_DEFAULT_BUFFER_SIZE K - sizeof_BT_HDR K
            then Some (None, None)
            else Some (None, Some (r\<lparr>data := take (unat (offset r)) (data r) @
                                         take (unat (len b) - 1) (drop (unat (offset b + 1)) (data b)),
                                      offset := offset r + (len b - 1),
                                      len := len r + (len b - 1)\<rparr>)))"
  using assms wf_first_byte [OF assms(1) not_short_len [OF assms(2)]] not_short_len [OF assms(2)]
    cont_adjust [OF assms(1) not_short_len [OF assms(2)]]
  by (simp add: avdt_msg_asmbl_def Let_def AVDT_PKT_TYPE_START_def AVDT_PKT_TYPE_SINGLE_def
      AVDT_PKT_TYPE_CONT_def AVDT_PKT_TYPE_END_def) (simp add: AVDT_LEN_TYPE_CONT_def)

lemma asmbl_end:
  assumes "wf_buf b"
    and "\<not> len b < avdt_msg_pkt_type_len (prs_pkt_type (data b ! unat (offset b)))"
    and "prs_pkt_type (data b ! unat (offset b)) = AVDT_PKT_TYPE_END"
  shows "avdt_msg_asmbl K (Some r) b =
           (if unat (offset r) + (unat (len b) - 1) > BT_DEFAULT_BUFFER_SIZE K - sizeof_BT_HDR K
            then Some (None, None)
            else Some (Some (r\<lparr>data := take (unat (offset r)) (data r) @
                                   take (unat (len b) - 1) (drop (unat (offset b + 1)) (data b)),
                                offset := offset r - len r,
                                len := len r + (len b - 1)\<rparr>), None))"
  using assms wf_first_byte [OF assms(1) not_short_len [OF assms(2)]] not_short_len [OF assms(2)]
    cont_adjust [OF assms(1) not_short_len [OF assms(2)]]
  by (simp add: avdt_msg_asmbl_def Let_def AVDT_PKT_TYPE_START_def AVDT_PKT_TYPE_SINGLE_def
      AVDT_PKT_TYPE_CONT_def AVDT_PKT_TYPE_END_def) (simp add: AVDT_LEN_TYPE_CONT_def)


text \<open>
  C3, as stated, fails. A fragment whose first byte has the packet type SINGLE and that
  is one byte long, arriving while a reassembly is in progress, is dropped and the
  buffer in progress is kept.
\<close>

theorem asmbl_claim_counterexample:
  "frag_type example_short_single = AVDT_PKT_TYPE_SINGLE \<and>
   avdt_msg_asmbl example_buf_defs (Some example_rx) example_short_single =
     Some (None, Some example_rx)"
  by (simp add: frag_type_def prs_pkt_type_def example_short_single_def avdt_msg_asmbl_def
      AVDT_PKT_TYPE_START_def AVDT_PKT_TYPE_SINGLE_def avdt_msg_pkt_type_len_def
      AVDT_LEN_TYPE_START_def AVDT_LEN_TYPE_SINGLE_def Let_def)


text \<open>
  C3, amended. For every fragment that lies in its buffer and every state of the
  reassembly slot, \<open>avdt_msg_asmbl\<close> returns, and: a fragment shorter than the minimum
  of its packet type is dropped and leaves the slot as it is; a SINGLE of at least the
  minimum length is returned at once and empties the slot; a START of at least the
  minimum length returns no message and discards the buffer in progress, whatever it
  holds: the slot then holds the new buffer with the copy of this fragment when the
  fragment fits the reassembly buffer, and is empty otherwise; a CONT returns no message,
  and the slot afterwards holds the buffer in progress with the data of the fragment
  appended when a reassembly was in progress and the fragment fits, and is empty
  otherwise; an END empties the slot and returns the buffer in progress with the data of
  the fragment appended when a reassembly was in progress and the fragment fits, and no
  message otherwise (so a CONT or END with no reassembly in progress is dropped). Hence a
  message is returned only for a SINGLE, or for an END with a reassembly in progress,
  that is after START CONT* END; and the slot holds a buffer afterwards only after a
  START, or after a CONT or a too short fragment that found a reassembly in progress.
\<close>

theorem asmbl_step:
  assumes wf: "wf_buf b"
  shows "\<exists>ret rx'.
     avdt_msg_asmbl K rx b = Some (ret, rx') \<and>
     (frag_short b \<longrightarrow> ret = None \<and> rx' = rx) \<and>
     (\<not> frag_short b \<and> frag_type b = AVDT_PKT_TYPE_SINGLE \<longrightarrow> ret = Some b \<and> rx' = None) \<and>
     (\<not> frag_short b \<and> frag_type b = AVDT_PKT_TYPE_START \<longrightarrow>
        ret = None \<and> rx' = (if start_fits K b then Some (start_buf b) else None)) \<and>
     (\<not> frag_short b \<and> frag_type b = AVDT_PKT_TYPE_CONT \<longrightarrow>
        ret = None \<and>
        rx' = (case rx of
                 None \<Rightarrow> None
               | Some r \<Rightarrow> if frag_fits K rx b then Some (cont_buf r b) else None)) \<and>
     (\<not> frag_short b \<and> frag_type b = AVDT_PKT_TYPE_END \<longrightarrow>
        rx' = None \<and>
        ret = (case rx of
                 None \<Rightarrow> None
               | Some r \<Rightarrow> if frag_fits K rx b then Some (end_msg r b) else None)) \<and>
     (ret \<noteq> None \<longrightarrow>
        \<not> frag_short b \<and>
        (frag_type b = AVDT_PKT_TYPE_SINGLE \<or> frag_type b = AVDT_PKT_TYPE_END \<and> rx \<noteq> None)) \<and>
     (rx' \<noteq> None \<longrightarrow>
        \<not> frag_short b \<and> frag_type b = AVDT_PKT_TYPE_START \<or>
        rx \<noteq> None \<and> (frag_short b \<or> frag_type b = AVDT_PKT_TYPE_CONT))"
proof (cases "frag_short b")
  case True
  then have "avdt_msg_asmbl K rx b = Some (None, rx)"
    using asmbl_short [OF wf] by (simp add: frag_short_def frag_type_def)
  with True show ?thesis by simp
next
  case False
  then have ns: "\<not> len b < avdt_msg_pkt_type_len (prs_pkt_type (data b ! unat (offset b)))"
    by (simp add: frag_short_def frag_type_def)
  have d: "AVDT_PKT_TYPE_SINGLE \<noteq> AVDT_PKT_TYPE_START" "AVDT_PKT_TYPE_SINGLE \<noteq> AVDT_PKT_TYPE_CONT"
    "AVDT_PKT_TYPE_SINGLE \<noteq> AVDT_PKT_TYPE_END" "AVDT_PKT_TYPE_START \<noteq> AVDT_PKT_TYPE_CONT"
    "AVDT_PKT_TYPE_START \<noteq> AVDT_PKT_TYPE_END" "AVDT_PKT_TYPE_CONT \<noteq> AVDT_PKT_TYPE_END"
    by (simp_all add: AVDT_PKT_TYPE_START_def AVDT_PKT_TYPE_SINGLE_def
      AVDT_PKT_TYPE_CONT_def AVDT_PKT_TYPE_END_def)
  from pkt_type_cases [of "data b ! unat (offset b)"]
  consider (single) "frag_type b = AVDT_PKT_TYPE_SINGLE" | (start) "frag_type b = AVDT_PKT_TYPE_START"
    | (cont) "frag_type b = AVDT_PKT_TYPE_CONT" | (fin) "frag_type b = AVDT_PKT_TYPE_END"
    unfolding frag_type_def by blast
  then show ?thesis
  proof cases
    case single
    then have "avdt_msg_asmbl K rx b = Some (Some b, None)"
      using asmbl_single [OF wf ns] by (simp add: frag_type_def)
    with False single d show ?thesis by simp
  next
    case start
    note r = asmbl_start [OF wf ns start [unfolded frag_type_def], of K rx]
    show ?thesis
    proof (cases "start_fits K b")
      case True
      with r False start d show ?thesis by (simp add: start_fits_def start_buf_def)
    next
      case nf: False
      with r False start d show ?thesis by (simp add: start_fits_def not_le)
    qed
  next
    case cont
    show ?thesis
    proof (cases rx)
      case None
      have "avdt_msg_asmbl K None b = Some (None, None)"
        using asmbl_cont_end_idle [OF wf ns] cont by (simp add: frag_type_def)
      with None False cont d show ?thesis by (simp add: frag_fits_def)
    next
      case (Some r)
      note res = asmbl_cont [OF wf ns cont [unfolded frag_type_def], of K r]
      show ?thesis
      proof (cases "frag_fits K rx b")
        case True
        with res Some False cont d show ?thesis by (simp add: frag_fits_def cont_buf_def)
      next
        case nf: False
        with res Some False cont d show ?thesis by (simp add: frag_fits_def not_le)
      qed
    qed
  next
    case fin
    show ?thesis
    proof (cases rx)
      case None
      have "avdt_msg_asmbl K None b = Some (None, None)"
        using asmbl_cont_end_idle [OF wf ns] fin by (simp add: frag_type_def)
      with None False fin d show ?thesis by (simp add: frag_fits_def)
    next
      case (Some r)
      note res = asmbl_end [OF wf ns fin [unfolded frag_type_def], of K r]
      show ?thesis
      proof (cases "frag_fits K rx b")
        case True
        with res Some False fin d show ?thesis by (simp add: frag_fits_def end_msg_def)
      next
        case nf: False
        with res Some False fin d show ?thesis by (simp add: frag_fits_def not_le)
      qed
    qed
  qed
qed

theorem asmbl_step_witness:
  "avdt_msg_asmbl example_buf_defs (Some example_rx)
     \<lparr>event = 0, len = 3, offset = 1, layer_specific = 0, data = [0, 0x1C, 7, 9]\<rparr> =
   Some (Some \<lparr>event = 0, len = 4, offset = 1, layer_specific = 0,
                data = [0x14, 0x14, 0x03, 7, 9]\<rparr>, None) \<and>
   avdt_msg_asmbl example_buf_defs (Some example_rx)
     \<lparr>event = 0, len = 4, offset = 0, layer_specific = 0, data = [0x24, 2, 6, 8]\<rparr> =
   Some (None, Some \<lparr>event = 0, len = 3, offset = 4, layer_specific = 0,
                      data = [0x24, 0x24, 6, 8]\<rparr>)"
proof -
  let ?b = "\<lparr>event = 0, len = 3, offset = 1, layer_specific = 0, data = [0, 0x1C, 7, 9 :: u8]\<rparr>"
  let ?s = "\<lparr>event = 0, len = 4, offset = 0, layer_specific = 0, data = [0x24, 2, 6, 8 :: u8]\<rparr>"
  have wf: "wf_buf ?b" by (simp add: wf_buf_def)
  have wfs: "wf_buf ?s" by (simp add: wf_buf_def)
  have t: "frag_type ?b = AVDT_PKT_TYPE_END" "\<not> frag_short ?b"
      "frag_fits example_buf_defs (Some example_rx) ?b"
    by (simp_all add: frag_type_def frag_short_def frag_fits_def prs_pkt_type_def
        example_rx_def example_buf_defs_def AVDT_PKT_TYPE_END_def avdt_msg_pkt_type_len_def
        AVDT_PKT_TYPE_SINGLE_def AVDT_PKT_TYPE_START_def AVDT_PKT_TYPE_CONT_def
        AVDT_LEN_TYPE_END_def)
  have ts: "frag_type ?s = AVDT_PKT_TYPE_START" "\<not> frag_short ?s"
      "start_fits example_buf_defs ?s"
    by (simp_all add: frag_type_def frag_short_def start_fits_def prs_pkt_type_def
        example_buf_defs_def avdt_msg_pkt_type_len_def
        AVDT_PKT_TYPE_SINGLE_def AVDT_PKT_TYPE_START_def AVDT_LEN_TYPE_START_def)
  have e: "end_msg example_rx ?b =
      \<lparr>event = 0, len = 4, offset = 1, layer_specific = 0, data = [0x14, 0x14, 0x03, 7, 9]\<rparr>"
    by (simp add: end_msg_def example_rx_def)
  have sb: "start_buf ?s =
      \<lparr>event = 0, len = 3, offset = 4, layer_specific = 0, data = [0x24, 0x24, 6, 8]\<rparr>"
    by (simp add: start_buf_def)
  have d: "AVDT_PKT_TYPE_END \<noteq> AVDT_PKT_TYPE_SINGLE" "AVDT_PKT_TYPE_END \<noteq> AVDT_PKT_TYPE_START"
    "AVDT_PKT_TYPE_END \<noteq> AVDT_PKT_TYPE_CONT" "AVDT_PKT_TYPE_START \<noteq> AVDT_PKT_TYPE_SINGLE"
    "AVDT_PKT_TYPE_START \<noteq> AVDT_PKT_TYPE_CONT"
    by (simp_all add: AVDT_PKT_TYPE_START_def AVDT_PKT_TYPE_SINGLE_def
      AVDT_PKT_TYPE_CONT_def AVDT_PKT_TYPE_END_def)
  from asmbl_step [OF wf, of example_buf_defs "Some example_rx"] t e d
  have 1: "avdt_msg_asmbl example_buf_defs (Some example_rx) ?b =
     Some (Some \<lparr>event = 0, len = 4, offset = 1, layer_specific = 0,
                data = [0x14, 0x14, 0x03, 7, 9]\<rparr>, None)"
    by auto
  from asmbl_step [OF wfs, of example_buf_defs "Some example_rx"] ts sb d
  have 2: "avdt_msg_asmbl example_buf_defs (Some example_rx) ?s =
     Some (None, Some \<lparr>event = 0, len = 3, offset = 4, layer_specific = 0,
                      data = [0x24, 0x24, 6, 8]\<rparr>)"
    by auto
  from 1 2 show ?thesis by simp
qed

subsection \<open>AVDTP: unknown service categories\<close>

lemma ie_err_not_category: "avdt_msg_ie_err i \<noteq> AVDT_ERR_CATEGORY"
  by (simp add: avdt_msg_ie_err_def)

lemma prs_cfg_elem_not_category:
  "prs_cfg_elem K cfg elem elem_len po p = (err, r) \<Longrightarrow> err \<noteq> AVDT_ERR_CATEGORY"
  unfolding prs_cfg_elem_def Let_def
  by (auto simp: ie_err_not_category split: if_splits)

lemma category_error_only:
  "prs_cfg_loop K sig_id cfg elem0 po p = (AVDT_ERR_CATEGORY, cfg', e) \<Longrightarrow>
     is_config_sig sig_id \<and> unknown_category e"
proof (induction K sig_id cfg elem0 po p rule: prs_cfg_loop.induct)
  case (3 K sig_id cfg elem0 po elem elem_len p)
  show ?case
  proof (cases "unknown_category elem")
    case True
    with 3 show ?thesis
      by (cases "is_config_sig sig_id") simp_all
  next
    case False
    obtain err c2 po2 p2 where
      r: "prs_cfg_elem K cfg elem elem_len po p = (err, c2, po2, p2)"
      by (cases "prs_cfg_elem K cfg elem elem_len po p")
    then have ne: "err \<noteq> AVDT_ERR_CATEGORY"
      by (rule prs_cfg_elem_not_category)
    show ?thesis
    proof (cases "err = AVDT_SUCCESS")
      case True
      with False r "3.prems" have
        "prs_cfg_loop K sig_id c2 elem po2 p2 = (AVDT_ERR_CATEGORY, cfg', e)"
        by simp
      with False r True "3.IH"(2) show ?thesis
        by simp
    next
      case e: False
      with False r ne "3.prems" show ?thesis
        by simp
    qed
  qed
qed simp_all

lemma steps_loop:
  "prs_cfg_steps n K sig_id c e po p = Some (c', e', po', p') \<Longrightarrow>
     prs_cfg_loop K sig_id c e po p = prs_cfg_loop K sig_id c' e' po' p'"
proof (induction n K sig_id c e po p rule: prs_cfg_steps.induct)
  case (4 n K sig_id cfg elem0 po elem elem_len p)
  show ?case
  proof (cases "unknown_category elem")
    case True
    with "4.prems" have nc: "\<not> is_config_sig sig_id"
      by (cases "is_config_sig sig_id") simp_all
    with True "4.prems" have
      "prs_cfg_steps n K sig_id cfg elem po (drop (unat elem_len) p) = Some (c', e', po', p')"
      by simp
    with True nc "4.IH"(1) have
      "prs_cfg_loop K sig_id cfg elem po (drop (unat elem_len) p) =
         prs_cfg_loop K sig_id c' e' po' p'"
      by simp
    with True nc show ?thesis
      by simp
  next
    case False
    obtain err c2 po2 p2 where
      r: "prs_cfg_elem K cfg elem elem_len po p = (err, c2, po2, p2)"
      by (cases "prs_cfg_elem K cfg elem elem_len po p")
    with False "4.prems" have ok: "err = AVDT_SUCCESS"
      by (cases "err = AVDT_SUCCESS") simp_all
    with False r "4.prems" have
      "prs_cfg_steps n K sig_id c2 elem po2 p2 = Some (c', e', po', p')"
      by simp
    with False r ok "4.IH"(2) have
      "prs_cfg_loop K sig_id c2 elem po2 p2 = prs_cfg_loop K sig_id c' e' po' p'"
      by simp
    with False r ok show ?thesis
      by simp
  qed
qed simp_all

text \<open>
  C5, as stated, fails. The body 3, 0, 9, 0 of a Set Configuration command holds an
  element of the unknown category 9, but the parser stops at the element before it, a
  recovery element of length 0, with the error of that element.
\<close>

theorem unknown_category_claim_counterexample:
  "unknown_category 9 \<and> is_config_sig AVDT_SIG_SETCONFIG \<and>
   avdt_msg_prs_cfg example_cfg_defs (Some example_sep_cfg) [3, 0, 9, 0] AVDT_SIG_SETCONFIG =
     (AVDT_ERR_RECOV_FMT, Some example_sep_cfg, Some 3)"
  by (simp add: avdt_msg_prs_cfg_def example_cfg_defs_def example_sep_cfg_def
       AVDT_SIG_SETCONFIG_def AVDT_CAT_MAX_CUR_def unknown_category_def is_config_sig_def
       prs_cfg_elem_def avdt_msg_ie_len_min_def avdt_msg_ie_len_max_def avdt_msg_ie_err_def)

text \<open>
  C5, amended. When \<open>avdt_msg_prs_cfg\<close> has parsed the elements before it without an
  error (\<open>n\<close> iterations of its loop) and then reaches an information element whose
  category id is 0 or greater than \<open>AVDT_CAT_MAX_CUR\<close>: for the signals Set
  Configuration and Reconfigure it returns \<open>AVDT_ERR_CATEGORY\<close> (the bad service
  category code), with the configuration as the elements before have left it and the
  offending category written to \<open>*p_elem\<close>; for any other signal the element changes
  nothing, and the result is that of parsing the bytes that follow the \<open>elem_len\<close>
  bytes of the element, which is success, with the same configuration, when no byte
  follows. And \<open>avdt_msg_prs_cfg\<close> returns \<open>AVDT_ERR_CATEGORY\<close> in no other case:
  then the signal is Set Configuration or Reconfigure and \<open>*p_elem\<close> is an unknown
  category.
\<close>

theorem unknown_category_handling:
  assumes "prs_cfg_steps n K sig_id (cfg\<lparr>psc_mask := 0, num_codec := 0, num_protect := 0\<rparr>) 0 0 p =
             Some (cfg', elem0, po, elem # elem_len # rest)"
    and "unknown_category elem"
  shows
    "(is_config_sig sig_id \<longrightarrow>
        avdt_msg_prs_cfg K (Some cfg) p sig_id = (AVDT_ERR_CATEGORY, Some cfg', Some elem)) \<and>
     (\<not> is_config_sig sig_id \<longrightarrow>
        avdt_msg_prs_cfg K (Some cfg) p sig_id =
          (case prs_cfg_loop K sig_id cfg' elem po (drop (unat elem_len) rest) of
             (err, c, e) \<Rightarrow> (err, Some c, Some e)) \<and>
        (length rest \<le> unat elem_len \<longrightarrow>
           avdt_msg_prs_cfg K (Some cfg) p sig_id = (AVDT_SUCCESS, Some cfg', Some elem))) \<and>
     (fst (avdt_msg_prs_cfg K p_cfg q sig_id) = AVDT_ERR_CATEGORY \<longrightarrow>
        is_config_sig sig_id \<and>
        (\<exists>e. snd (snd (avdt_msg_prs_cfg K p_cfg q sig_id)) = Some e \<and> unknown_category e))"
proof -
  note l = steps_loop [OF assms(1)]
  have 1: "is_config_sig sig_id \<longrightarrow>
        avdt_msg_prs_cfg K (Some cfg) p sig_id = (AVDT_ERR_CATEGORY, Some cfg', Some elem)"
    using assms(2) by (simp add: avdt_msg_prs_cfg_def l)
  have 2: "\<not> is_config_sig sig_id \<longrightarrow>
        avdt_msg_prs_cfg K (Some cfg) p sig_id =
          (case prs_cfg_loop K sig_id cfg' elem po (drop (unat elem_len) rest) of
             (err, c, e) \<Rightarrow> (err, Some c, Some e))"
    using assms(2) by (simp add: avdt_msg_prs_cfg_def l)
  have 3: "\<not> is_config_sig sig_id \<longrightarrow> length rest \<le> unat elem_len \<longrightarrow>
           avdt_msg_prs_cfg K (Some cfg) p sig_id = (AVDT_SUCCESS, Some cfg', Some elem)"
    using assms(2) by (simp add: avdt_msg_prs_cfg_def l)
  have 4: "fst (avdt_msg_prs_cfg K p_cfg q sig_id) = AVDT_ERR_CATEGORY \<longrightarrow>
        is_config_sig sig_id \<and>
        (\<exists>e. snd (snd (avdt_msg_prs_cfg K p_cfg q sig_id)) = Some e \<and> unknown_category e)"
  proof
    assume a: "fst (avdt_msg_prs_cfg K p_cfg q sig_id) = AVDT_ERR_CATEGORY"
    then obtain c where c: "p_cfg = Some c"
      by (cases p_cfg) (simp_all add: avdt_msg_prs_cfg_def)
    obtain err c' e where r:
      "prs_cfg_loop K sig_id (c\<lparr>psc_mask := 0, num_codec := 0, num_protect := 0\<rparr>) 0 0 q
         = (err, c', e)"
      by (cases "prs_cfg_loop K sig_id (c\<lparr>psc_mask := 0, num_codec := 0, num_protect := 0\<rparr>) 0 0 q")
    from a c r have "err = AVDT_ERR_CATEGORY"
      by (simp add: avdt_msg_prs_cfg_def)
    with r category_error_only have "is_config_sig sig_id \<and> unknown_category e"
      by blast
    moreover from c r have "snd (snd (avdt_msg_prs_cfg K p_cfg q sig_id)) = Some e"
      by (simp add: avdt_msg_prs_cfg_def)
    ultimately show "is_config_sig sig_id \<and>
        (\<exists>e. snd (snd (avdt_msg_prs_cfg K p_cfg q sig_id)) = Some e \<and> unknown_category e)"
      by simp
  qed
  from 1 2 3 4 show ?thesis
    by blast
qed

lemma example_steps:
  "prs_cfg_steps (Suc 0) example_cfg_defs sig_id
      (example_sep_cfg\<lparr>psc_mask := 0, num_codec := 0, num_protect := 0\<rparr>) 0 0
      [1, 0, 9, 2, 5, 6] =
     Some (example_sep_cfg\<lparr>psc_mask := 2\<rparr>, 1, 0, [9, 2, 5, 6])"
  by (simp add: example_cfg_defs_def example_sep_cfg_def
       AVDT_CAT_MAX_CUR_def unknown_category_def prs_cfg_elem_def
       avdt_msg_ie_len_min_def avdt_msg_ie_len_max_def Let_def
       AVDT_CAT_RECOV_def AVDT_CAT_PROTECT_def AVDT_CAT_HDRCMP_def AVDT_CAT_CODEC_def
       AVDT_CAT_DELAY_RPT_def)

theorem unknown_category_handling_witness:
  "prs_cfg_steps (Suc 0) example_cfg_defs AVDT_SIG_SETCONFIG
      (example_sep_cfg\<lparr>psc_mask := 0, num_codec := 0, num_protect := 0\<rparr>) 0 0
      [1, 0, 9, 2, 5, 6] =
     Some (example_sep_cfg\<lparr>psc_mask := 2\<rparr>, 1, 0, [9, 2, 5, 6]) \<and>
   unknown_category 9 \<and>
   is_config_sig AVDT_SIG_SETCONFIG \<and>
   \<not> is_config_sig AVDT_SIG_GETCAP \<and>
   avdt_msg_prs_cfg example_cfg_defs (Some example_sep_cfg) [1, 0, 9, 2, 5, 6]
       AVDT_SIG_SETCONFIG =
     (AVDT_ERR_CATEGORY, Some (example_sep_cfg\<lparr>psc_mask := 2\<rparr>), Some 9) \<and>
   avdt_msg_prs_cfg example_cfg_defs (Some example_sep_cfg) [1, 0, 9, 2, 5, 6]
       AVDT_SIG_GETCAP =
     (AVDT_SUCCESS, Some (example_sep_cfg\<lparr>psc_mask := 2\<rparr>), Some 9)"
proof -
  have u: "unknown_category 9"
    by (simp add: unknown_category_def AVDT_CAT_MAX_CUR_def)
  have s: "is_config_sig AVDT_SIG_SETCONFIG" "\<not> is_config_sig AVDT_SIG_GETCAP"
    by (simp_all add: is_config_sig_def AVDT_SIG_GETCAP_def AVDT_SIG_SETCONFIG_def
          AVDT_SIG_RECONFIG_def)
  have len: "length [5, 6 :: u8] \<le> unat (2 :: u8)"
    by simp
  from unknown_category_handling [OF example_steps u, of AVDT_SIG_SETCONFIG]
    unknown_category_handling [OF example_steps u, of AVDT_SIG_GETCAP]
    example_steps [of AVDT_SIG_SETCONFIG] u s len
  show ?thesis
    by simp
qed

subsection \<open>AVDTP: a received message with an invalid signal id\<close>

lemma not_ok_parse: "\<not> v_ok v \<Longrightarrow> ind_parse parse m v = Some v"
  by (simp add: ind_parse_def)

lemma not_ok_match: "\<not> v_ok v \<Longrightarrow> ind_match K m v = v"
  by (simp add: ind_match_def Let_def)

lemma not_ok_dispatch:
  "\<not> v_ok v \<Longrightarrow> \<not> v_handle_rsp v \<Longrightarrow> ind_dispatch D m v = Some (v_ccb v, v_calls v)"
  by (simp add: ind_dispatch_def Let_def)

lemma not_ok_rest:
  assumes "ind_verify K D c m = Some v" and "\<not> v_ok v" and "\<not> v_handle_rsp v"
  shows "(case ind_verify K D c m of
             None \<Rightarrow> None
           | Some v \<Rightarrow>
               (case ind_parse parse m v of
                  None \<Rightarrow> None
                | Some v \<Rightarrow> ind_dispatch D m (ind_match K m v))) = Some (v_ccb v, v_calls v)"
  using assms by (simp add: not_ok_parse not_ok_match not_ok_dispatch)

lemma verify_invalid_cmd:
  assumes "unat (offset m) + 1 < length (data m)"
    and "invalid_sig D (sig_of m)" and "msg_type_of m = AVDT_MSG_TYPE_CMD"
  shows "\<exists>v. ind_verify K D c m = Some v \<and> \<not> v_ok v \<and> \<not> v_handle_rsp v \<and>
           v_ccb v = c\<lparr>rsp_q := rsp_q c @ [grej_buf K D m]\<rparr> \<and>
           v_calls v = [Avdt_ccb_event AVDT_CCB_SENDMSG_EVT None]"
  using assms
  by (auto simp: ind_verify_def Let_def msg_type_of_def sig_of_def invalid_sig_def
        avdt_msg_send_grej_def grej_buf_def
        AVDT_MSG_TYPE_CMD_def AVDT_MSG_TYPE_GRJ_def AVDT_MSG_TYPE_RSP_def AVDT_MSG_TYPE_REJ_def)

lemma verify_invalid_drop:
  assumes "unat (offset m) + 1 < length (data m)"
    and "invalid_sig D (sig_of m)"
    and "msg_type_of m = AVDT_MSG_TYPE_RSP \<or>
         msg_type_of m = AVDT_MSG_TYPE_REJ \<and> len m \<noteq> AVDT_LEN_GEN_REJ D"
  shows "\<exists>v. ind_verify K D c m = Some v \<and> \<not> v_ok v \<and> \<not> v_handle_rsp v \<and>
           v_ccb v = c \<and> v_calls v = []"
  using assms
  by (auto simp: ind_verify_def Let_def msg_type_of_def sig_of_def invalid_sig_def
        AVDT_MSG_TYPE_CMD_def AVDT_MSG_TYPE_GRJ_def AVDT_MSG_TYPE_RSP_def AVDT_MSG_TYPE_REJ_def)

lemma verify_gen_rej:
  assumes "unat (offset m) < length (data m)"
    and "msg_type_of m = AVDT_MSG_TYPE_REJ" and "len m = AVDT_LEN_GEN_REJ D"
  shows "ind_verify K D c m =
     (case p_curr_cmd c of
        None \<Rightarrow>
          Some \<lparr>v_ok = True, v_gen_rej = True, v_handle_rsp = False, v_sig = 0,
                v_evt = No_evt,
                v_msg = \<lparr>hdr_label = label_of m, hdr_sig_id = 0, hdr_err_code = AVDT_SUCCESS,
                         hdr_err_param = 0, single_seid = 0\<rparr>,
                v_ccb = c, v_calls = []\<rparr>
      | Some cmd \<Rightarrow>
          (case avdt_msg_rej_2_evt (ucast (event cmd)) of
             None \<Rightarrow> None
           | Some evt \<Rightarrow>
               Some \<lparr>v_ok = True, v_gen_rej = True, v_handle_rsp = False,
                     v_sig = ucast (event cmd), v_evt = evt,
                     v_msg = \<lparr>hdr_label = label_of m, hdr_sig_id = ucast (event cmd),
                              hdr_err_code = AVDT_ERR_NSC, hdr_err_param = 0,
                              single_seid = 0\<rparr>,
                     v_ccb = c, v_calls = []\<rparr>))"
  using assms
  by (simp add: ind_verify_def Let_def msg_type_of_def label_of_def
        AVDT_MSG_TYPE_GRJ_def AVDT_MSG_TYPE_REJ_def split: option.splits)

lemma gen_rej_parse: "v_gen_rej v \<Longrightarrow> ind_parse parse m v = Some v"
  by (simp add: ind_parse_def)

lemma gen_rej_handling:
  assumes a: "avdt_msg_asmbl K (p_rx_msg ccb) b = Some (Some m, rx)"
    and mem: "unat (offset m) < length (data m)"
    and t: "msg_type_of m = AVDT_MSG_TYPE_REJ" and l: "len m = AVDT_LEN_GEN_REJ D"
  shows "p_curr_cmd ccb = None \<longrightarrow>
           avdt_msg_ind K D parse ccb b = Some (ccb\<lparr>p_rx_msg := rx\<rparr>, [])"
    and "p_curr_cmd ccb = Some cmd \<and> avdt_msg_rej_2_evt (ucast (event cmd)) = Some evt \<and>
         \<not> (event cmd = ucast (ucast (event cmd) :: u8) \<and>
            AVDT_LAYERSPEC_LABEL K (layer_specific cmd) = label_of m) \<longrightarrow>
           avdt_msg_ind K D parse ccb b = Some (ccb\<lparr>p_rx_msg := rx\<rparr>, [])"
    and "p_curr_cmd ccb = Some cmd \<and> avdt_msg_rej_2_evt (ucast (event cmd)) = Some evt \<and>
         event cmd = ucast (ucast (event cmd) :: u8) \<and>
         AVDT_LAYERSPEC_LABEL K (layer_specific cmd) = label_of m \<longrightarrow>
           avdt_msg_ind K D parse ccb b =
             (case evt of
                No_evt \<Rightarrow>
                  Some (ccb\<lparr>p_rx_msg := rx, ret_count := 0\<rparr>,
                        [Alarm_cancel_idle_ccb_timer, Alarm_cancel_ret_ccb_timer,
                         Alarm_cancel_rsp_ccb_timer,
                         Avdt_ccb_event AVDT_CCB_RCVRSP_EVT None])
              | Ccb_evt e \<Rightarrow>
                  Some (ccb\<lparr>p_rx_msg := rx, ret_count := 0\<rparr>,
                        [Alarm_cancel_idle_ccb_timer, Alarm_cancel_ret_ccb_timer,
                         Alarm_cancel_rsp_ccb_timer,
                         Avdt_ccb_event e
                           (Some \<lparr>hdr_label = label_of m, hdr_sig_id = ucast (event cmd),
                                  hdr_err_code = AVDT_ERR_NSC, hdr_err_param = 0,
                                  single_seid = 0\<rparr>),
                         Avdt_ccb_event AVDT_CCB_RCVRSP_EVT None])
              | Scb_evt e \<Rightarrow>
                  (case data cmd of
                     [] \<Rightarrow> None
                   | scb_hdl # rest \<Rightarrow>
                       (case avdt_scb_by_hdl D scb_hdl of
                          None \<Rightarrow>
                            Some (ccb\<lparr>p_rx_msg := rx, ret_count := 0\<rparr>,
                                  [Alarm_cancel_idle_ccb_timer, Alarm_cancel_ret_ccb_timer,
                                   Alarm_cancel_rsp_ccb_timer,
                                   Avdt_ccb_event AVDT_CCB_RCVRSP_EVT None])
                        | Some p_scb \<Rightarrow>
                            Some (ccb\<lparr>p_rx_msg := rx, ret_count := 0\<rparr>,
                                  [Alarm_cancel_idle_ccb_timer, Alarm_cancel_ret_ccb_timer,
                                   Alarm_cancel_rsp_ccb_timer,
                                   Avdt_scb_event p_scb e
                                     \<lparr>hdr_label = label_of m,
                                      hdr_sig_id = ucast (event cmd),
                                      hdr_err_code = AVDT_ERR_NSC, hdr_err_param = 0,
                                      single_seid = 0\<rparr>,
                                   Avdt_ccb_event AVDT_CCB_RCVRSP_EVT None]))))"
proof -
  note v = verify_gen_rej [OF mem t l, of K "ccb\<lparr>p_rx_msg := rx\<rparr>"]
  have tt: "prs_msg_type (data m ! unat (offset m)) = AVDT_MSG_TYPE_REJ"
    using t by (simp add: msg_type_of_def)
  have lb: "prs_label (data m ! unat (offset m)) = label_of m"
    by (simp add: label_of_def)
  have ne: "AVDT_MSG_TYPE_REJ \<noteq> AVDT_MSG_TYPE_CMD"
    by (simp add: AVDT_MSG_TYPE_REJ_def AVDT_MSG_TYPE_CMD_def)
  show "p_curr_cmd ccb = None \<longrightarrow>
           avdt_msg_ind K D parse ccb b = Some (ccb\<lparr>p_rx_msg := rx\<rparr>, [])"
    by (simp add: avdt_msg_ind_def a v gen_rej_parse ind_match_def ind_dispatch_def Let_def tt)
  show "p_curr_cmd ccb = Some cmd \<and> avdt_msg_rej_2_evt (ucast (event cmd)) = Some evt \<and>
         \<not> (event cmd = ucast (ucast (event cmd) :: u8) \<and>
            AVDT_LAYERSPEC_LABEL K (layer_specific cmd) = label_of m) \<longrightarrow>
           avdt_msg_ind K D parse ccb b = Some (ccb\<lparr>p_rx_msg := rx\<rparr>, [])"
    by (simp add: avdt_msg_ind_def a v gen_rej_parse ind_match_def ind_dispatch_def Let_def
          tt lb)
  show "p_curr_cmd ccb = Some cmd \<and> avdt_msg_rej_2_evt (ucast (event cmd)) = Some evt \<and>
         event cmd = ucast (ucast (event cmd) :: u8) \<and>
         AVDT_LAYERSPEC_LABEL K (layer_specific cmd) = label_of m \<longrightarrow>
           avdt_msg_ind K D parse ccb b =
             (case evt of
                No_evt \<Rightarrow>
                  Some (ccb\<lparr>p_rx_msg := rx, ret_count := 0\<rparr>,
                        [Alarm_cancel_idle_ccb_timer, Alarm_cancel_ret_ccb_timer,
                         Alarm_cancel_rsp_ccb_timer,
                         Avdt_ccb_event AVDT_CCB_RCVRSP_EVT None])
              | Ccb_evt e \<Rightarrow>
                  Some (ccb\<lparr>p_rx_msg := rx, ret_count := 0\<rparr>,
                        [Alarm_cancel_idle_ccb_timer, Alarm_cancel_ret_ccb_timer,
                         Alarm_cancel_rsp_ccb_timer,
                         Avdt_ccb_event e
                           (Some \<lparr>hdr_label = label_of m, hdr_sig_id = ucast (event cmd),
                                  hdr_err_code = AVDT_ERR_NSC, hdr_err_param = 0,
                                  single_seid = 0\<rparr>),
                         Avdt_ccb_event AVDT_CCB_RCVRSP_EVT None])
              | Scb_evt e \<Rightarrow>
                  (case data cmd of
                     [] \<Rightarrow> None
                   | scb_hdl # rest \<Rightarrow>
                       (case avdt_scb_by_hdl D scb_hdl of
                          None \<Rightarrow>
                            Some (ccb\<lparr>p_rx_msg := rx, ret_count := 0\<rparr>,
                                  [Alarm_cancel_idle_ccb_timer, Alarm_cancel_ret_ccb_timer,
                                   Alarm_cancel_rsp_ccb_timer,
                                   Avdt_ccb_event AVDT_CCB_RCVRSP_EVT None])
                        | Some p_scb \<Rightarrow>
                            Some (ccb\<lparr>p_rx_msg := rx, ret_count := 0\<rparr>,
                                  [Alarm_cancel_idle_ccb_timer, Alarm_cancel_ret_ccb_timer,
                                   Alarm_cancel_rsp_ccb_timer,
                                   Avdt_scb_event p_scb e
                                     \<lparr>hdr_label = label_of m,
                                      hdr_sig_id = ucast (event cmd),
                                      hdr_err_code = AVDT_ERR_NSC, hdr_err_param = 0,
                                      single_seid = 0\<rparr>,
                                   Avdt_ccb_event AVDT_CCB_RCVRSP_EVT None]))))"
    by (simp add: avdt_msg_ind_def a v gen_rej_parse ind_match_def ind_dispatch_def Let_def
          tt lb ne split: avdt_evt.splits list.splits option.splits)
qed

lemma example_pdu_asmbl:
  "prs_pkt_type b0 = AVDT_PKT_TYPE_SINGLE \<Longrightarrow>
     avdt_msg_asmbl example_buf_defs None (example_pdu b0 b1) = Some (Some (example_pdu b0 b1), None)"
  by (simp add: avdt_msg_asmbl_def example_pdu_def Let_def avdt_msg_pkt_type_len_def
        AVDT_LEN_TYPE_SINGLE_def)

text \<open>
  C4, as stated, fails. A message of message type reject whose length is
  \<open>AVDT_LEN_GEN_REJ\<close> is taken as a General Reject of the command that was sent, and
  its signal id field is not read: with the signal id 0 and the label of the command that
  was sent it is not dropped; the timers are stopped, the reject event of the command is
  sent to the stream and the response is reported to the CCB.
\<close>

theorem invalid_signal_claim_counterexample:
  "sig_of (example_pdu 0x13 0) = 0 \<and>
   invalid_sig example_ind_defs (sig_of (example_pdu 0x13 0)) \<and>
   msg_type_of (example_pdu 0x13 0) = AVDT_MSG_TYPE_REJ \<and>
   avdt_msg_ind example_buf_defs example_ind_defs example_parse example_ccb
       (example_pdu 0x13 0) =
     Some (example_ccb\<lparr>ret_count := 0\<rparr>,
           [Alarm_cancel_idle_ccb_timer, Alarm_cancel_ret_ccb_timer,
            Alarm_cancel_rsp_ccb_timer,
            Avdt_scb_event 0 AVDT_SCB_MSG_SETCONFIG_REJ_EVT
              \<lparr>hdr_label = 1, hdr_sig_id = 3, hdr_err_code = AVDT_ERR_NSC,
               hdr_err_param = 0, single_seid = 0\<rparr>,
            Avdt_ccb_event AVDT_CCB_RCVRSP_EVT None])"
proof -
  have a: "avdt_msg_asmbl example_buf_defs None (example_pdu 0x13 0)
             = Some (Some (example_pdu 0x13 0), None)"
    by (rule example_pdu_asmbl) (simp add: prs_pkt_type_def AVDT_PKT_TYPE_SINGLE_def)
  have v: "ind_verify example_buf_defs example_ind_defs example_ccb (example_pdu 0x13 0) =
      Some \<lparr>v_ok = True, v_gen_rej = True, v_handle_rsp = False, v_sig = 3,
            v_evt = Scb_evt AVDT_SCB_MSG_SETCONFIG_REJ_EVT,
            v_msg = \<lparr>hdr_label = 1, hdr_sig_id = 3, hdr_err_code = AVDT_ERR_NSC,
               hdr_err_param = 0, single_seid = 0\<rparr>,
            v_ccb = example_ccb, v_calls = []\<rparr>"
    by (simp add: ind_verify_def example_pdu_def example_ccb_def example_sent_cmd_def
          example_ind_defs_def Let_def prs_msg_type_def prs_label_def
          AVDT_MSG_TYPE_GRJ_def AVDT_MSG_TYPE_REJ_def avdt_msg_rej_2_evt_def
          AVDT_SIG_DISCOVER_def AVDT_SIG_GETCAP_def AVDT_SIG_SETCONFIG_def)
  have m: "ind_match example_buf_defs (example_pdu 0x13 0)
      \<lparr>v_ok = True, v_gen_rej = True, v_handle_rsp = False, v_sig = 3,
            v_evt = Scb_evt AVDT_SCB_MSG_SETCONFIG_REJ_EVT,
            v_msg = \<lparr>hdr_label = 1, hdr_sig_id = 3, hdr_err_code = AVDT_ERR_NSC,
               hdr_err_param = 0, single_seid = 0\<rparr>,
            v_ccb = example_ccb, v_calls = []\<rparr> =
      \<lparr>v_ok = True, v_gen_rej = True, v_handle_rsp = True, v_sig = 3,
            v_evt = Scb_evt AVDT_SCB_MSG_SETCONFIG_REJ_EVT,
            v_msg = \<lparr>hdr_label = 1, hdr_sig_id = 3, hdr_err_code = AVDT_ERR_NSC,
               hdr_err_param = 0, single_seid = 0\<rparr>,
            v_ccb = example_ccb\<lparr>ret_count := 0\<rparr>,
            v_calls = [Alarm_cancel_idle_ccb_timer, Alarm_cancel_ret_ccb_timer,
                       Alarm_cancel_rsp_ccb_timer]\<rparr>"
    by (simp add: ind_match_def example_pdu_def example_ccb_def example_sent_cmd_def
          example_buf_defs_def Let_def prs_msg_type_def prs_label_def
          AVDT_MSG_TYPE_RSP_def AVDT_MSG_TYPE_REJ_def)
  have d: "ind_dispatch example_ind_defs (example_pdu 0x13 0)
      \<lparr>v_ok = True, v_gen_rej = True, v_handle_rsp = True, v_sig = 3,
            v_evt = Scb_evt AVDT_SCB_MSG_SETCONFIG_REJ_EVT,
            v_msg = \<lparr>hdr_label = 1, hdr_sig_id = 3, hdr_err_code = AVDT_ERR_NSC,
               hdr_err_param = 0, single_seid = 0\<rparr>,
            v_ccb = example_ccb\<lparr>ret_count := 0\<rparr>,
            v_calls = [Alarm_cancel_idle_ccb_timer, Alarm_cancel_ret_ccb_timer,
                       Alarm_cancel_rsp_ccb_timer]\<rparr> =
     Some (example_ccb\<lparr>ret_count := 0\<rparr>,
           [Alarm_cancel_idle_ccb_timer, Alarm_cancel_ret_ccb_timer,
            Alarm_cancel_rsp_ccb_timer,
            Avdt_scb_event 0 AVDT_SCB_MSG_SETCONFIG_REJ_EVT
              \<lparr>hdr_label = 1, hdr_sig_id = 3, hdr_err_code = AVDT_ERR_NSC,
               hdr_err_param = 0, single_seid = 0\<rparr>,
            Avdt_ccb_event AVDT_CCB_RCVRSP_EVT None])"
    by (simp add: ind_dispatch_def example_pdu_def example_ccb_def example_sent_cmd_def
          example_ind_defs_def Let_def prs_msg_type_def AVDT_MSG_TYPE_CMD_def)
  have r: "p_rx_msg example_ccb = None" "example_ccb\<lparr>p_rx_msg := None\<rparr> = example_ccb"
    by (simp_all add: example_ccb_def)
  have "avdt_msg_ind example_buf_defs example_ind_defs example_parse example_ccb
       (example_pdu 0x13 0) =
     Some (example_ccb\<lparr>ret_count := 0\<rparr>,
           [Alarm_cancel_idle_ccb_timer, Alarm_cancel_ret_ccb_timer,
            Alarm_cancel_rsp_ccb_timer,
            Avdt_scb_event 0 AVDT_SCB_MSG_SETCONFIG_REJ_EVT
              \<lparr>hdr_label = 1, hdr_sig_id = 3, hdr_err_code = AVDT_ERR_NSC,
               hdr_err_param = 0, single_seid = 0\<rparr>,
            Avdt_ccb_event AVDT_CCB_RCVRSP_EVT None])"
    unfolding avdt_msg_ind_def r(1) a
    by (simp add: r(2) v ind_parse_def m d)
  moreover have "sig_of (example_pdu 0x13 0) = 0"
    by (simp add: sig_of_def example_pdu_def prs_sig_def)
  moreover have "msg_type_of (example_pdu 0x13 0) = AVDT_MSG_TYPE_REJ"
    by (simp add: msg_type_of_def example_pdu_def prs_msg_type_def AVDT_MSG_TYPE_REJ_def)
  ultimately show ?thesis
    by (simp add: invalid_sig_def)
qed

text \<open>
  C4, amended. For every message that the reassembly returns and whose two header bytes
  lie in its buffer. If its signal id field is 0 or greater than \<open>AVDT_SIG_MAX\<close> and
  its message type is command, \<open>avdt_msg_ind\<close> queues a General Reject with the signal
  id and the label of the message, triggers the CCB to send it, and makes no other call.
  If its signal id field is 0 or greater than \<open>AVDT_SIG_MAX\<close> and its message type is
  response, or reject with a length other than \<open>AVDT_LEN_GEN_REJ\<close>, \<open>avdt_msg_ind\<close>
  makes no call and leaves the control block as the reassembly left it. If its message
  type is reject and its length is \<open>AVDT_LEN_GEN_REJ\<close>, the signal id field is not
  read. With no command waiting for its response the message is dropped with no call.
  With a command \<open>cmd\<close> waiting whose signal id is an index of the table
  \<open>avdt_msg_rej_2_evt\<close>: if the label of the command differs from the label of the
  message (or the \<open>event\<close> of the command does not fit in 8 bits) the message is
  dropped with no call; otherwise the timers are stopped, the retransmission count is
  cleared, the reject event of that command (if the table has one and, for an event of a
  stream, if the stream of the first byte of the command is found) is sent with the
  signal id of the command and the error \<open>AVDT_ERR_NSC\<close>, and the response is reported
  to the CCB. A reject event of a stream for a command without a byte is outside of the
  model.
\<close>

theorem invalid_signal_handling:
  assumes "avdt_msg_asmbl K (p_rx_msg ccb) b = Some (Some m, rx)"
    and "unat (offset m) + 1 < length (data m)"
  shows
    "(invalid_sig D (sig_of m) \<and> msg_type_of m = AVDT_MSG_TYPE_CMD \<longrightarrow>
        avdt_msg_ind K D parse ccb b =
          Some (ccb\<lparr>p_rx_msg := rx, rsp_q := rsp_q ccb @ [grej_buf K D m]\<rparr>,
                [Avdt_ccb_event AVDT_CCB_SENDMSG_EVT None])) \<and>
     (invalid_sig D (sig_of m) \<and>
      (msg_type_of m = AVDT_MSG_TYPE_RSP \<or>
       msg_type_of m = AVDT_MSG_TYPE_REJ \<and> len m \<noteq> AVDT_LEN_GEN_REJ D) \<longrightarrow>
        avdt_msg_ind K D parse ccb b = Some (ccb\<lparr>p_rx_msg := rx\<rparr>, [])) \<and>
     (msg_type_of m = AVDT_MSG_TYPE_REJ \<and> len m = AVDT_LEN_GEN_REJ D \<longrightarrow>
        (p_curr_cmd ccb = None \<longrightarrow>
           avdt_msg_ind K D parse ccb b = Some (ccb\<lparr>p_rx_msg := rx\<rparr>, [])) \<and>
        (p_curr_cmd ccb = Some cmd \<and> avdt_msg_rej_2_evt (ucast (event cmd)) = Some evt \<and>
         \<not> (event cmd = ucast (ucast (event cmd) :: u8) \<and>
            AVDT_LAYERSPEC_LABEL K (layer_specific cmd) = label_of m) \<longrightarrow>
           avdt_msg_ind K D parse ccb b = Some (ccb\<lparr>p_rx_msg := rx\<rparr>, [])) \<and>
        (p_curr_cmd ccb = Some cmd \<and> avdt_msg_rej_2_evt (ucast (event cmd)) = Some evt \<and>
         event cmd = ucast (ucast (event cmd) :: u8) \<and>
         AVDT_LAYERSPEC_LABEL K (layer_specific cmd) = label_of m \<longrightarrow>
           avdt_msg_ind K D parse ccb b =
             (case evt of
                No_evt \<Rightarrow>
                  Some (ccb\<lparr>p_rx_msg := rx, ret_count := 0\<rparr>,
                        [Alarm_cancel_idle_ccb_timer, Alarm_cancel_ret_ccb_timer,
                         Alarm_cancel_rsp_ccb_timer,
                         Avdt_ccb_event AVDT_CCB_RCVRSP_EVT None])
              | Ccb_evt e \<Rightarrow>
                  Some (ccb\<lparr>p_rx_msg := rx, ret_count := 0\<rparr>,
                        [Alarm_cancel_idle_ccb_timer, Alarm_cancel_ret_ccb_timer,
                         Alarm_cancel_rsp_ccb_timer,
                         Avdt_ccb_event e
                           (Some \<lparr>hdr_label = label_of m, hdr_sig_id = ucast (event cmd),
                                  hdr_err_code = AVDT_ERR_NSC, hdr_err_param = 0,
                                  single_seid = 0\<rparr>),
                         Avdt_ccb_event AVDT_CCB_RCVRSP_EVT None])
              | Scb_evt e \<Rightarrow>
                  (case data cmd of
                     [] \<Rightarrow> None
                   | scb_hdl # rest \<Rightarrow>
                       (case avdt_scb_by_hdl D scb_hdl of
                          None \<Rightarrow>
                            Some (ccb\<lparr>p_rx_msg := rx, ret_count := 0\<rparr>,
                                  [Alarm_cancel_idle_ccb_timer, Alarm_cancel_ret_ccb_timer,
                                   Alarm_cancel_rsp_ccb_timer,
                                   Avdt_ccb_event AVDT_CCB_RCVRSP_EVT None])
                        | Some p_scb \<Rightarrow>
                            Some (ccb\<lparr>p_rx_msg := rx, ret_count := 0\<rparr>,
                                  [Alarm_cancel_idle_ccb_timer, Alarm_cancel_ret_ccb_timer,
                                   Alarm_cancel_rsp_ccb_timer,
                                   Avdt_scb_event p_scb e
                                     \<lparr>hdr_label = label_of m,
                                      hdr_sig_id = ucast (event cmd),
                                      hdr_err_code = AVDT_ERR_NSC, hdr_err_param = 0,
                                      single_seid = 0\<rparr>,
                                   Avdt_ccb_event AVDT_CCB_RCVRSP_EVT None]))))))"
proof (intro conjI impI)
  assume h: "invalid_sig D (sig_of m) \<and> msg_type_of m = AVDT_MSG_TYPE_CMD"
  then have i: "invalid_sig D (sig_of m)" and t: "msg_type_of m = AVDT_MSG_TYPE_CMD"
    by simp_all
  from verify_invalid_cmd [OF assms(2) i t, of K "ccb\<lparr>p_rx_msg := rx\<rparr>"]
  obtain v where v: "ind_verify K D (ccb\<lparr>p_rx_msg := rx\<rparr>) m = Some v" "\<not> v_ok v"
      "\<not> v_handle_rsp v"
      "v_ccb v = ccb\<lparr>p_rx_msg := rx, rsp_q := rsp_q ccb @ [grej_buf K D m]\<rparr>"
      "v_calls v = [Avdt_ccb_event AVDT_CCB_SENDMSG_EVT None]"
    by auto
  from not_ok_rest [OF v(1) v(2) v(3), of parse] v(4) v(5) assms(1)
  show "avdt_msg_ind K D parse ccb b =
          Some (ccb\<lparr>p_rx_msg := rx, rsp_q := rsp_q ccb @ [grej_buf K D m]\<rparr>,
                [Avdt_ccb_event AVDT_CCB_SENDMSG_EVT None])"
    by (simp add: avdt_msg_ind_def)
next
  assume h: "invalid_sig D (sig_of m) \<and>
      (msg_type_of m = AVDT_MSG_TYPE_RSP \<or>
       msg_type_of m = AVDT_MSG_TYPE_REJ \<and> len m \<noteq> AVDT_LEN_GEN_REJ D)"
  then have i: "invalid_sig D (sig_of m)"
    and t: "msg_type_of m = AVDT_MSG_TYPE_RSP \<or>
      msg_type_of m = AVDT_MSG_TYPE_REJ \<and> len m \<noteq> AVDT_LEN_GEN_REJ D"
    by simp_all
  from verify_invalid_drop [OF assms(2) i t, of K "ccb\<lparr>p_rx_msg := rx\<rparr>"]
  obtain v where v: "ind_verify K D (ccb\<lparr>p_rx_msg := rx\<rparr>) m = Some v" "\<not> v_ok v"
      "\<not> v_handle_rsp v" "v_ccb v = ccb\<lparr>p_rx_msg := rx\<rparr>" "v_calls v = []"
    by auto
  from not_ok_rest [OF v(1) v(2) v(3), of parse] v(4) v(5) assms(1)
  show "avdt_msg_ind K D parse ccb b = Some (ccb\<lparr>p_rx_msg := rx\<rparr>, [])"
    by (simp add: avdt_msg_ind_def)
next
  assume h: "msg_type_of m = AVDT_MSG_TYPE_REJ \<and> len m = AVDT_LEN_GEN_REJ D"
  have mem: "unat (offset m) < length (data m)"
    using assms(2) by simp
  from h gen_rej_handling(1) [OF assms(1) mem, of D parse]
  show "p_curr_cmd ccb = None \<Longrightarrow>
           avdt_msg_ind K D parse ccb b = Some (ccb\<lparr>p_rx_msg := rx\<rparr>, [])"
    by simp
next
  assume h: "msg_type_of m = AVDT_MSG_TYPE_REJ \<and> len m = AVDT_LEN_GEN_REJ D"
    and c: "p_curr_cmd ccb = Some cmd \<and> avdt_msg_rej_2_evt (ucast (event cmd)) = Some evt \<and>
         \<not> (event cmd = ucast (ucast (event cmd) :: u8) \<and>
            AVDT_LAYERSPEC_LABEL K (layer_specific cmd) = label_of m)"
  have mem: "unat (offset m) < length (data m)"
    using assms(2) by simp
  from h c gen_rej_handling(2) [OF assms(1) mem, of D cmd evt parse]
  show "avdt_msg_ind K D parse ccb b = Some (ccb\<lparr>p_rx_msg := rx\<rparr>, [])"
    by simp
next
  assume h: "msg_type_of m = AVDT_MSG_TYPE_REJ \<and> len m = AVDT_LEN_GEN_REJ D"
    and c: "p_curr_cmd ccb = Some cmd \<and> avdt_msg_rej_2_evt (ucast (event cmd)) = Some evt \<and>
         event cmd = ucast (ucast (event cmd) :: u8) \<and>
         AVDT_LAYERSPEC_LABEL K (layer_specific cmd) = label_of m"
  have mem: "unat (offset m) < length (data m)"
    using assms(2) by simp
  from h c gen_rej_handling(3) [OF assms(1) mem, of D cmd evt parse]
  show "avdt_msg_ind K D parse ccb b =
             (case evt of
                No_evt \<Rightarrow>
                  Some (ccb\<lparr>p_rx_msg := rx, ret_count := 0\<rparr>,
                        [Alarm_cancel_idle_ccb_timer, Alarm_cancel_ret_ccb_timer,
                         Alarm_cancel_rsp_ccb_timer,
                         Avdt_ccb_event AVDT_CCB_RCVRSP_EVT None])
              | Ccb_evt e \<Rightarrow>
                  Some (ccb\<lparr>p_rx_msg := rx, ret_count := 0\<rparr>,
                        [Alarm_cancel_idle_ccb_timer, Alarm_cancel_ret_ccb_timer,
                         Alarm_cancel_rsp_ccb_timer,
                         Avdt_ccb_event e
                           (Some \<lparr>hdr_label = label_of m, hdr_sig_id = ucast (event cmd),
                                  hdr_err_code = AVDT_ERR_NSC, hdr_err_param = 0,
                                  single_seid = 0\<rparr>),
                         Avdt_ccb_event AVDT_CCB_RCVRSP_EVT None])
              | Scb_evt e \<Rightarrow>
                  (case data cmd of
                     [] \<Rightarrow> None
                   | scb_hdl # rest \<Rightarrow>
                       (case avdt_scb_by_hdl D scb_hdl of
                          None \<Rightarrow>
                            Some (ccb\<lparr>p_rx_msg := rx, ret_count := 0\<rparr>,
                                  [Alarm_cancel_idle_ccb_timer, Alarm_cancel_ret_ccb_timer,
                                   Alarm_cancel_rsp_ccb_timer,
                                   Avdt_ccb_event AVDT_CCB_RCVRSP_EVT None])
                        | Some p_scb \<Rightarrow>
                            Some (ccb\<lparr>p_rx_msg := rx, ret_count := 0\<rparr>,
                                  [Alarm_cancel_idle_ccb_timer, Alarm_cancel_ret_ccb_timer,
                                   Alarm_cancel_rsp_ccb_timer,
                                   Avdt_scb_event p_scb e
                                     \<lparr>hdr_label = label_of m,
                                      hdr_sig_id = ucast (event cmd),
                                      hdr_err_code = AVDT_ERR_NSC, hdr_err_param = 0,
                                      single_seid = 0\<rparr>,
                                   Avdt_ccb_event AVDT_CCB_RCVRSP_EVT None]))))"
    by simp
qed

theorem invalid_signal_handling_witness:
  "avdt_msg_asmbl example_buf_defs (p_rx_msg example_ccb) (example_pdu 0x10 0)
     = Some (Some (example_pdu 0x10 0), None) \<and>
   avdt_msg_asmbl example_buf_defs (p_rx_msg example_ccb) (example_pdu 0x12 0x3F)
     = Some (Some (example_pdu 0x12 0x3F), None) \<and>
   avdt_msg_asmbl example_buf_defs (p_rx_msg example_ccb) (example_pdu 0x23 0)
     = Some (Some (example_pdu 0x23 0), None) \<and>
   invalid_sig example_ind_defs (sig_of (example_pdu 0x10 0)) \<and>
   invalid_sig example_ind_defs (sig_of (example_pdu 0x12 0x3F)) \<and>
   msg_type_of (example_pdu 0x10 0) = AVDT_MSG_TYPE_CMD \<and>
   msg_type_of (example_pdu 0x12 0x3F) = AVDT_MSG_TYPE_RSP \<and>
   msg_type_of (example_pdu 0x23 0) = AVDT_MSG_TYPE_REJ \<and>
   len (example_pdu 0x23 0) = AVDT_LEN_GEN_REJ example_ind_defs \<and>
   label_of (example_pdu 0x23 0) = 2 \<and>
   AVDT_LAYERSPEC_LABEL example_buf_defs (layer_specific example_sent_cmd) = 1 \<and>
   avdt_msg_ind example_buf_defs example_ind_defs example_parse example_ccb
       (example_pdu 0x10 0) =
     Some (example_ccb\<lparr>rsp_q :=
             [\<lparr>event = 0, len = 0, offset = 16, layer_specific = 17, data = []\<rparr>]\<rparr>,
           [Avdt_ccb_event AVDT_CCB_SENDMSG_EVT None]) \<and>
   avdt_msg_ind example_buf_defs example_ind_defs example_parse example_ccb
       (example_pdu 0x12 0x3F) = Some (example_ccb, []) \<and>
   avdt_msg_ind example_buf_defs example_ind_defs example_parse example_ccb
       (example_pdu 0x23 0) = Some (example_ccb, [])"
proof -
  have r: "p_rx_msg example_ccb = None"
    by (simp add: example_ccb_def)
  have a1: "avdt_msg_asmbl example_buf_defs (p_rx_msg example_ccb) (example_pdu 0x10 0)
     = Some (Some (example_pdu 0x10 0), None)"
    unfolding r
    by (rule example_pdu_asmbl) (simp add: prs_pkt_type_def AVDT_PKT_TYPE_SINGLE_def)
  have a2: "avdt_msg_asmbl example_buf_defs (p_rx_msg example_ccb) (example_pdu 0x12 0x3F)
     = Some (Some (example_pdu 0x12 0x3F), None)"
    unfolding r
    by (rule example_pdu_asmbl) (simp add: prs_pkt_type_def AVDT_PKT_TYPE_SINGLE_def)
  have a3: "avdt_msg_asmbl example_buf_defs (p_rx_msg example_ccb) (example_pdu 0x23 0)
     = Some (Some (example_pdu 0x23 0), None)"
    unfolding r
    by (rule example_pdu_asmbl) (simp add: prs_pkt_type_def AVDT_PKT_TYPE_SINGLE_def)
  have l: "unat (offset (example_pdu 0x10 0)) + 1 < length (data (example_pdu 0x10 0))"
    "unat (offset (example_pdu 0x12 0x3F)) + 1 < length (data (example_pdu 0x12 0x3F))"
    "unat (offset (example_pdu 0x23 0)) + 1 < length (data (example_pdu 0x23 0))"
    by (simp_all add: example_pdu_def)
  have i: "invalid_sig example_ind_defs (sig_of (example_pdu 0x10 0))"
    "invalid_sig example_ind_defs (sig_of (example_pdu 0x12 0x3F))"
    by (simp_all add: invalid_sig_def sig_of_def example_pdu_def prs_sig_def
          example_ind_defs_def)
  have t: "msg_type_of (example_pdu 0x10 0) = AVDT_MSG_TYPE_CMD"
    "msg_type_of (example_pdu 0x12 0x3F) = AVDT_MSG_TYPE_RSP"
    "msg_type_of (example_pdu 0x23 0) = AVDT_MSG_TYPE_REJ"
    by (simp_all add: msg_type_of_def example_pdu_def prs_msg_type_def
          AVDT_MSG_TYPE_CMD_def AVDT_MSG_TYPE_RSP_def AVDT_MSG_TYPE_REJ_def)
  have g: "grej_buf example_buf_defs example_ind_defs (example_pdu 0x10 0) =
      \<lparr>event = 0, len = 0, offset = 16, layer_specific = 17, data = []\<rparr>"
    by (simp add: grej_buf_def sig_of_def example_pdu_def prs_sig_def prs_label_def
          example_buf_defs_def example_ind_defs_def AVDT_MSG_TYPE_GRJ_def)
  have c: "example_ccb\<lparr>p_rx_msg := None\<rparr> = example_ccb" "rsp_q example_ccb = []"
    "p_curr_cmd example_ccb = Some example_sent_cmd"
    by (simp_all add: example_ccb_def)
  have gl: "len (example_pdu 0x23 0) = AVDT_LEN_GEN_REJ example_ind_defs"
    by (simp add: example_pdu_def example_ind_defs_def)
  have lb: "label_of (example_pdu 0x23 0) = 2"
    "AVDT_LAYERSPEC_LABEL example_buf_defs (layer_specific example_sent_cmd) = 1"
    by (simp_all add: label_of_def example_pdu_def prs_label_def example_buf_defs_def
          example_sent_cmd_def)
  have ev: "avdt_msg_rej_2_evt (ucast (event example_sent_cmd)) =
      Some (Scb_evt AVDT_SCB_MSG_SETCONFIG_REJ_EVT)"
    by (simp add: avdt_msg_rej_2_evt_def example_sent_cmd_def AVDT_SIG_DISCOVER_def
          AVDT_SIG_GETCAP_def AVDT_SIG_SETCONFIG_def)
  from invalid_signal_handling [OF a1 l(1), where D = example_ind_defs and parse = example_parse]
    i(1) t(1) g c
  have 1: "avdt_msg_ind example_buf_defs example_ind_defs example_parse example_ccb
       (example_pdu 0x10 0) =
     Some (example_ccb\<lparr>rsp_q :=
             [\<lparr>event = 0, len = 0, offset = 16, layer_specific = 17, data = []\<rparr>]\<rparr>,
           [Avdt_ccb_event AVDT_CCB_SENDMSG_EVT None])"
    by simp
  from invalid_signal_handling [OF a2 l(2), where D = example_ind_defs and parse = example_parse]
    i(2) t(2) c
  have 2: "avdt_msg_ind example_buf_defs example_ind_defs example_parse example_ccb
       (example_pdu 0x12 0x3F) = Some (example_ccb, [])"
    by simp
  from invalid_signal_handling [OF a3 l(3), where D = example_ind_defs and parse = example_parse
      and cmd = example_sent_cmd and evt = "Scb_evt AVDT_SCB_MSG_SETCONFIG_REJ_EVT"]
    t(3) gl lb ev c
  have 3: "avdt_msg_ind example_buf_defs example_ind_defs example_parse example_ccb
       (example_pdu 0x23 0) = Some (example_ccb, [])"
    by simp
  from a1 a2 a3 i t gl lb 1 2 3 show ?thesis
    by simp
qed

end
